theory Spec2Isabelle
  imports Main
begin

text \<open>
  A model of the Aternos Guard server: the configuration and its loading, the users and
  the sessions with the access control in front of the routes, the event log, and the
  controller of the connection with its timers. Every function of the server is a
  function on an explicit state, the record of the module's variables; what a handler
  reads from outside (the clock, random draws, what the protocol client does) is a
  parameter. The first part holds the model, the second part its properties.
\<close>

section \<open>JavaScript values, as far as the server reads them\<close>

text \<open>
  Request bodies, query parameters and the parsed \<^verbatim>\<open>config.json\<close> hold arbitrary JSON
  values. The server applies three things to them: the truthiness test of \<^verbatim>\<open>||\<close>,
  \<^verbatim>\<open>String(v)\<close> (also implicit in \<^verbatim>\<open>parseInt(v, 10)\<close>), and \<^verbatim>\<open>typeof v === "string"\<close>.
  A number, an array or an object is therefore carried as the text that \<^verbatim>\<open>String\<close> gives
  for it; strings are ASCII, one \<^typ>\<open>char\<close> per code unit.
\<close>

type_synonym time = int

datatype jsval =
    JUndefined
  | JNull
  | JBool bool
  | JNum string
  | JString string
  | JObject string

fun ToString :: "jsval \<Rightarrow> string" where
  "ToString JUndefined = ''undefined''"
| "ToString JNull = ''null''"
| "ToString (JBool b) = (if b then ''true'' else ''false'')"
| "ToString (JNum img) = img"
| "ToString (JString s) = s"
| "ToString (JObject img) = img"

fun truthy :: "jsval \<Rightarrow> bool" where
  "truthy JUndefined = False"
| "truthy JNull = False"
| "truthy (JBool b) = b"
| "truthy (JNum img) = (img \<noteq> ''0'' \<and> img \<noteq> ''NaN'')"
| "truthy (JString s) = (s \<noteq> [])"
| "truthy (JObject img) = True"

definition is_ws :: "char \<Rightarrow> bool" where
  "is_ws c = (c \<in> set [CHR '' '', CHR 0x09, CHR 0x0A, CHR 0x0B, CHR 0x0C, CHR 0x0D])"

definition trim :: "string \<Rightarrow> string" where
  "trim s = rev (dropWhile is_ws (rev (dropWhile is_ws s)))"

text \<open>\<^verbatim>\<open>String(v || "").trim()\<close>\<close>

definition string_or_empty :: "jsval \<Rightarrow> string" where
  "string_or_empty v = trim (if truthy v then ToString v else [])"

subsection \<open>Numbers\<close>

text \<open>
  The numbers the server computes with are results of \<^verbatim>\<open>parseInt\<close>: \<^verbatim>\<open>NaN\<close>, an infinity,
  or a double that holds an integer. \<open>number_of\<close> is the rounding of a mathematical
  integer to the nearest double (ties to even), which is the identity below \<open>2^53\<close>.
\<close>

datatype jsnum = NaN | Infinity | NegInfinity | Fin int

fun bit_length :: "nat \<Rightarrow> nat" where
  "bit_length n = (if n = 0 then 0 else Suc (bit_length (n div 2)))"

declare bit_length.simps [simp del]

definition round_double :: "nat \<Rightarrow> nat option" where
  "round_double n =
     (if n < 2 ^ 53 then Some n
      else let e = bit_length n - 53;
               q = n div 2 ^ e;
               r = n mod 2 ^ e;
               q' = (if 2 * r > 2 ^ e \<or> (2 * r = 2 ^ e \<and> odd q) then q + 1 else q);
               v = q' * 2 ^ e
           in if v < 2 ^ 1024 then Some v else None)"

definition number_of :: "bool \<Rightarrow> nat \<Rightarrow> jsnum" where
  "number_of neg n =
     (case round_double n of
        None \<Rightarrow> (if neg then NegInfinity else Infinity)
      | Some v \<Rightarrow> Fin (if neg then - int v else int v))"

definition is_digit :: "char \<Rightarrow> bool" where
  "is_digit c = (c \<in> set ''0123456789'')"

definition digit_val :: "char \<Rightarrow> nat" where
  "digit_val c = length (takeWhile (\<lambda>d. d \<noteq> c) ''0123456789'')"

definition digits_val :: "string \<Rightarrow> nat" where
  "digits_val ds = foldl (\<lambda>acc c. 10 * acc + digit_val c) 0 ds"

text \<open>
  \<^verbatim>\<open>parseInt(s, 10)\<close> on the text of its argument: leading white space is skipped, one sign
  is read, then the longest run of decimal digits; no digit gives \<^verbatim>\<open>NaN\<close>.
\<close>

definition parseInt :: "string \<Rightarrow> jsnum" where
  "parseInt s =
     (let s1 = dropWhile is_ws s;
          neg = (s1 \<noteq> [] \<and> hd s1 = CHR ''-'');
          s2 = (if s1 \<noteq> [] \<and> (hd s1 = CHR ''-'' \<or> hd s1 = CHR ''+'') then tl s1 else s1);
          ds = takeWhile is_digit s2
      in if ds = [] then NaN else number_of neg (digits_val ds))"

text \<open>
  \<^verbatim>\<open>
  function toPositiveInt(value, fallback) {
    const parsed = parseInt(value, 10);
    return Number.isFinite(parsed) && parsed > 0 ? parsed : fallback;
  }\<close>
\<close>

definition toPositiveInt :: "jsval \<Rightarrow> int \<Rightarrow> int" where
  "toPositiveInt v fallback =
     (case parseInt (ToString v) of
        Fin parsed \<Rightarrow> (if parsed > 0 then parsed else fallback)
      | _ \<Rightarrow> fallback)"

subsection \<open>Printing numbers into messages\<close>

definition digit_char :: "nat \<Rightarrow> char" where
  "digit_char d = ''0123456789'' ! (d mod 10)"

fun show_nat :: "nat \<Rightarrow> string" where
  "show_nat n = (if n < 10 then [digit_char n] else show_nat (n div 10) @ [digit_char (n mod 10)])"

declare show_nat.simps [simp del]

definition show_int :: "int \<Rightarrow> string" where
  "show_int i = (if i < 0 then CHR ''-'' # show_nat (nat (- i)) else show_nat (nat i))"

text \<open>\<^verbatim>\<open>Math.round(ms / 1000)\<close>: the nearest integer, halves upwards.\<close>

definition round_seconds :: "int \<Rightarrow> int" where
  "round_seconds ms = (ms + 500) div 1000"

section \<open>Data model\<close>

datatype role = Admin | Operator | Viewer

datatype permission =
  StatusRead | LogsRead | BotControl | ConfigRead | ConfigWrite | UsersRead | UsersWrite

text \<open>\<^verbatim>\<open>ROLE_PERMISSIONS\<close>, and \<^verbatim>\<open>getPermissions\<close> on the role of a stored user.\<close>

fun getPermissions :: "role \<Rightarrow> permission list" where
  "getPermissions Admin =
     [StatusRead, LogsRead, BotControl, ConfigRead, ConfigWrite, UsersRead, UsersWrite]"
| "getPermissions Operator = [StatusRead, LogsRead, BotControl, ConfigRead]"
| "getPermissions Viewer = [StatusRead, LogsRead, ConfigRead]"

fun role_name :: "role \<Rightarrow> string" where
  "role_name Admin = ''admin''"
| "role_name Operator = ''operator''"
| "role_name Viewer = ''viewer''"

text \<open>\<^verbatim>\<open>VALID_ROLES.includes(v)\<close>: strict equality with one of the three role names.\<close>

definition valid_role :: "jsval \<Rightarrow> role option" where
  "valid_role v =
     (case v of
        JString s \<Rightarrow>
          (if s = ''admin'' then Some Admin
           else if s = ''operator'' then Some Operator
           else if s = ''viewer'' then Some Viewer
           else None)
      | _ \<Rightarrow> None)"

text \<open>
  A time stamp text (\<^verbatim>\<open>new Date().toISOString()\<close>) is represented by the instant it
  denotes; a value taken over from \<^verbatim>\<open>config.json\<close> is kept as it was read.
\<close>

datatype stamp = Stamp time | Kept jsval

record user =
  u_id :: string
  u_name :: string
  u_role :: role
  u_token :: string
  u_createdAt :: stamp
  u_lastLoginAt :: "stamp option"

record config =
  host :: string
  port :: int
  username :: string
  reconnectDelay :: int
  pingInterval :: int
  version :: string
  users :: "user list"

record session =
  userId :: string
  expiresAt :: time

record log_entry =
  l_id :: time
  l_time :: time
  l_level :: string
  l_message :: string

datatype phase = Stopped | Connecting | Online | Error

datatype reachability = Unknown | Reachable | Offline

record public_config =
  pc_host :: string
  pc_port :: int
  pc_username :: string
  pc_reconnectDelay :: int
  pc_pingInterval :: int
  pc_version :: string

record status_payload =
  p_botStatus :: phase
  p_serverStatus :: reachability
  p_reconnectAttempts :: nat
  p_lastPing :: "time option"
  p_lastEventAt :: time
  p_uptime :: int
  p_isRunning :: bool
  p_config :: public_config

datatype ws_message = WsLog log_entry | WsStatus status_payload

text \<open>The actor of a control action: a user, or \<^verbatim>\<open>{ name: "AutoStart", role: "system" }\<close>.\<close>

record actor =
  a_name :: string
  a_role :: string

datatype timer_kind = ReconnectT | PingT | HealthT | StartT actor | SweepT

text \<open>
  The module-level variables of the server, and below them the part of the environment
  they refer to: the messages handed to \<^verbatim>\<open>broadcast\<close>, the protocol-client instances
  that were created and not yet quit, whether the \<^verbatim>\<open>once("login")\<close> listener of the
  current instance is still attached, the timers of the event loop that are set and
  neither cleared nor (for a timeout) fired, and the next fresh handle. A timer or a
  client instance is an object in the source and a handle here. The random fraction of
  a log entry's id and the output on the console are left out.
\<close>

record state =
  config :: config
  configFile :: "config option"
  sessions :: "string \<rightharpoonup> session"
  botInst :: "nat option"
  botStatus :: phase
  serverStatus :: reachability
  reconnectAttempts :: nat
  lastPing :: "time option"
  lastBotEventAt :: time
  botStartTime :: "time option"
  isRunning :: bool
  pingTimer :: "nat option"
  reconnectTimer :: "nat option"
  healthTimer :: "nat option"
  keepAlivePulseCount :: nat
  logs :: "log_entry list"
  sent :: "ws_message list"
  liveBots :: "nat list"
  loginListener :: bool
  pendingTimers :: "(nat \<times> timer_kind) list"
  nextHandle :: nat

definition SESSION_TTL_MS :: int where
  "SESSION_TTL_MS = 14 * 24 * 60 * 60 * 1000"

definition MAX_LOGS :: nat where
  "MAX_LOGS = 500"

definition DEFAULT_CONFIG :: config where
  "DEFAULT_CONFIG =
     \<lparr> host = ''yosef2903.aternos.me'', port = 39695, username = ''AternosGuard'',
       reconnectDelay = 15000, pingInterval = 45000, version = ''1.20.1'', users = [] \<rparr>"

section \<open>Event log and broadcast\<close>

definition broadcast :: "ws_message \<Rightarrow> state \<Rightarrow> state" where
  "broadcast m s = s\<lparr>sent := sent s @ [m]\<rparr>"

definition public_of :: "config \<Rightarrow> public_config" where
  "public_of c =
     \<lparr> pc_host = host c, pc_port = port c, pc_username = username c,
       pc_reconnectDelay = reconnectDelay c, pc_pingInterval = pingInterval c,
       pc_version = version c \<rparr>"

definition buildStatusPayload :: "time \<Rightarrow> state \<Rightarrow> status_payload" where
  "buildStatusPayload now s =
     \<lparr> p_botStatus = botStatus s, p_serverStatus = serverStatus s,
       p_reconnectAttempts = reconnectAttempts s, p_lastPing = lastPing s,
       p_lastEventAt = lastBotEventAt s,
       p_uptime = (case botStartTime s of
                     Some t0 \<Rightarrow> (if t0 \<noteq> 0 then now - t0 else 0)
                   | None \<Rightarrow> 0),
       p_isRunning = isRunning s, p_config = public_of (config s) \<rparr>"

definition broadcastStatus :: "time \<Rightarrow> state \<Rightarrow> state" where
  "broadcastStatus now s = broadcast (WsStatus (buildStatusPayload now s)) s"

text \<open>
  \<^verbatim>\<open>
  logs.push(entry);
  if (logs.length > MAX_LOGS) logs.shift();
  broadcast({ type: "log", data: entry });\<close>
\<close>

definition push_log :: "log_entry \<Rightarrow> log_entry list \<Rightarrow> log_entry list" where
  "push_log entry ls = (let ls' = ls @ [entry] in if length ls' > MAX_LOGS then tl ls' else ls')"

definition addLog :: "string \<Rightarrow> string \<Rightarrow> time \<Rightarrow> state \<Rightarrow> state" where
  "addLog lvl msg now s =
     (let entry = \<lparr> l_id = now, l_time = now, l_level = lvl, l_message = msg \<rparr>
      in broadcast (WsLog entry) (s\<lparr>logs := push_log entry (logs s)\<rparr>))"

text \<open>\<^verbatim>\<open>xs.slice(start)\<close> for an integer \<open>start\<close>; a negative one counts from the end.\<close>

definition slice_from :: "int \<Rightarrow> 'a list \<Rightarrow> 'a list" where
  "slice_from start xs =
     (let n = int (length xs);
          k = (if start < 0 then max (n + start) 0 else min start n)
      in drop (nat k) xs)"

text \<open>
  \<^verbatim>\<open>
  app.get("/api/logs", ..., (req, res) => {
    const limit = toPositiveInt(req.query.limit, 100);
    res.json(logs.slice(-Math.min(limit, MAX_LOGS)));
  });\<close>
\<close>

definition get_logs :: "jsval \<Rightarrow> state \<Rightarrow> log_entry list" where
  "get_logs query_limit s =
     (let limit = toPositiveInt query_limit 100
      in slice_from (- min limit (int MAX_LOGS)) (logs s))"

definition actorLabel :: "actor option \<Rightarrow> string" where
  "actorLabel a =
     (case a of None \<Rightarrow> ''system'' | Some x \<Rightarrow> a_name x @ '' ('' @ a_role x @ '')'')"

section \<open>Configuration\<close>

text \<open>
  The parsed \<^verbatim>\<open>config.json\<close>: an object whose fields are any values (\<open>JUndefined\<close> for a
  missing key). \<open>r_users\<close> is \<open>None\<close> unless \<^verbatim>\<open>raw.users\<close> is an array; an element of the
  array is \<open>None\<close> unless it is an object. A missing or unparsable file is \<open>no_config\<close>.
\<close>

record raw_user =
  ru_id :: jsval
  ru_name :: jsval
  ru_role :: jsval
  ru_token :: jsval
  ru_createdAt :: jsval
  ru_lastLoginAt :: jsval

record raw_config =
  r_host :: jsval
  r_port :: jsval
  r_username :: jsval
  r_reconnectDelay :: jsval
  r_pingInterval :: jsval
  r_version :: jsval
  r_users :: "raw_user option list option"

definition no_config :: raw_config where
  "no_config =
     \<lparr> r_host = JUndefined, r_port = JUndefined, r_username = JUndefined,
       r_reconnectDelay = JUndefined, r_pingInterval = JUndefined, r_version = JUndefined,
       r_users = None \<rparr>"

text \<open>\<^verbatim>\<open>makeUserToken(prefix)\<close>; the hexadecimal text of the random bytes is an input.\<close>

definition makeUserToken :: "string \<Rightarrow> string \<Rightarrow> string" where
  "makeUserToken prefix hex = prefix @ ''_'' @ hex"

text \<open>
  \<^verbatim>\<open>
  function normalizeUser(rawUser) {
    if (!rawUser || typeof rawUser !== "object") return null;
    const name = String(rawUser.name || "").trim();
    const token = String(rawUser.token || "").trim();
    const role = VALID_ROLES.includes(rawUser.role) ? rawUser.role : "viewer";
    if (!name || !token) return null;
    return { id: String(rawUser.id || crypto.randomUUID()), name, role, token,
             createdAt: rawUser.createdAt || new Date().toISOString(),
             lastLoginAt: rawUser.lastLoginAt || null };
  }\<close>
  The UUID that \<^verbatim>\<open>crypto.randomUUID()\<close> would give is an input.
\<close>

definition normalizeUser :: "raw_user option \<Rightarrow> string \<Rightarrow> time \<Rightarrow> user option" where
  "normalizeUser rawUser uuid now =
     (case rawUser of
        None \<Rightarrow> None
      | Some r \<Rightarrow>
          (let name = string_or_empty (ru_name r);
               token = string_or_empty (ru_token r);
               role = (case valid_role (ru_role r) of Some x \<Rightarrow> x | None \<Rightarrow> Viewer)
           in if name = [] \<or> token = [] then None
              else Some \<lparr> u_id = (if truthy (ru_id r) then ToString (ru_id r) else uuid),
                          u_name = name, u_role = role, u_token = token,
                          u_createdAt =
                            (if truthy (ru_createdAt r) then Kept (ru_createdAt r) else Stamp now),
                          u_lastLoginAt =
                            (if truthy (ru_lastLoginAt r) then Some (Kept (ru_lastLoginAt r))
                             else None) \<rparr>))"

text \<open>The field of \<^verbatim>\<open>{ ...DEFAULT_CONFIG, ...raw }\<close>: the raw value where the key is present.\<close>

definition merged :: "jsval \<Rightarrow> jsval \<Rightarrow> jsval" where
  "merged dflt r = (if r = JUndefined then dflt else r)"

definition string_field :: "jsval \<Rightarrow> string \<Rightarrow> string" where
  "string_field v dflt = trim (if truthy v then ToString v else dflt)"

text \<open>
  \<^verbatim>\<open>raw.users.map(normalizeUser).filter(Boolean)\<close>; the \<open>i\<close>-th element draws the UUID
  \<open>uuid i\<close> if it needs one.
\<close>

definition normalize_all :: "raw_user option list \<Rightarrow> (nat \<Rightarrow> string) \<Rightarrow> time \<Rightarrow> user list" where
  "normalize_all rs uuid now =
     List.map_filter (\<lambda>(i, r). normalizeUser r (uuid i) now) (enumerate 0 rs)"

text \<open>
  \<open>loadConfig\<close>, lines 77 to 115 of the server. \<open>admin_env\<close> is \<^verbatim>\<open>process.env.ADMIN_TOKEN\<close>,
  \<open>hex\<close> the random text of a generated token.
\<close>

definition loadConfig ::
  "raw_config \<Rightarrow> string option \<Rightarrow> string \<Rightarrow> (nat \<Rightarrow> string) \<Rightarrow> time \<Rightarrow> config" where
  "loadConfig raw admin_env hex uuid now =
     (let d = DEFAULT_CONFIG;
          us = (case r_users raw of Some rs \<Rightarrow> normalize_all rs uuid now | None \<Rightarrow> []);
          initialToken =
            (case admin_env of
               Some t \<Rightarrow> (if t \<noteq> [] then t else makeUserToken ''admin'' hex)
             | None \<Rightarrow> makeUserToken ''admin'' hex);
          us' =
            (if length us = 0
             then us @ [\<lparr> u_id = uuid (case r_users raw of Some rs \<Rightarrow> length rs | None \<Rightarrow> 0),
                          u_name = ''Owner'', u_role = Admin, u_token = initialToken,
                          u_createdAt = Stamp now, u_lastLoginAt = None \<rparr>]
             else us)
      in \<lparr> host = string_field (merged (JString (host d)) (r_host raw)) (host d),
           port = toPositiveInt (merged (JNum (show_int (port d))) (r_port raw)) (port d),
           username = string_field (merged (JString (username d)) (r_username raw)) (username d),
           reconnectDelay =
             toPositiveInt (merged (JNum (show_int (reconnectDelay d))) (r_reconnectDelay raw))
               (reconnectDelay d),
           pingInterval =
             toPositiveInt (merged (JNum (show_int (pingInterval d))) (r_pingInterval raw))
               (pingInterval d),
           version = string_field (merged (JString (version d)) (r_version raw)) (version d),
           users = us' \<rparr>)"

definition saveConfig :: "config \<Rightarrow> state \<Rightarrow> state" where
  "saveConfig cfg s = s\<lparr>configFile := Some cfg\<rparr>"

text \<open>
  The state once the module is loaded: \<^verbatim>\<open>config = loadConfig(); saveConfig(config)\<close>, the
  initial values of the variables, the session sweep interval and the timeout that
  starts the bot as \<^verbatim>\<open>AutoStart\<close>.
\<close>

definition boot ::
  "raw_config \<Rightarrow> string option \<Rightarrow> string \<Rightarrow> (nat \<Rightarrow> string) \<Rightarrow> time \<Rightarrow> state" where
  "boot raw admin_env hex uuid now =
     (let cfg = loadConfig raw admin_env hex uuid now
      in \<lparr> config = cfg, configFile = Some cfg, sessions = Map.empty, botInst = None,
           botStatus = Stopped, serverStatus = Unknown, reconnectAttempts = 0,
           lastPing = None, lastBotEventAt = now, botStartTime = None, isRunning = False,
           pingTimer = None, reconnectTimer = None, healthTimer = None,
           keepAlivePulseCount = 0, logs = [], sent = [], liveBots = [],
           loginListener = False,
           pendingTimers =
             [(0, SweepT), (1, StartT \<lparr> a_name = ''AutoStart'', a_role = ''system'' \<rparr>)],
           nextHandle = 2 \<rparr>)"

text \<open>The body of \<^verbatim>\<open>POST /api/config\<close>.\<close>

record config_body =
  b_host :: jsval
  b_port :: jsval
  b_username :: jsval
  b_reconnectDelay :: jsval
  b_pingInterval :: jsval
  b_version :: jsval

text \<open>\<^verbatim>\<open>typeof v === "string" && v.trim()\<close>, giving the trimmed text.\<close>

definition nonblank_string :: "jsval \<Rightarrow> string option" where
  "nonblank_string v =
     (case v of JString t \<Rightarrow> (if trim t \<noteq> [] then Some (trim t) else None) | _ \<Rightarrow> None)"

definition write_config :: "config_body \<Rightarrow> config \<Rightarrow> config" where
  "write_config b c =
     (let c1 = (case nonblank_string (b_host b) of Some h \<Rightarrow> c\<lparr>host := h\<rparr> | None \<Rightarrow> c);
          c2 = (case nonblank_string (b_username b) of Some u \<Rightarrow> c1\<lparr>username := u\<rparr> | None \<Rightarrow> c1);
          c3 = (case nonblank_string (b_version b) of Some v \<Rightarrow> c2\<lparr>version := v\<rparr> | None \<Rightarrow> c2);
          c4 = (if b_port b \<noteq> JUndefined
                then c3\<lparr>port := toPositiveInt (b_port b) (port c3)\<rparr> else c3);
          c5 = (if b_reconnectDelay b \<noteq> JUndefined
                then c4\<lparr>reconnectDelay := toPositiveInt (b_reconnectDelay b) (reconnectDelay c4)\<rparr>
                else c4)
      in if b_pingInterval b \<noteq> JUndefined
         then c5\<lparr>pingInterval := toPositiveInt (b_pingInterval b) (pingInterval c5)\<rparr>
         else c5)"

definition post_config :: "config_body \<Rightarrow> user \<Rightarrow> time \<Rightarrow> state \<Rightarrow> public_config \<times> state" where
  "post_config b actor now s =
     (let s1 = s\<lparr>config := write_config b (config s)\<rparr>;
          s2 = saveConfig (config s1) s1;
          s3 = addLog ''INFO'' (''Configuration updated by '' @ u_name actor) now s2;
          s4 = broadcastStatus now s3
      in (p_config (buildStatusPayload now s4), s4))"

section \<open>Sessions and access control\<close>

datatype failure = Failure nat string

text \<open>
  \<^verbatim>\<open>
  function pruneExpiredSessions() {
    const now = Date.now();
    for (const [sessionToken, session] of sessions.entries()) {
      if (session.expiresAt <= now) sessions.delete(sessionToken);
    }
  }\<close>
\<close>

definition pruneExpiredSessions :: "time \<Rightarrow> state \<Rightarrow> state" where
  "pruneExpiredSessions now s =
     s\<lparr>sessions :=
         (\<lambda>k. case sessions s k of
                  None \<Rightarrow> None
                | Some x \<Rightarrow> (if expiresAt x \<le> now then None else Some x))\<rparr>"

definition revokeSessionsForUser :: "string \<Rightarrow> state \<Rightarrow> state" where
  "revokeSessionsForUser uid s =
     s\<lparr>sessions :=
         (\<lambda>k. case sessions s k of
                  None \<Rightarrow> None
                | Some x \<Rightarrow> (if userId x = uid then None else Some x))\<rparr>"

definition findUserByToken :: "string \<Rightarrow> state \<Rightarrow> user option" where
  "findUserByToken tok s = find (\<lambda>u. u_token u = tok) (users (config s))"

text \<open>\<open>createSession\<close>; the random handle is an input.\<close>

definition createSession :: "user \<Rightarrow> string \<Rightarrow> time \<Rightarrow> state \<Rightarrow> string \<times> state" where
  "createSession u handle now s =
     (handle,
      s\<lparr>sessions := (sessions s)(handle \<mapsto> \<lparr> userId = u_id u, expiresAt = now + SESSION_TTL_MS \<rparr>)\<rparr>)"

text \<open>
  \<^verbatim>\<open>
  function resolveAuthFromToken(sessionToken) {
    if (!sessionToken) return null;
    const session = sessions.get(sessionToken);
    if (!session) return null;
    if (session.expiresAt <= Date.now()) { sessions.delete(sessionToken); return null; }
    const user = config.users.find((candidate) => candidate.id === session.userId);
    if (!user) { sessions.delete(sessionToken); return null; }
    session.expiresAt = Date.now() + SESSION_TTL_MS;
    return { user, session };
  }\<close>
  The clock is read twice: \<open>t1\<close> in the expiry test, \<open>t2\<close> for the new expiry. The session
  returned is the object in the store, so it carries the new expiry.
\<close>

definition resolveAuthFromToken ::
  "string option \<Rightarrow> time \<Rightarrow> time \<Rightarrow> state \<Rightarrow> (user \<times> session) option \<times> state" where
  "resolveAuthFromToken sessionToken t1 t2 s =
     (case sessionToken of
        None \<Rightarrow> (None, s)
      | Some tok \<Rightarrow>
          if tok = [] then (None, s)
          else
            (case sessions s tok of
               None \<Rightarrow> (None, s)
             | Some sess \<Rightarrow>
                 if expiresAt sess \<le> t1 then (None, s\<lparr>sessions := (sessions s)(tok := None)\<rparr>)
                 else
                   (case find (\<lambda>c. u_id c = userId sess) (users (config s)) of
                      None \<Rightarrow> (None, s\<lparr>sessions := (sessions s)(tok := None)\<rparr>)
                    | Some u \<Rightarrow>
                        (let sess' = sess\<lparr>expiresAt := t2 + SESSION_TTL_MS\<rparr>
                         in (Some (u, sess'), s\<lparr>sessions := (sessions s)(tok \<mapsto> sess')\<rparr>)))))"

text \<open>\<open>getBearerToken\<close> on \<^verbatim>\<open>req.headers.authorization || ""\<close>.\<close>

definition getBearerToken :: "string \<Rightarrow> string option" where
  "getBearerToken header =
     (if take 7 header = ''Bearer '' then Some (trim (drop 7 header)) else None)"

fun permission_name :: "permission \<Rightarrow> string" where
  "permission_name StatusRead = ''status:read''"
| "permission_name LogsRead = ''logs:read''"
| "permission_name BotControl = ''bot:control''"
| "permission_name ConfigRead = ''config:read''"
| "permission_name ConfigWrite = ''config:write''"
| "permission_name UsersRead = ''users:read''"
| "permission_name UsersWrite = ''users:write''"

text \<open>
  The middleware in front of a route: \<open>requireAuth\<close>, then \<open>requirePermission p\<close> where
  the route names one. A request is served at one instant \<open>now\<close>.
\<close>

definition requireAuth :: "string \<Rightarrow> time \<Rightarrow> state \<Rightarrow> (failure + user) \<times> state" where
  "requireAuth header now s =
     (case resolveAuthFromToken (getBearerToken header) now now s of
        (None, s') \<Rightarrow> (Inl (Failure 401 ''Unauthorized''), s')
      | (Some (u, sess), s') \<Rightarrow> (Inr u, s'))"

definition requirePermission :: "permission \<Rightarrow> user \<Rightarrow> failure + user" where
  "requirePermission p u =
     (if p \<in> set (getPermissions (u_role u)) then Inr u
      else Inl (Failure 403 (''Missing permission: '' @ permission_name p)))"

definition authorize :: "permission \<Rightarrow> string \<Rightarrow> time \<Rightarrow> state \<Rightarrow> (failure + user) \<times> state" where
  "authorize p header now s =
     (case requireAuth header now s of
        (Inl f, s') \<Rightarrow> (Inl f, s')
      | (Inr u, s') \<Rightarrow> (requirePermission p u, s'))"

section \<open>Users\<close>

record sanitized_user =
  su_id :: string
  su_name :: string
  su_role :: role
  su_tokenPreview :: string
  su_createdAt :: stamp
  su_lastLoginAt :: "stamp option"
  su_token :: "string option"

definition maskToken :: "string \<Rightarrow> string" where
  "maskToken t =
     (if t = [] then ''unset''
      else if length t \<le> 8 then [hd t] @ ''***''
      else take 4 t @ ''...'' @ drop (length t - 4) t)"

definition sanitizeUser :: "user \<Rightarrow> bool \<Rightarrow> sanitized_user" where
  "sanitizeUser u includeToken =
     \<lparr> su_id = u_id u, su_name = u_name u, su_role = u_role u,
       su_tokenPreview = maskToken (u_token u), su_createdAt = u_createdAt u,
       su_lastLoginAt = u_lastLoginAt u,
       su_token = (if includeToken then Some (u_token u) else None) \<rparr>"

text \<open>
  A user found with \<^verbatim>\<open>config.users.find(...)\<close> is an object of the array, and an
  assignment to one of its fields changes the array's first element that satisfies the
  predicate.
\<close>

fun update_first :: "('a \<Rightarrow> bool) \<Rightarrow> ('a \<Rightarrow> 'a) \<Rightarrow> 'a list \<Rightarrow> 'a list" where
  "update_first P f [] = []"
| "update_first P f (x # xs) = (if P x then f x # xs else x # update_first P f xs)"

definition store_user :: "string \<Rightarrow> user \<Rightarrow> state \<Rightarrow> state" where
  "store_user uid u s =
     s\<lparr>config := (config s)\<lparr>users := update_first (\<lambda>x. u_id x = uid) (\<lambda>x. u) (users (config s))\<rparr>\<rparr>"

record login_reply =
  lr_sessionToken :: string
  lr_user :: sanitized_user
  lr_permissions :: "permission list"

text \<open>
  \<^verbatim>\<open>POST /api/auth/login\<close>, lines 539 to 563. \<open>body_token\<close> is \<^verbatim>\<open>req.body?.token\<close>, \<open>handle\<close>
  the random session handle.
\<close>

definition post_login :: "jsval \<Rightarrow> string \<Rightarrow> time \<Rightarrow> state \<Rightarrow> (failure + login_reply) \<times> state" where
  "post_login body_token handle now s =
     (let token = string_or_empty body_token
      in if token = [] then (Inl (Failure 400 ''Token is required''), s)
         else
           (case findUserByToken token s of
              None \<Rightarrow> (Inl (Failure 401 ''Invalid token''), s)
            | Some found \<Rightarrow>
                (let u = found\<lparr>u_lastLoginAt := Some (Stamp now)\<rparr>;
                     s1 = s\<lparr>config := (config s)\<lparr>users :=
                              update_first (\<lambda>x. u_token x = token) (\<lambda>x. u) (users (config s))\<rparr>\<rparr>;
                     s2 = saveConfig (config s1) s1;
                     (sessionToken, s3) = createSession u handle now s2;
                     s4 = addLog ''SECURITY''
                            (''User signed in: '' @ u_name u @ '' ('' @ role_name (u_role u) @ '')'')
                            now s3
                 in (Inr \<lparr> lr_sessionToken = sessionToken, lr_user = sanitizeUser u False,
                           lr_permissions = getPermissions (u_role u) \<rparr>, s4))))"

text \<open>\<^verbatim>\<open>POST /api/auth/logout\<close>, behind \<open>requireAuth\<close>.\<close>

definition post_logout :: "string \<Rightarrow> time \<Rightarrow> state \<Rightarrow> (failure + unit) \<times> state" where
  "post_logout header now s =
     (case requireAuth header now s of
        (Inl f, s') \<Rightarrow> (Inl f, s')
      | (Inr u, s') \<Rightarrow>
          (Inr (), (case getBearerToken header of
                      None \<Rightarrow> s'
                    | Some tok \<Rightarrow> s'\<lparr>sessions := (sessions s')(tok := None)\<rparr>)))"

record user_body =
  ub_name :: jsval
  ub_role :: jsval
  ub_token :: jsval
  ub_rotateToken :: jsval

text \<open>
  The handler of \<^verbatim>\<open>POST /api/users\<close>, lines 635 to 666; \<open>actor\<close> is \<^verbatim>\<open>req.user\<close>, \<open>uuid\<close> and
  \<open>hex\<close> are the random draws.
\<close>

definition create_user ::
  "user_body \<Rightarrow> user \<Rightarrow> string \<Rightarrow> string \<Rightarrow> time \<Rightarrow> state \<Rightarrow> (failure + sanitized_user) \<times> state" where
  "create_user b actor uuid hex now s =
     (let name = string_or_empty (ub_name b);
          role = (case valid_role (ub_role b) of Some r \<Rightarrow> r | None \<Rightarrow> Operator);
          requestedToken = string_or_empty (ub_token b);
          token = (if requestedToken \<noteq> [] then requestedToken else makeUserToken ''usr'' hex)
      in if name = [] then (Inl (Failure 400 ''Name is required''), s)
         else if list_ex (\<lambda>u. u_token u = token) (users (config s))
         then (Inl (Failure 409 ''Token already in use''), s)
         else
           (let newUser = \<lparr> u_id = uuid, u_name = name, u_role = role, u_token = token,
                            u_createdAt = Stamp now, u_lastLoginAt = None \<rparr>;
                s1 = s\<lparr>config := (config s)\<lparr>users := users (config s) @ [newUser]\<rparr>\<rparr>;
                s2 = saveConfig (config s1) s1;
                s3 = addLog ''SECURITY''
                       (''User created by '' @ u_name actor @ '': '' @ u_name newUser
                          @ '' ('' @ role_name (u_role newUser) @ '')'') now s2
            in (Inr (sanitizeUser newUser True), s3)))"

text \<open>\<^verbatim>\<open>config.users.filter((user) => user.role === "admin").length\<close>\<close>

definition adminCount :: "user list \<Rightarrow> nat" where
  "adminCount us = length (filter (\<lambda>u. u_role u = Admin) us)"

text \<open>\<^verbatim>\<open>VALID_ROLES.includes(req.body?.role) ? req.body.role : target.role\<close>\<close>

definition next_role :: "user_body \<Rightarrow> user \<Rightarrow> role" where
  "next_role b target = (case valid_role (ub_role b) of Some r \<Rightarrow> r | None \<Rightarrow> u_role target)"

text \<open>\<^verbatim>\<open>config.users.some((user) => user.id !== target.id && user.token === tok)\<close>\<close>

definition token_taken :: "string \<Rightarrow> string \<Rightarrow> user list \<Rightarrow> bool" where
  "token_taken tok tid us = list_ex (\<lambda>u. u_id u \<noteq> tid \<and> u_token u = tok) us"

text \<open>
  The loop of \<^verbatim>\<open>rotateToken\<close>: tokens are drawn until one is held by no other user. The
  draws are the list \<open>hexes\<close>; \<open>None\<close> is a loop that has not ended when they are used up.
\<close>

fun draw_free_token :: "user list \<Rightarrow> string \<Rightarrow> string list \<Rightarrow> string option" where
  "draw_free_token us tid [] = None"
| "draw_free_token us tid (hex # hexes) =
     (let nextToken = makeUserToken ''usr'' hex
      in if token_taken nextToken tid us then draw_free_token us tid hexes else Some nextToken)"

text \<open>
  \<^verbatim>\<open>
  const nextName = String(req.body?.name || "").trim();
  if (nextName) target.name = nextName;
  if (nextRole !== target.role) { target.role = nextRole; revokeSessions = true; }\<close>
\<close>

definition assign_name_role :: "user_body \<Rightarrow> role \<Rightarrow> user \<Rightarrow> user" where
  "assign_name_role b nextRole target =
     (let nextName = string_or_empty (ub_name b);
          t1 = (if nextName \<noteq> [] then target\<lparr>u_name := nextName\<rparr> else target)
      in if nextRole \<noteq> u_role t1 then t1\<lparr>u_role := nextRole\<rparr> else t1)"

definition assign_token :: "string \<Rightarrow> user \<Rightarrow> user" where
  "assign_token providedToken t = (if providedToken \<noteq> [] then t\<lparr>u_token := providedToken\<rparr> else t)"

text \<open>
  \<^verbatim>\<open>
  if (revokeSessions) revokeSessionsForUser(target.id);
  saveConfig(config);
  addLog("SECURITY", `User updated by ${req.user.name}: ${target.name} (${target.role})`);
  return res.json({ success: true, user: sanitizeUser(target, includeToken) });\<close>
  \<^verbatim>\<open>req.user\<close> is the same object as \<open>target\<close> when their ids agree, since both were
  found by id.
\<close>

definition finish_patch ::
  "user \<Rightarrow> user \<Rightarrow> bool \<Rightarrow> bool \<Rightarrow> time \<Rightarrow> state \<Rightarrow> (failure + sanitized_user) \<times> state" where
  "finish_patch actor t includeToken revokeSessions now s =
     (let s1 = (if revokeSessions then revokeSessionsForUser (u_id t) s else s);
          s2 = saveConfig (config s1) s1;
          actorName = (if u_id actor = u_id t then u_name t else u_name actor);
          s3 = addLog ''SECURITY''
                 (''User updated by '' @ actorName @ '': '' @ u_name t
                    @ '' ('' @ role_name (u_role t) @ '')'') now s2
      in (Inr (sanitizeUser t includeToken), s3))"

text \<open>
  Lines 685 to 724 of the handler of \<^verbatim>\<open>PATCH /api/users/:id\<close>, which run once the
  request has passed the checks of lines 669 to 683. \<open>target\<close> is an object of
  \<^verbatim>\<open>config.users\<close>: what is assigned to it is written to the list (\<open>store_user\<close>) before
  the next statement that can return, so that the return at line 699 leaves the
  assignments of lines 689 and 692 behind.
\<close>

definition apply_patch ::
  "string \<Rightarrow> user_body \<Rightarrow> user \<Rightarrow> string list \<Rightarrow> time \<Rightarrow> user \<Rightarrow> role \<Rightarrow> state
     \<Rightarrow> ((failure + sanitized_user) \<times> state) option" where
  "apply_patch rid b actor hexes now target nextRole s =
     (let t2 = assign_name_role b nextRole target;
          s2 = store_user rid t2 s;
          providedToken = string_or_empty (ub_token b);
          rotate = (ub_rotateToken b = JBool True)
      in if providedToken \<noteq> [] \<and> token_taken providedToken (u_id t2) (users (config s2))
         then Some (Inl (Failure 409 ''Token already in use''), s2)
         else
           (let t3 = assign_token providedToken t2;
                s3 = store_user rid t3 s2
            in case (if rotate then draw_free_token (users (config s3)) (u_id t3) hexes
                     else Some (u_token t3)) of
                 None \<Rightarrow> None
               | Some tok \<Rightarrow>
                   Some (finish_patch actor (t3\<lparr>u_token := tok\<rparr>)
                           (providedToken \<noteq> [] \<or> rotate)
                           (nextRole \<noteq> u_role target \<or> providedToken \<noteq> [] \<or> rotate)
                           now (store_user rid (t3\<lparr>u_token := tok\<rparr>) s3))))"

text \<open>
  The handler of \<^verbatim>\<open>PATCH /api/users/:id\<close>, lines 668 to 725: the checks, then
  \<open>apply_patch\<close>.
\<close>

definition patch_user ::
  "string \<Rightarrow> user_body \<Rightarrow> user \<Rightarrow> string list \<Rightarrow> time \<Rightarrow> state
     \<Rightarrow> ((failure + sanitized_user) \<times> state) option" where
  "patch_user rid b actor hexes now s =
     (case find (\<lambda>u. u_id u = rid) (users (config s)) of
        None \<Rightarrow> Some (Inl (Failure 404 ''User not found''), s)
      | Some target \<Rightarrow>
          (let nextRole = next_role b target
           in if u_id target = u_id actor \<and> nextRole \<noteq> Admin
              then Some (Inl (Failure 400 ''You cannot demote yourself''), s)
              else if u_role target = Admin \<and> nextRole \<noteq> Admin \<and>
                      adminCount (users (config s)) \<le> 1
              then Some (Inl (Failure 400 ''At least one admin must remain''), s)
              else apply_patch rid b actor hexes now target nextRole s))"

text \<open>The handler of \<^verbatim>\<open>DELETE /api/users/:id\<close>, lines 727 to 748.\<close>

definition delete_user :: "string \<Rightarrow> user \<Rightarrow> time \<Rightarrow> state \<Rightarrow> (failure + unit) \<times> state" where
  "delete_user rid actor now s =
     (case find (\<lambda>u. u_id u = rid) (users (config s)) of
        None \<Rightarrow> (Inl (Failure 404 ''User not found''), s)
      | Some target \<Rightarrow>
          if u_id target = u_id actor
          then (Inl (Failure 400 ''You cannot delete your own account''), s)
          else if u_role target = Admin \<and> adminCount (users (config s)) \<le> 1
          then (Inl (Failure 400 ''At least one admin must remain''), s)
          else
            (let s1 = s\<lparr>config := (config s)\<lparr>users :=
                          filter (\<lambda>u. u_id u \<noteq> u_id target) (users (config s))\<rparr>\<rparr>;
                 s2 = revokeSessionsForUser (u_id target) s1;
                 s3 = saveConfig (config s2) s2;
                 s4 = addLog ''SECURITY''
                        (''User deleted by '' @ u_name actor @ '': '' @ u_name target) now s3
             in (Inr (), s4)))"

text \<open>The three routes with their middleware: \<open>requireAuth\<close>, \<open>requirePermission("users:write")\<close>.\<close>

definition route_create_user ::
  "string \<Rightarrow> user_body \<Rightarrow> string \<Rightarrow> string \<Rightarrow> time \<Rightarrow> state \<Rightarrow> (failure + sanitized_user) \<times> state" where
  "route_create_user header b uuid hex now s =
     (case authorize UsersWrite header now s of
        (Inl f, s') \<Rightarrow> (Inl f, s')
      | (Inr actor, s') \<Rightarrow> create_user b actor uuid hex now s')"

definition route_patch_user ::
  "string \<Rightarrow> string \<Rightarrow> user_body \<Rightarrow> string list \<Rightarrow> time \<Rightarrow> state
     \<Rightarrow> ((failure + sanitized_user) \<times> state) option" where
  "route_patch_user header rid b hexes now s =
     (case authorize UsersWrite header now s of
        (Inl f, s') \<Rightarrow> Some (Inl f, s')
      | (Inr actor, s') \<Rightarrow> patch_user rid b actor hexes now s')"

definition route_delete_user :: "string \<Rightarrow> string \<Rightarrow> time \<Rightarrow> state \<Rightarrow> (failure + unit) \<times> state" where
  "route_delete_user header rid now s =
     (case authorize UsersWrite header now s of
        (Inl f, s') \<Rightarrow> (Inl f, s')
      | (Inr actor, s') \<Rightarrow> delete_user rid actor now s')"

text \<open>\<^verbatim>\<open>POST /api/config\<close> behind \<open>requirePermission("config:write")\<close>.\<close>

definition route_post_config ::
  "string \<Rightarrow> config_body \<Rightarrow> time \<Rightarrow> state \<Rightarrow> (failure + public_config) \<times> state" where
  "route_post_config header b now s =
     (case authorize ConfigWrite header now s of
        (Inl f, s') \<Rightarrow> (Inl f, s')
      | (Inr actor, s') \<Rightarrow> (case post_config b actor now s' of (c, s'') \<Rightarrow> (Inr c, s'')))"

section \<open>Connection lifecycle controller\<close>

definition clearTimer :: "nat \<Rightarrow> (nat \<times> timer_kind) list \<Rightarrow> (nat \<times> timer_kind) list" where
  "clearTimer h ts = filter (\<lambda>(i, k). i \<noteq> h) ts"

definition clearReconnectTimer :: "state \<Rightarrow> state" where
  "clearReconnectTimer s =
     (case reconnectTimer s of
        None \<Rightarrow> s
      | Some h \<Rightarrow> s\<lparr>pendingTimers := clearTimer h (pendingTimers s), reconnectTimer := None\<rparr>)"

definition stopPingTimer :: "state \<Rightarrow> state" where
  "stopPingTimer s =
     (case pingTimer s of
        None \<Rightarrow> s
      | Some h \<Rightarrow> s\<lparr>pendingTimers := clearTimer h (pendingTimers s), pingTimer := None\<rparr>)"

definition stopHealthTimer :: "state \<Rightarrow> state" where
  "stopHealthTimer s =
     (case healthTimer s of
        None \<Rightarrow> s
      | Some h \<Rightarrow> s\<lparr>pendingTimers := clearTimer h (pendingTimers s), healthTimer := None\<rparr>)"

text \<open>
  \<open>quitBot\<close>: \<^verbatim>\<open>bot.quit(reason)\<close> ends the instance and \<^verbatim>\<open>bot.removeAllListeners()\<close>
  detaches the handlers, both inside \<^verbatim>\<open>try\<close>; then \<^verbatim>\<open>bot = null\<close>.
\<close>

definition quitBot :: "string \<Rightarrow> state \<Rightarrow> state" where
  "quitBot reason s =
     (case botInst s of
        None \<Rightarrow> s
      | Some b \<Rightarrow> s\<lparr>liveBots := removeAll b (liveBots s), loginListener := False, botInst := None\<rparr>)"

definition markBotActivity :: "time \<Rightarrow> state \<Rightarrow> state" where
  "markBotActivity now s = s\<lparr>lastBotEventAt := now\<rparr>"

definition setTimer :: "timer_kind \<Rightarrow> state \<Rightarrow> nat \<times> state" where
  "setTimer k s =
     (nextHandle s,
      s\<lparr>pendingTimers := pendingTimers s @ [(nextHandle s, k)], nextHandle := Suc (nextHandle s)\<rparr>)"

text \<open>
  \<^verbatim>\<open>
  function queueReconnect(reason) {
    if (!isRunning) return;
    if (reconnectTimer) return;
    reconnectAttempts += 1;
    botStatus = "connecting";
    broadcastStatus();
    const delay = config.reconnectDelay;
    addLog("INFO", `Reconnect in ${Math.round(delay / 1000)}s (attempt #${reconnectAttempts}, reason: ${reason})`);
    reconnectTimer = setTimeout(() => { ... }, delay);
  }\<close>
\<close>

definition queueReconnect :: "string \<Rightarrow> time \<Rightarrow> state \<Rightarrow> state" where
  "queueReconnect reason now s =
     (if \<not> isRunning s then s
      else if reconnectTimer s \<noteq> None then s
      else
        (let s1 = s\<lparr>reconnectAttempts := reconnectAttempts s + 1, botStatus := Connecting\<rparr>;
             s2 = broadcastStatus now s1;
             delay = reconnectDelay (config s2);
             s3 = addLog ''INFO''
                    (''Reconnect in '' @ show_int (round_seconds delay) @ ''s (attempt #''
                       @ show_nat (reconnectAttempts s2) @ '', reason: '' @ reason @ '')'') now s2;
             (h, s4) = setTimer ReconnectT s3
         in s4\<lparr>reconnectTimer := Some h\<rparr>))"

definition startPingTimer :: "state \<Rightarrow> state" where
  "startPingTimer s = (let (h, s1) = setTimer PingT (stopPingTimer s) in s1\<lparr>pingTimer := Some h\<rparr>)"

definition startHealthTimer :: "state \<Rightarrow> state" where
  "startHealthTimer s =
     (let (h, s1) = setTimer HealthT (stopHealthTimer s) in s1\<lparr>healthTimer := Some h\<rparr>)"

text \<open>
  The callback of the keep-alive interval, lines 352 to 372. \<open>hasEntity\<close> is
  \<^verbatim>\<open>bot.entity\<close> being set, \<open>threw\<close> the message of an exception of \<^verbatim>\<open>bot.look\<close> or
  \<^verbatim>\<open>bot.swingArm\<close>.
\<close>

definition pingTick :: "bool \<Rightarrow> string option \<Rightarrow> time \<Rightarrow> state \<Rightarrow> state" where
  "pingTick hasEntity threw now s =
     (if \<not> isRunning s \<or> botInst s = None \<or> \<not> hasEntity then s
      else
        (case threw of
           Some msg \<Rightarrow> addLog ''WARNING'' (''Keep-alive pulse failed: '' @ msg) now s
         | None \<Rightarrow>
             (let s1 = s\<lparr>keepAlivePulseCount := keepAlivePulseCount s + 1\<rparr>;
                  s2 = markBotActivity now s1;
                  s3 = s2\<lparr>lastPing := Some now\<rparr>;
                  s4 = (if keepAlivePulseCount s3 mod 5 = 0
                        then addLog ''PING'' ''Keep-alive pulse sent'' now s3 else s3)
              in broadcastStatus now s4)))"

text \<open>
  The callback of the health interval:
  \<^verbatim>\<open>
  if (!isRunning) return;
  const staleThreshold = Math.max(config.pingInterval * 2, 90_000);
  const staleFor = Date.now() - lastBotEventAt;
  if (botStatus === "online" && staleFor > staleThreshold) {
    addLog("WARNING", `No bot activity for ${Math.round(staleFor / 1000)}s, recycling connection`);
    stopPingTimer();
    quitBot("stale connection");
    botStatus = "error";
    serverStatus = "unknown";
    broadcastStatus();
    queueReconnect("stale heartbeat");
    return;
  }
  if ((botStatus === "error" || botStatus === "connecting") && !reconnectTimer) {
    queueReconnect("health monitor");
  }\<close>
\<close>

definition staleThreshold :: "state \<Rightarrow> int" where
  "staleThreshold s = max (pingInterval (config s) * 2) 90000"

definition healthTick :: "time \<Rightarrow> state \<Rightarrow> state" where
  "healthTick now s =
     (if \<not> isRunning s then s
      else
        (let staleFor = now - lastBotEventAt s
         in if botStatus s = Online \<and> staleFor > staleThreshold s
            then
              (let s1 = addLog ''WARNING''
                          (''No bot activity for '' @ show_int (round_seconds staleFor)
                             @ ''s, recycling connection'') now s;
                   s2 = stopPingTimer s1;
                   s3 = quitBot ''stale connection'' s2;
                   s4 = s3\<lparr>botStatus := Error, serverStatus := Unknown\<rparr>;
                   s5 = broadcastStatus now s4
               in queueReconnect ''stale heartbeat'' now s5)
            else if (botStatus s = Error \<or> botStatus s = Connecting) \<and> reconnectTimer s = None
            then queueReconnect ''health monitor'' now s
            else s))"

text \<open>
  \<open>createBot\<close>, lines 401 to 429. \<^verbatim>\<open>mineflayer.createBot\<close> either returns a new instance,
  to which the handlers are attached, or throws; what is passed to it is read from
  \<open>config\<close> and changes nothing in the state.
\<close>

datatype create_result = Created | Threw string

definition createBot :: "create_result \<Rightarrow> time \<Rightarrow> state \<Rightarrow> state" where
  "createBot outcome now s =
     (if \<not> isRunning s then s
      else
        (let s1 = quitBot ''refresh instance'' (stopPingTimer (clearReconnectTimer s));
             s2 = s1\<lparr>botStatus := Connecting, serverStatus := Unknown\<rparr>;
             s3 = markBotActivity now s2;
             s4 = broadcastStatus now s3;
             s5 = addLog ''INFO''
                    (''Connecting to '' @ host (config s4) @ '':'' @ show_int (port (config s4))
                       @ '' as '' @ username (config s4)) now s4
         in case outcome of
              Threw msg \<Rightarrow>
                queueReconnect ''create bot failure'' now
                  (addLog ''ERROR'' (''Failed to create bot: '' @ msg) now s5)
            | Created \<Rightarrow>
                s5\<lparr>botInst := Some (nextHandle s5), liveBots := liveBots s5 @ [nextHandle s5],
                   loginListener := True, nextHandle := Suc (nextHandle s5)\<rparr>))"

text \<open>The callback of the reconnect timeout, lines 342 to 346.\<close>

definition reconnectFires :: "create_result \<Rightarrow> time \<Rightarrow> state \<Rightarrow> state" where
  "reconnectFires outcome now s =
     (let s1 = s\<lparr>reconnectTimer := None\<rparr>
      in if \<not> isRunning s1 then s1 else createBot outcome now s1)"

subsection \<open>The handlers of the protocol client's events\<close>

definition or_unknown :: "jsval \<Rightarrow> string" where
  "or_unknown v = (if truthy v then ToString v else ''unknown'')"

definition on_login :: "string \<Rightarrow> time \<Rightarrow> state \<Rightarrow> state" where
  "on_login botname now s =
     (let s1 = s\<lparr>botStatus := Online, serverStatus := Reachable, reconnectAttempts := 0,
                 botStartTime := (case botStartTime s of
                                    Some t0 \<Rightarrow> (if t0 \<noteq> 0 then Some t0 else Some now)
                                  | None \<Rightarrow> Some now),
                 lastPing := Some now\<rparr>;
          s2 = markBotActivity now s1;
          s3 = addLog ''SUCCESS'' (''Joined server as '' @ botname) now s2;
          s4 = broadcastStatus now s3
      in startPingTimer s4)"

definition on_spawn :: "time \<Rightarrow> state \<Rightarrow> state" where
  "on_spawn now s = addLog ''INFO'' ''Bot spawned in world'' now (markBotActivity now s)"

definition on_kicked :: "jsval \<Rightarrow> time \<Rightarrow> state \<Rightarrow> state" where
  "on_kicked reason now s =
     (let s1 = stopPingTimer (markBotActivity now s);
          s2 = s1\<lparr>botStatus := Error, serverStatus := Offline\<rparr>;
          s3 = addLog ''WARNING'' (''Kicked from server: '' @ or_unknown reason) now s2;
          s4 = broadcastStatus now s3
      in queueReconnect ''kicked'' now s4)"

text \<open>\<open>code\<close> and \<open>msg\<close> are \<^verbatim>\<open>err.code\<close> and \<^verbatim>\<open>err.message\<close> of the error object.\<close>

definition on_error :: "jsval \<Rightarrow> jsval \<Rightarrow> time \<Rightarrow> state \<Rightarrow> state" where
  "on_error code msg now s =
     (let s1 = stopPingTimer (markBotActivity now s);
          s2 = s1\<lparr>botStatus := Error\<rparr>;
          s3 = (if code = JString ''ECONNREFUSED''
                then addLog ''WARNING'' ''Server appears offline (connection refused)'' now
                       (s2\<lparr>serverStatus := Offline\<rparr>)
                else s2);
          s4 = addLog ''ERROR'' (''Bot error: '' @ ToString msg) now s3;
          s5 = broadcastStatus now s4
      in queueReconnect (if truthy code then ToString code else ''bot error'') now s5)"

definition on_end :: "jsval \<Rightarrow> time \<Rightarrow> state \<Rightarrow> state" where
  "on_end reason now s =
     (let s1 = stopPingTimer (markBotActivity now s);
          s2 = s1\<lparr>botStatus := (if isRunning s1 then Connecting else Stopped),
                 serverStatus := Unknown\<rparr>;
          s3 = addLog ''WARNING'' (''Connection ended: '' @ or_unknown reason) now s2;
          s4 = broadcastStatus now s3
      in if isRunning s4 then queueReconnect ''connection ended'' now s4 else s4)"

definition on_activity :: "time \<Rightarrow> state \<Rightarrow> state" where
  "on_activity now s = (markBotActivity now s)\<lparr>lastPing := Some now\<rparr>"

datatype bot_event =
    Login string
  | Spawn
  | Kicked jsval
  | BotError jsval jsval
  | End jsval
  | MessageStr
  | KeepAlive

text \<open>
  The handlers are attached to the instance that \<open>botInst\<close> holds and are detached
  before that reference is dropped, so an event is handled only while \<open>botInst\<close> is set;
  the \<open>login\<close> handler is attached with \<^verbatim>\<open>once\<close>.
\<close>

definition bot_emits :: "bot_event \<Rightarrow> time \<Rightarrow> state \<Rightarrow> state" where
  "bot_emits ev now s =
     (if botInst s = None then s
      else
        (case ev of
           Login botname \<Rightarrow>
             (if loginListener s then on_login botname now (s\<lparr>loginListener := False\<rparr>) else s)
         | Spawn \<Rightarrow> on_spawn now s
         | Kicked reason \<Rightarrow> on_kicked reason now s
         | BotError code msg \<Rightarrow> on_error code msg now s
         | End reason \<Rightarrow> on_end reason now s
         | MessageStr \<Rightarrow> on_activity now s
         | KeepAlive \<Rightarrow> on_activity now s))"

subsection \<open>Start, stop, restart\<close>

datatype action_result = Succeeded | Failed string

text \<open>
  \<^verbatim>\<open>
  function startBot(actor) {
    if (isRunning) return { success: false, message: "Bot already running" };
    isRunning = true;
    botStartTime = null;
    reconnectAttempts = 0;
    keepAlivePulseCount = 0;
    markBotActivity();
    addLog("INFO", `Bot start requested by ${actorLabel(actor)}`);
    startHealthTimer();
    createBot();
    return { success: true };
  }\<close>
\<close>

definition startBot :: "actor \<Rightarrow> create_result \<Rightarrow> time \<Rightarrow> state \<Rightarrow> action_result \<times> state" where
  "startBot a outcome now s =
     (if isRunning s then (Failed ''Bot already running'', s)
      else
        (let s1 = s\<lparr>isRunning := True, botStartTime := None, reconnectAttempts := 0,
                    keepAlivePulseCount := 0\<rparr>;
             s2 = markBotActivity now s1;
             s3 = addLog ''INFO'' (''Bot start requested by '' @ actorLabel (Some a)) now s2;
             s4 = startHealthTimer s3;
             s5 = createBot outcome now s4
         in (Succeeded, s5)))"

text \<open>
  \<^verbatim>\<open>
  function stopBot(actor) {
    if (!isRunning) return { success: false, message: "Bot not running" };
    isRunning = false;
    clearReconnectTimer();
    stopPingTimer();
    stopHealthTimer();
    quitBot("stopped by user");
    botStatus = "stopped";
    serverStatus = "unknown";
    markBotActivity();
    addLog("INFO", `Bot stop requested by ${actorLabel(actor)}`);
    broadcastStatus();
    return { success: true };
  }\<close>
\<close>

definition stopBot :: "actor \<Rightarrow> time \<Rightarrow> state \<Rightarrow> action_result \<times> state" where
  "stopBot a now s =
     (if \<not> isRunning s then (Failed ''Bot not running'', s)
      else
        (let s1 = s\<lparr>isRunning := False\<rparr>;
             s2 = quitBot ''stopped by user''
                    (stopHealthTimer (stopPingTimer (clearReconnectTimer s1)));
             s3 = s2\<lparr>botStatus := Stopped, serverStatus := Unknown\<rparr>;
             s4 = markBotActivity now s3;
             s5 = addLog ''INFO'' (''Bot stop requested by '' @ actorLabel (Some a)) now s4;
             s6 = broadcastStatus now s5
         in (Succeeded, s6)))"

text \<open>
  \<open>restartBot\<close>: the start is a timeout of two seconds. The label of the actor is taken
  when the restart is requested.
\<close>

definition restartBot :: "actor \<Rightarrow> time \<Rightarrow> state \<Rightarrow> action_result \<times> state" where
  "restartBot a now s =
     (let s1 = addLog ''INFO'' (''Bot restart requested by '' @ actorLabel (Some a)) now s;
          (r, s2) = stopBot a now s1;
          (h, s3) = setTimer (StartT a) s2
      in (Succeeded, s3))"

definition actor_of :: "user \<Rightarrow> actor" where
  "actor_of u = \<lparr> a_name = u_name u, a_role = role_name (u_role u) \<rparr>"

datatype control = DoStart | DoStop | DoRestart

definition control_action ::
  "control \<Rightarrow> actor \<Rightarrow> create_result \<Rightarrow> time \<Rightarrow> state \<Rightarrow> action_result \<times> state" where
  "control_action c a outcome now s =
     (case c of
        DoStart \<Rightarrow> startBot a outcome now s
      | DoStop \<Rightarrow> stopBot a now s
      | DoRestart \<Rightarrow> restartBot a now s)"

text \<open>\<^verbatim>\<open>POST /api/start\<close>, \<^verbatim>\<open>/api/stop\<close>, \<^verbatim>\<open>/api/restart\<close> behind \<open>requirePermission("bot:control")\<close>.\<close>

definition route_control ::
  "string \<Rightarrow> control \<Rightarrow> create_result \<Rightarrow> time \<Rightarrow> state \<Rightarrow> (failure + action_result) \<times> state" where
  "route_control header c outcome now s =
     (case authorize BotControl header now s of
        (Inl f, s') \<Rightarrow> (Inl f, s')
      | (Inr u, s') \<Rightarrow>
          (case control_action c (actor_of u) outcome now s' of (r, s'') \<Rightarrow> (Inr r, s'')))"

subsection \<open>The event loop\<close>

text \<open>
  A timer that fires runs its callback; a timeout is then no longer pending, an
  interval stays. A handle that is not pending fires nothing.
\<close>

definition timer_fires ::
  "nat \<Rightarrow> create_result \<Rightarrow> bool \<Rightarrow> string option \<Rightarrow> time \<Rightarrow> state \<Rightarrow> state" where
  "timer_fires h outcome hasEntity threw now s =
     (case map_of (pendingTimers s) h of
        None \<Rightarrow> s
      | Some ReconnectT \<Rightarrow>
          reconnectFires outcome now (s\<lparr>pendingTimers := clearTimer h (pendingTimers s)\<rparr>)
      | Some (StartT a) \<Rightarrow>
          snd (startBot a outcome now (s\<lparr>pendingTimers := clearTimer h (pendingTimers s)\<rparr>))
      | Some PingT \<Rightarrow> pingTick hasEntity threw now s
      | Some HealthT \<Rightarrow> healthTick now s
      | Some SweepT \<Rightarrow> pruneExpiredSessions now s)"

section \<open>Runs\<close>

text \<open>
  What happens to the server, one event at a time: the \<^verbatim>\<open>listen\<close> callback, a control
  action of an admitted WebSocket client, the HTTP routes, a timer that fires, an event
  of the protocol client, a WebSocket connection. Every event carries the inputs its
  handler reads from outside: random draws, the outcome of creating an instance.
\<close>

datatype event =
    Listening string
  | Call control actor create_result
  | HttpControl string control create_result
  | TimerFires nat create_result bool "string option"
  | BotEmits bot_event
  | HttpLogin jsval string
  | HttpLogout string
  | HttpGet "permission option" string
  | HttpPostConfig string config_body
  | HttpCreateUser string user_body string string
  | HttpPatchUser string string user_body "string list"
  | HttpDeleteUser string string
  | WsConnect "string option"

text \<open>
  \<open>step\<close> is \<open>None\<close> only for a \<^verbatim>\<open>PATCH\<close> whose token loop does not end: the
  single-threaded server then handles nothing further.
\<close>

definition step :: "time \<times> event \<Rightarrow> state \<Rightarrow> state option" where
  "step te s =
     (case te of (now, e) \<Rightarrow>
        (case e of
           Listening portText \<Rightarrow> Some (addLog ''INFO'' (''Server started on port '' @ portText) now s)
         | Call c a outcome \<Rightarrow> Some (snd (control_action c a outcome now s))
         | HttpControl header c outcome \<Rightarrow> Some (snd (route_control header c outcome now s))
         | TimerFires h outcome hasEntity threw \<Rightarrow> Some (timer_fires h outcome hasEntity threw now s)
         | BotEmits ev \<Rightarrow> Some (bot_emits ev now s)
         | HttpLogin body_token handle \<Rightarrow> Some (snd (post_login body_token handle now s))
         | HttpLogout header \<Rightarrow> Some (snd (post_logout header now s))
         | HttpGet None header \<Rightarrow> Some (snd (requireAuth header now s))
         | HttpGet (Some p) header \<Rightarrow> Some (snd (authorize p header now s))
         | HttpPostConfig header b \<Rightarrow> Some (snd (route_post_config header b now s))
         | HttpCreateUser header b uuid hex \<Rightarrow> Some (snd (route_create_user header b uuid hex now s))
         | HttpPatchUser header rid b hexes \<Rightarrow> map_option snd (route_patch_user header rid b hexes now s)
         | HttpDeleteUser header rid \<Rightarrow> Some (snd (route_delete_user header rid now s))
         | WsConnect tok \<Rightarrow> Some (snd (resolveAuthFromToken tok now now s))))"

fun run :: "(time \<times> event) list \<Rightarrow> state \<Rightarrow> state option" where
  "run [] s = Some s"
| "run (te # tes) s = (case step te s of None \<Rightarrow> None | Some s' \<Rightarrow> run tes s')"

subsection \<open>What the properties speak of\<close>

text \<open>
  The reconnect timers that are pending in the event loop, a list of users with an
  admin, and the three numbers of the configuration being positive.
\<close>

definition reconnect_timers :: "state \<Rightarrow> (nat \<times> timer_kind) list" where
  "reconnect_timers s = filter (\<lambda>(i, k). k = ReconnectT) (pendingTimers s)"

definition has_admin :: "state \<Rightarrow> bool" where
  "has_admin s = list_ex (\<lambda>u. u_role u = Admin) (users (config s))"

definition positive_numbers :: "config \<Rightarrow> bool" where
  "positive_numbers c = (0 < port c \<and> 0 < reconnectDelay c \<and> 0 < pingInterval c)"

text \<open>The log is within its capacity.\<close>

definition log_ok :: "state \<Rightarrow> bool" where
  "log_ok s \<longleftrightarrow> length (logs s) \<le> MAX_LOGS"

text \<open>Appending a sequence of entries (level, message, instant) to the log, oldest first.\<close>

definition append_all :: "(string \<times> string \<times> time) list \<Rightarrow> state \<Rightarrow> state" where
  "append_all es s = foldl (\<lambda>st (lvl, msg, t). addLog lvl msg t st) s es"

definition entry_of :: "string \<times> string \<times> time \<Rightarrow> log_entry" where
  "entry_of e = (case e of (lvl, msg, t) \<Rightarrow> \<lparr> l_id = t, l_time = t, l_level = lvl, l_message = msg \<rparr>)"

subsection \<open>Invariants of the controller\<close>

text \<open>
  The timers of the event loop and the three variables that hold timers agree: handles
  are distinct and below the next fresh one, and a reconnect, keep-alive or health timer
  is pending exactly when its variable holds its handle. The live instances are the one
  that \<open>botInst\<close> holds. While \<open>isRunning\<close> is unset, no reconnect timer is held and no
  instance. \<open>ctl_view\<close> collects the variables these invariants read.
\<close>

definition timers_wf :: "(nat \<times> timer_kind) list \<Rightarrow> nat \<Rightarrow> nat option \<Rightarrow> nat option \<Rightarrow> nat option \<Rightarrow> bool" where
  "timers_wf ts n r p h \<longleftrightarrow>
     distinct (map fst ts) \<and> (\<forall>x\<in>set ts. fst x < n) \<and>
     (\<forall>i. (i, ReconnectT) \<in> set ts \<longleftrightarrow> r = Some i) \<and>
     (\<forall>i. (i, PingT) \<in> set ts \<longleftrightarrow> p = Some i) \<and>
     (\<forall>i. (i, HealthT) \<in> set ts \<longleftrightarrow> h = Some i)"

definition timers_ok :: "state \<Rightarrow> bool" where
  "timers_ok s \<longleftrightarrow>
     timers_wf (pendingTimers s) (nextHandle s) (reconnectTimer s) (pingTimer s) (healthTimer s)"

definition bots_ok :: "state \<Rightarrow> bool" where
  "bots_ok s \<longleftrightarrow> liveBots s = (case botInst s of None \<Rightarrow> [] | Some b \<Rightarrow> [b])"

definition idle_ok :: "state \<Rightarrow> bool" where
  "idle_ok s \<longleftrightarrow> (\<not> isRunning s \<longrightarrow> reconnectTimer s = None \<and> botInst s = None)"

definition ctl_inv :: "state \<Rightarrow> bool" where
  "ctl_inv s \<longleftrightarrow> timers_ok s \<and> bots_ok s \<and> idle_ok s"

definition ctl_view ::
  "state \<Rightarrow> (nat \<times> timer_kind) list \<times> nat \<times> nat option \<times> nat option \<times> nat option \<times> nat list \<times> nat option \<times> bool" where
  "ctl_view s =
     (pendingTimers s, nextHandle s, reconnectTimer s, pingTimer s, healthTimer s, liveBots s,
      botInst s, isRunning s)"

text \<open>
  A value parses to a positive integer: \<^verbatim>\<open>parseInt(v, 10)\<close> is finite and greater than 0.
\<close>

definition parses_positive :: "jsval \<Rightarrow> bool" where
  "parses_positive v = (case parseInt (ToString v) of Fin n \<Rightarrow> 0 < n | _ \<Rightarrow> False)"

text \<open>Two configurations that differ at most in the list of users.\<close>

definition only_users :: "config \<Rightarrow> config \<Rightarrow> bool" where
  "only_users c c' \<longleftrightarrow>
     host c' = host c \<and> port c' = port c \<and> username c' = username c \<and>
     reconnectDelay c' = reconnectDelay c \<and> pingInterval c' = pingInterval c \<and>
     version c' = version c"

text \<open>The users that \<open>loadConfig\<close> reads from the file, before it seeds an owner.\<close>

definition loaded_users :: "raw_config \<Rightarrow> (nat \<Rightarrow> string) \<Rightarrow> time \<Rightarrow> user list" where
  "loaded_users raw uuid now =
     (case r_users raw of Some rs \<Rightarrow> normalize_all rs uuid now | None \<Rightarrow> [])"

subsection \<open>Example states and requests\<close>

text \<open>An initial state for examples: no \<^verbatim>\<open>config.json\<close>, no \<^verbatim>\<open>ADMIN_TOKEN\<close>, boot at instant 0.\<close>

definition example_boot :: state where
  "example_boot = boot no_config None ''00'' (\<lambda>i. ''id'') 0"

text \<open>The bot is started by the \<^verbatim>\<open>AutoStart\<close> timeout, and an instance is created.\<close>

definition example_started :: state where
  "example_started = timer_fires 1 Created False None 1500 example_boot"

text \<open>Then the server kicks the bot.\<close>

definition example_kicked :: state where
  "example_kicked = bot_emits (Kicked (JString ''idle'')) 2000 example_started"

text \<open>The bot has logged in.\<close>

definition example_online :: state where
  "example_online = bot_emits (Login ''AternosGuard'') 2000 example_started"

text \<open>The seeded owner signs in at instant 1000 and is given the session handle \<open>h1\<close>.\<close>

definition example_signed_in :: state where
  "example_signed_in = snd (post_login (JString ''admin_00'') ''h1'' 1000 example_boot)"

text \<open>A \<^verbatim>\<open>config.json\<close> whose three numbers are not positive integers.\<close>

definition example_bad_raw :: raw_config where
  "example_bad_raw =
     no_config\<lparr>r_port := JString ''abc'', r_reconnectDelay := JNum ''0'', r_pingInterval := JNum ''-5''\<rparr>"

definition example_bad_loaded :: config where
  "example_bad_loaded = loadConfig example_bad_raw None ''00'' (\<lambda>i. ''id'') 0"

text \<open>A body of \<^verbatim>\<open>POST /api/config\<close> with a host and three numbers that are not positive integers.\<close>

definition example_bad_body :: config_body where
  "example_bad_body =
     \<lparr> b_host = JString ''mc.example.org'', b_port = JString ''http'', b_username = JUndefined,
       b_reconnectDelay = JNum ''0.5'', b_pingInterval = JNull, b_version = JUndefined \<rparr>"

text \<open>A \<^verbatim>\<open>config.json\<close> that lists one user, a viewer.\<close>

definition example_viewer_raw :: raw_config where
  "example_viewer_raw =
     no_config\<lparr>r_users := Some [Some \<lparr> ru_id = JString ''u1'', ru_name = JString ''Vic'',
                                       ru_role = JString ''viewer'', ru_token = JString ''tv'',
                                       ru_createdAt = JUndefined, ru_lastLoginAt = JUndefined \<rparr>]\<rparr>"

definition example_viewer_boot :: state where
  "example_viewer_boot = boot example_viewer_raw None ''00'' (\<lambda>i. ''id'') 0"

text \<open>The owner that \<open>example_boot\<close> seeds, and a body that asks for the role of a viewer.\<close>

definition example_owner :: user where
  "example_owner =
     \<lparr> u_id = ''id'', u_name = ''Owner'', u_role = Admin, u_token = ''admin_00'',
       u_createdAt = Stamp 0, u_lastLoginAt = None \<rparr>"

definition example_demote_body :: user_body where
  "example_demote_body =
     \<lparr> ub_name = JUndefined, ub_role = JString ''viewer'', ub_token = JUndefined,
       ub_rotateToken = JUndefined \<rparr>"

text \<open>
  A \<^verbatim>\<open>config.json\<close> with three users: Ann, an admin; Bob, an operator; Cy, a viewer.
\<close>

definition example_team_raw :: raw_config where
  "example_team_raw =
     no_config\<lparr>r_users := Some
       [Some \<lparr> ru_id = JString ''a'', ru_name = JString ''Ann'', ru_role = JString ''admin'',
               ru_token = JString ''ta'', ru_createdAt = JUndefined, ru_lastLoginAt = JUndefined \<rparr>,
        Some \<lparr> ru_id = JString ''b'', ru_name = JString ''Bob'', ru_role = JString ''operator'',
               ru_token = JString ''tb'', ru_createdAt = JUndefined, ru_lastLoginAt = JUndefined \<rparr>,
        Some \<lparr> ru_id = JString ''c'', ru_name = JString ''Cy'', ru_role = JString ''viewer'',
               ru_token = JString ''tc'', ru_createdAt = JUndefined, ru_lastLoginAt = JUndefined \<rparr>]\<rparr>"

definition example_team_boot :: state where
  "example_team_boot = boot example_team_raw None ''00'' (\<lambda>i. ''id'') 0"

text \<open>Bob signs in at instant 1000 (session \<open>hb\<close>), Ann at instant 1100 (session \<open>ha\<close>).\<close>

definition example_team :: state where
  "example_team =
     snd (post_login (JString ''ta'') ''ha'' 1100
            (snd (post_login (JString ''tb'') ''hb'' 1000 example_team_boot)))"

text \<open>Ann asks to make Bob an admin and to give him the token that Cy holds.\<close>

definition example_promote_body :: user_body where
  "example_promote_body =
     \<lparr> ub_name = JUndefined, ub_role = JString ''admin'', ub_token = JString ''tc'',
       ub_rotateToken = JUndefined \<rparr>"

definition example_ann :: user where
  "example_ann = \<lparr> u_id = ''a'', u_name = ''Ann'', u_role = Admin, u_token = ''ta'',
                   u_createdAt = Stamp 0, u_lastLoginAt = Some (Stamp 1100) \<rparr>"

definition example_bob :: user where
  "example_bob = \<lparr> u_id = ''b'', u_name = ''Bob'', u_role = Operator, u_token = ''tb'',
                   u_createdAt = Stamp 0, u_lastLoginAt = Some (Stamp 1000) \<rparr>"

definition example_cy :: user where
  "example_cy = \<lparr> u_id = ''c'', u_name = ''Cy'', u_role = Viewer, u_token = ''tc'',
                  u_createdAt = Stamp 0, u_lastLoginAt = None \<rparr>"

text \<open>The state after the refused request: the list has Bob as an admin.\<close>

definition example_team_after :: state where
  "example_team_after =
     example_team\<lparr>
       sessions := (sessions example_team)(''ha'' \<mapsto> \<lparr> userId = ''a'', expiresAt = 1200 + SESSION_TTL_MS \<rparr>),
       config := (config example_team)\<lparr>users :=
                   [example_ann, example_bob\<lparr>u_role := Admin\<rparr>, example_cy]\<rparr>\<rparr>"

section \<open>Properties\<close>

subsection \<open>The event log\<close>

lemma push_log_last:
  "length ls \<le> MAX_LOGS \<Longrightarrow> push_log e ls = drop (Suc (length ls) - MAX_LOGS) (ls @ [e])"
  by (cases ls) (auto simp: push_log_def Let_def MAX_LOGS_def drop_Cons' Suc_diff_le)

lemma logs_addLog: "logs (addLog lvl msg t s) = push_log \<lparr> l_id = t, l_time = t, l_level = lvl, l_message = msg \<rparr> (logs s)"
  by (simp add: addLog_def broadcast_def Let_def)

lemma logs_append_all:
  "length (logs s) \<le> MAX_LOGS \<Longrightarrow>
   logs (append_all es s) = drop (length (logs s) + length es - MAX_LOGS) (logs s @ map entry_of es)"
proof (induction es arbitrary: s)
  case Nil
  then show ?case by (simp add: append_all_def)
next
  case (Cons e es)
  obtain lvl msg t where e: "e = (lvl, msg, t)" by (cases e) auto
  let ?s1 = "addLog lvl msg t s"
  have l1: "logs ?s1 = drop (Suc (length (logs s)) - MAX_LOGS) (logs s @ [entry_of e])"
    using Cons.prems by (simp add: logs_addLog push_log_last e entry_of_def)
  have len1: "length (logs ?s1) \<le> MAX_LOGS"
    using Cons.prems by (simp add: l1)
  have "logs (append_all (e # es) s) = logs (append_all es ?s1)"
    by (simp add: append_all_def e)
  also have "\<dots> = drop (length (logs ?s1) + length es - MAX_LOGS) (logs ?s1 @ map entry_of es)"
    using Cons.IH [OF len1] .
  also have "\<dots> = drop (length (logs s) + length (e # es) - MAX_LOGS) (logs s @ map entry_of (e # es))"
  proof (cases "length (logs s) = MAX_LOGS")
    case True
    then obtain x xs where xs: "logs s = x # xs" by (cases "logs s") (auto simp: MAX_LOGS_def)
    have "logs ?s1 = xs @ [entry_of e]" using True by (simp add: l1 xs)
    then show ?thesis using True by (simp add: xs)
  next
    case False
    then have "length (logs s) < MAX_LOGS" using Cons.prems by simp
    then have "logs ?s1 = logs s @ [entry_of e]" by (simp add: l1)
    then show ?thesis by simp
  qed
  finally show ?case .
qed

lemma toPositiveInt_500: "toPositiveInt (JString ''500'') 100 = 500"
  by (simp add: toPositiveInt_def parseInt_def is_ws_def is_digit_def digits_val_def digit_val_def number_of_def round_double_def)

lemma recent_after_appending:
  "length (logs s) \<le> MAX_LOGS \<Longrightarrow>
     length (logs (append_all es s)) \<le> MAX_LOGS \<and>
     (MAX_LOGS \<le> length es \<longrightarrow>
        get_logs (JString ''500'') (append_all es s) = drop (length es - MAX_LOGS) (map entry_of es))"
proof -
  assume a: "length (logs s) \<le> MAX_LOGS"
  have l: "logs (append_all es s) = drop (length (logs s) + length es - MAX_LOGS) (logs s @ map entry_of es)"
    using a by (rule logs_append_all)
  have b: "length (logs (append_all es s)) \<le> MAX_LOGS"
    using a by (simp add: l)
  have g: "get_logs (JString ''500'') (append_all es s) = logs (append_all es s)"
    using b by (simp add: get_logs_def toPositiveInt_500 slice_from_def MAX_LOGS_def Let_def)
  have "MAX_LOGS \<le> length es \<Longrightarrow> logs (append_all es s) = drop (length es - MAX_LOGS) (map entry_of es)"
    using a by (simp add: l)
  with b g show ?thesis by simp
qed

subsection \<open>The timers and the instances of the controller\<close>

lemma in_clear: "(i, k) \<in> set (clearTimer h ts) \<longleftrightarrow> (i, k) \<in> set ts \<and> i \<noteq> h"
  by (auto simp: clearTimer_def)

lemma set_clear_subset: "x \<in> set (clearTimer h ts) \<Longrightarrow> x \<in> set ts"
  by (auto simp: clearTimer_def)

lemma distinct_clear: "distinct (map fst ts) \<Longrightarrow> distinct (map fst (clearTimer h ts))"
  by (simp add: clearTimer_def distinct_map_filter)

lemma timers_wf_clear_reconnect: "timers_wf ts n (Some i) p h \<Longrightarrow> timers_wf (clearTimer i ts) n None p h"
  unfolding timers_wf_def
  by (auto simp: in_clear distinct_clear dest: set_clear_subset eq_key_imp_eq_value)

lemma timers_wf_clear_ping: "timers_wf ts n r (Some i) h \<Longrightarrow> timers_wf (clearTimer i ts) n r None h"
  unfolding timers_wf_def
  by (auto simp: in_clear distinct_clear dest: set_clear_subset eq_key_imp_eq_value)

lemma timers_wf_clear_health: "timers_wf ts n r p (Some i) \<Longrightarrow> timers_wf (clearTimer i ts) n r p None"
  unfolding timers_wf_def
  by (auto simp: in_clear distinct_clear dest: set_clear_subset eq_key_imp_eq_value)

lemma timers_wf_fire_start:
  "timers_wf ts n r p h \<Longrightarrow> map_of ts i = Some (StartT a) \<Longrightarrow> timers_wf (clearTimer i ts) n r p h"
  unfolding timers_wf_def
  by (auto simp: in_clear distinct_clear dest: set_clear_subset eq_key_imp_eq_value map_of_SomeD)

lemma timers_wf_fire_reconnect:
  "timers_wf ts n r p h \<Longrightarrow> map_of ts i = Some ReconnectT \<Longrightarrow> timers_wf (clearTimer i ts) n None p h"
  unfolding timers_wf_def
  by (auto simp: in_clear distinct_clear dest: set_clear_subset eq_key_imp_eq_value map_of_SomeD)

lemma timers_wf_set_reconnect: "timers_wf ts n None p h \<Longrightarrow> timers_wf (ts @ [(n, ReconnectT)]) (Suc n) (Some n) p h"
  unfolding timers_wf_def by (auto simp: less_Suc_eq)

lemma timers_wf_set_ping: "timers_wf ts n r None h \<Longrightarrow> timers_wf (ts @ [(n, PingT)]) (Suc n) r (Some n) h"
  unfolding timers_wf_def by (auto simp: less_Suc_eq)

lemma timers_wf_set_health: "timers_wf ts n r p None \<Longrightarrow> timers_wf (ts @ [(n, HealthT)]) (Suc n) r p (Some n)"
  unfolding timers_wf_def by (auto simp: less_Suc_eq)

lemma timers_wf_set_start: "timers_wf ts n r p h \<Longrightarrow> timers_wf (ts @ [(n, StartT a)]) (Suc n) r p h"
  unfolding timers_wf_def by (auto simp: less_Suc_eq)

lemma timers_wf_fresh: "timers_wf ts n r p h \<Longrightarrow> timers_wf ts (Suc n) r p h"
  unfolding timers_wf_def by (auto simp: less_Suc_eq)

lemma timers_wf_reconnect_list:
  assumes "timers_wf ts n r p h"
  shows "filter (\<lambda>(i, k). k = ReconnectT) ts = (case r of None \<Rightarrow> [] | Some i \<Rightarrow> [(i, ReconnectT)])"
proof -
  let ?f = "filter (\<lambda>(i, k). k = ReconnectT) ts"
  have d: "distinct ?f"
    using assms by (simp add: timers_wf_def distinct_map)
  have s: "set ?f = (case r of None \<Rightarrow> {} | Some i \<Rightarrow> {(i, ReconnectT)})"
    using assms by (auto simp: timers_wf_def split: option.splits)
  show ?thesis
  proof (cases r)
    case None
    then have "set ?f = {}" using s by simp
    then have "?f = []" by (simp only: set_empty)
    then show ?thesis using None by simp
  next
    case (Some i)
    then have "set ?f = {(i, ReconnectT)}" using s by simp
    moreover have "length ?f = card (set ?f)" by (simp only: distinct_card [OF d])
    ultimately have "length ?f = 1" by simp
    then obtain y where "?f = [y]" by (cases ?f) auto
    with \<open>set ?f = {(i, ReconnectT)}\<close> show ?thesis using Some by auto
  qed
qed

lemma addLog_fields [simp]:
  "pendingTimers (addLog l m t s) = pendingTimers s"
  "nextHandle (addLog l m t s) = nextHandle s"
  "reconnectTimer (addLog l m t s) = reconnectTimer s"
  "pingTimer (addLog l m t s) = pingTimer s"
  "healthTimer (addLog l m t s) = healthTimer s"
  "liveBots (addLog l m t s) = liveBots s"
  "botInst (addLog l m t s) = botInst s"
  "isRunning (addLog l m t s) = isRunning s"
  "botStatus (addLog l m t s) = botStatus s"
  "serverStatus (addLog l m t s) = serverStatus s"
  "reconnectAttempts (addLog l m t s) = reconnectAttempts s"
  "config (addLog l m t s) = config s"
  "sessions (addLog l m t s) = sessions s"
  "loginListener (addLog l m t s) = loginListener s"
  "botStartTime (addLog l m t s) = botStartTime s"
  "lastBotEventAt (addLog l m t s) = lastBotEventAt s"
  "keepAlivePulseCount (addLog l m t s) = keepAlivePulseCount s"
  by (simp_all add: addLog_def broadcast_def Let_def)

lemma broadcastStatus_fields [simp]:
  "pendingTimers (broadcastStatus t s) = pendingTimers s"
  "nextHandle (broadcastStatus t s) = nextHandle s"
  "reconnectTimer (broadcastStatus t s) = reconnectTimer s"
  "pingTimer (broadcastStatus t s) = pingTimer s"
  "healthTimer (broadcastStatus t s) = healthTimer s"
  "liveBots (broadcastStatus t s) = liveBots s"
  "botInst (broadcastStatus t s) = botInst s"
  "isRunning (broadcastStatus t s) = isRunning s"
  "botStatus (broadcastStatus t s) = botStatus s"
  "serverStatus (broadcastStatus t s) = serverStatus s"
  "reconnectAttempts (broadcastStatus t s) = reconnectAttempts s"
  "config (broadcastStatus t s) = config s"
  "sessions (broadcastStatus t s) = sessions s"
  "loginListener (broadcastStatus t s) = loginListener s"
  "botStartTime (broadcastStatus t s) = botStartTime s"
  "lastBotEventAt (broadcastStatus t s) = lastBotEventAt s"
  "keepAlivePulseCount (broadcastStatus t s) = keepAlivePulseCount s"
  "logs (broadcastStatus t s) = logs s"
  by (simp_all add: broadcastStatus_def broadcast_def)

lemma ctl_inv_addLog [simp]: "ctl_inv (addLog l m t s) = ctl_inv s"
  by (simp add: ctl_inv_def timers_ok_def bots_ok_def idle_ok_def)

lemma ctl_inv_broadcastStatus [simp]: "ctl_inv (broadcastStatus t s) = ctl_inv s"
  by (simp add: ctl_inv_def timers_ok_def bots_ok_def idle_ok_def)

lemma ctl_inv_markBotActivity [simp]: "ctl_inv (markBotActivity t s) = ctl_inv s"
  by (simp add: ctl_inv_def timers_ok_def bots_ok_def idle_ok_def markBotActivity_def)

lemma ctl_inv_updates [simp]:
  "ctl_inv (s\<lparr>botStatus := a\<rparr>) = ctl_inv s"
  "ctl_inv (s\<lparr>serverStatus := b\<rparr>) = ctl_inv s"
  "ctl_inv (s\<lparr>reconnectAttempts := c\<rparr>) = ctl_inv s"
  "ctl_inv (s\<lparr>lastPing := d\<rparr>) = ctl_inv s"
  "ctl_inv (s\<lparr>lastBotEventAt := e\<rparr>) = ctl_inv s"
  "ctl_inv (s\<lparr>botStartTime := f\<rparr>) = ctl_inv s"
  "ctl_inv (s\<lparr>keepAlivePulseCount := g\<rparr>) = ctl_inv s"
  "ctl_inv (s\<lparr>loginListener := h\<rparr>) = ctl_inv s"
  "ctl_inv (s\<lparr>config := i\<rparr>) = ctl_inv s"
  "ctl_inv (s\<lparr>configFile := j\<rparr>) = ctl_inv s"
  "ctl_inv (s\<lparr>sessions := k\<rparr>) = ctl_inv s"
  "ctl_inv (s\<lparr>logs := l\<rparr>) = ctl_inv s"
  "ctl_inv (s\<lparr>sent := m\<rparr>) = ctl_inv s"
  by (simp_all add: ctl_inv_def timers_ok_def bots_ok_def idle_ok_def)

lemma ctl_inv_clearReconnectTimer: "ctl_inv s \<Longrightarrow> ctl_inv (clearReconnectTimer s)"
  by (auto simp: ctl_inv_def timers_ok_def bots_ok_def idle_ok_def clearReconnectTimer_def
      split: option.splits intro: timers_wf_clear_reconnect)

lemma ctl_inv_stopPingTimer: "ctl_inv s \<Longrightarrow> ctl_inv (stopPingTimer s)"
  by (auto simp: ctl_inv_def timers_ok_def bots_ok_def idle_ok_def stopPingTimer_def
      split: option.splits intro: timers_wf_clear_ping)

lemma ctl_inv_stopHealthTimer: "ctl_inv s \<Longrightarrow> ctl_inv (stopHealthTimer s)"
  by (auto simp: ctl_inv_def timers_ok_def bots_ok_def idle_ok_def stopHealthTimer_def
      split: option.splits intro: timers_wf_clear_health)

lemma ctl_inv_quitBot: "ctl_inv s \<Longrightarrow> ctl_inv (quitBot r s)"
  by (auto simp: ctl_inv_def timers_ok_def bots_ok_def idle_ok_def quitBot_def
      split: option.splits)

lemma ctl_inv_queueReconnect: "ctl_inv s \<Longrightarrow> ctl_inv (queueReconnect r t s)"
  by (auto simp: ctl_inv_def timers_ok_def bots_ok_def idle_ok_def queueReconnect_def Let_def
      setTimer_def intro: timers_wf_set_reconnect)

lemma ctl_inv_startPingTimer: "ctl_inv s \<Longrightarrow> ctl_inv (startPingTimer s)"
  using ctl_inv_stopPingTimer [of s]
  by (auto simp: ctl_inv_def timers_ok_def bots_ok_def idle_ok_def startPingTimer_def Let_def
      setTimer_def stopPingTimer_def split: option.splits intro: timers_wf_set_ping)

lemma ctl_inv_startHealthTimer: "ctl_inv s \<Longrightarrow> ctl_inv (startHealthTimer s)"
  using ctl_inv_stopHealthTimer [of s]
  by (auto simp: ctl_inv_def timers_ok_def bots_ok_def idle_ok_def startHealthTimer_def Let_def
      setTimer_def stopHealthTimer_def split: option.splits intro: timers_wf_set_health)

lemmas ctl_inv_prims =
  ctl_inv_clearReconnectTimer ctl_inv_stopPingTimer ctl_inv_stopHealthTimer ctl_inv_quitBot
  ctl_inv_queueReconnect ctl_inv_startPingTimer ctl_inv_startHealthTimer

lemma prims_fields [simp]:
  "isRunning (clearReconnectTimer s) = isRunning s"
  "isRunning (stopPingTimer s) = isRunning s"
  "isRunning (stopHealthTimer s) = isRunning s"
  "isRunning (quitBot r s) = isRunning s"
  "isRunning (markBotActivity t s) = isRunning s"
  "reconnectTimer (clearReconnectTimer s) = None"
  "reconnectTimer (stopPingTimer s) = reconnectTimer s"
  "reconnectTimer (stopHealthTimer s) = reconnectTimer s"
  "reconnectTimer (quitBot r s) = reconnectTimer s"
  "reconnectTimer (markBotActivity t s) = reconnectTimer s"
  by (simp_all add: clearReconnectTimer_def stopPingTimer_def stopHealthTimer_def quitBot_def
      markBotActivity_def split: option.splits)

lemma quitBot_botInst [simp]: "botInst (quitBot r s) = None"
  by (simp add: quitBot_def split: option.splits)

lemma ctl_inv_createBot: "ctl_inv s \<Longrightarrow> ctl_inv (createBot outcome t s)"
proof -
  assume a: "ctl_inv s"
  let ?s1 = "quitBot ''refresh instance'' (stopPingTimer (clearReconnectTimer s))"
  have i1: "ctl_inv ?s1" using a by (simp add: ctl_inv_prims)
  have b1: "botInst ?s1 = None" by simp
  show ?thesis
  proof (cases "isRunning s")
    case False
    then show ?thesis using a by (simp add: createBot_def)
  next
    case True
    show ?thesis
    proof (cases outcome)
      case (Threw msg)
      then show ?thesis using True i1 by (simp add: createBot_def Let_def ctl_inv_prims)
    next
      case Created
      have "ctl_inv (?s1\<lparr>botInst := Some (nextHandle ?s1), liveBots := liveBots ?s1 @ [nextHandle ?s1],
                 loginListener := True, nextHandle := Suc (nextHandle ?s1)\<rparr>)"
        using i1 b1 True by (auto simp: ctl_inv_def timers_ok_def bots_ok_def idle_ok_def intro: timers_wf_fresh)
      then show ?thesis using True Created
        by (simp add: createBot_def Let_def ctl_inv_def timers_ok_def bots_ok_def idle_ok_def
            markBotActivity_def)
    qed
  qed
qed

lemma ctl_inv_reconnectFires:
  "ctl_inv (s\<lparr>reconnectTimer := None\<rparr>) \<Longrightarrow> ctl_inv (reconnectFires outcome t s)"
  by (simp add: reconnectFires_def Let_def ctl_inv_createBot)

lemma ctl_inv_pingTick: "ctl_inv s \<Longrightarrow> ctl_inv (pingTick e x t s)"
  by (simp add: pingTick_def Let_def split: option.splits)

lemma ctl_inv_healthTick: "ctl_inv s \<Longrightarrow> ctl_inv (healthTick t s)"
  by (simp add: healthTick_def Let_def ctl_inv_prims)

lemma ctl_inv_on_login: "ctl_inv s \<Longrightarrow> ctl_inv (on_login n t s)"
  by (simp add: on_login_def Let_def ctl_inv_prims)

lemma ctl_inv_on_spawn: "ctl_inv s \<Longrightarrow> ctl_inv (on_spawn t s)"
  by (simp add: on_spawn_def)

lemma ctl_inv_on_kicked: "ctl_inv s \<Longrightarrow> ctl_inv (on_kicked r t s)"
  by (simp add: on_kicked_def Let_def ctl_inv_prims)

lemma ctl_inv_on_error: "ctl_inv s \<Longrightarrow> ctl_inv (on_error c m t s)"
  by (simp add: on_error_def Let_def ctl_inv_prims)

lemma ctl_inv_on_end: "ctl_inv s \<Longrightarrow> ctl_inv (on_end r t s)"
  by (simp add: on_end_def Let_def ctl_inv_prims)

lemma ctl_inv_on_activity: "ctl_inv s \<Longrightarrow> ctl_inv (on_activity t s)"
  by (simp add: on_activity_def)

lemma ctl_inv_bot_emits: "ctl_inv s \<Longrightarrow> ctl_inv (bot_emits ev t s)"
  by (cases ev)
     (simp_all add: bot_emits_def ctl_inv_on_login ctl_inv_on_spawn ctl_inv_on_kicked
        ctl_inv_on_error ctl_inv_on_end ctl_inv_on_activity)

lemma ctl_inv_startBot: "ctl_inv s \<Longrightarrow> ctl_inv (snd (startBot a outcome t s))"
proof -
  assume a: "ctl_inv s"
  have "ctl_inv (s\<lparr>isRunning := True, botStartTime := None, reconnectAttempts := 0,
                    keepAlivePulseCount := 0\<rparr>)"
    using a by (simp add: ctl_inv_def timers_ok_def bots_ok_def idle_ok_def)
  then show ?thesis using a
    by (simp add: startBot_def Let_def ctl_inv_createBot ctl_inv_prims)
qed

lemma prims_isRunning_update:
  "clearReconnectTimer (s\<lparr>isRunning := b\<rparr>) = (clearReconnectTimer s)\<lparr>isRunning := b\<rparr>"
  "stopPingTimer (s\<lparr>isRunning := b\<rparr>) = (stopPingTimer s)\<lparr>isRunning := b\<rparr>"
  "stopHealthTimer (s\<lparr>isRunning := b\<rparr>) = (stopHealthTimer s)\<lparr>isRunning := b\<rparr>"
  "quitBot r (s\<lparr>isRunning := b\<rparr>) = (quitBot r s)\<lparr>isRunning := b\<rparr>"
  by (simp_all add: clearReconnectTimer_def stopPingTimer_def stopHealthTimer_def quitBot_def
      split: option.splits)

lemma ctl_inv_weaken: "ctl_inv s \<Longrightarrow> timers_ok s \<and> bots_ok s"
  by (simp add: ctl_inv_def)

lemma ctl_inv_stopBot: "ctl_inv s \<Longrightarrow> ctl_inv (snd (stopBot a t s))"
proof (cases "isRunning s")
  case False
  assume "ctl_inv s"
  then show ?thesis using False by (simp add: stopBot_def)
next
  case True
  assume a: "ctl_inv s"
  let ?s2 = "quitBot ''stopped by user'' (stopHealthTimer (stopPingTimer (clearReconnectTimer s)))"
  let ?t2 = "quitBot ''stopped by user''
               (stopHealthTimer (stopPingTimer (clearReconnectTimer (s\<lparr>isRunning := False\<rparr>))))"
  have i2: "ctl_inv ?s2" using a by (simp add: ctl_inv_prims)
  have e: "?t2 = ?s2\<lparr>isRunning := False\<rparr>"
    by (simp only: prims_isRunning_update)
  have r2: "reconnectTimer ?s2 = None" by simp
  have "ctl_inv ?t2"
    unfolding e using i2 r2 by (simp add: ctl_inv_def timers_ok_def bots_ok_def idle_ok_def)
  then show ?thesis using True by (simp add: stopBot_def Let_def)
qed

lemma ctl_inv_setTimer_start: "ctl_inv s \<Longrightarrow> ctl_inv (snd (setTimer (StartT a) s))"
  by (auto simp: ctl_inv_def timers_ok_def bots_ok_def idle_ok_def setTimer_def intro: timers_wf_set_start)

lemma ctl_inv_restartBot: "ctl_inv s \<Longrightarrow> ctl_inv (snd (restartBot a t s))"
  using ctl_inv_setTimer_start [OF ctl_inv_stopBot, of "addLog ''INFO'' (''Bot restart requested by '' @ actorLabel (Some a)) t s" a a t]
  by (simp add: restartBot_def Let_def split_def)

lemma ctl_inv_control_action: "ctl_inv s \<Longrightarrow> ctl_inv (snd (control_action c a outcome t s))"
  by (cases c) (simp_all add: control_action_def ctl_inv_startBot ctl_inv_stopBot ctl_inv_restartBot)

lemma ctl_inv_frame: "ctl_inv s \<Longrightarrow> ctl_view s' = ctl_view s \<Longrightarrow> ctl_inv s'"
  by (simp add: ctl_view_def ctl_inv_def timers_ok_def bots_ok_def idle_ok_def)

lemma ctl_view_addLog [simp]: "ctl_view (addLog l m t s) = ctl_view s"
  by (simp add: ctl_view_def)

lemma ctl_view_broadcastStatus [simp]: "ctl_view (broadcastStatus t s) = ctl_view s"
  by (simp add: ctl_view_def)

lemma ctl_view_updates [simp]:
  "ctl_view (s\<lparr>config := i\<rparr>) = ctl_view s"
  "ctl_view (s\<lparr>configFile := j\<rparr>) = ctl_view s"
  "ctl_view (s\<lparr>sessions := k\<rparr>) = ctl_view s"
  by (simp_all add: ctl_view_def)

lemma ctl_view_resolve [simp]: "ctl_view (snd (resolveAuthFromToken tok t1 t2 s)) = ctl_view s"
  by (simp add: resolveAuthFromToken_def Let_def split: option.splits)

lemma ctl_view_requireAuth [simp]: "ctl_view (snd (requireAuth h t s)) = ctl_view s"
proof -
  have "snd (requireAuth h t s) = snd (resolveAuthFromToken (getBearerToken h) t t s)"
    by (simp add: requireAuth_def split: prod.splits option.splits)
  then show ?thesis by simp
qed

lemma ctl_view_authorize [simp]: "ctl_view (snd (authorize p h t s)) = ctl_view s"
proof -
  have "snd (authorize p h t s) = snd (requireAuth h t s)"
    by (simp add: authorize_def split: prod.splits sum.splits)
  then show ?thesis by simp
qed

lemma authorize_state: "authorize p h t s = (r, s') \<Longrightarrow> ctl_view s' = ctl_view s"
  using ctl_view_authorize [of p h t s] by simp

lemma ctl_view_post_login [simp]: "ctl_view (snd (post_login b h t s)) = ctl_view s"
  by (simp add: post_login_def Let_def saveConfig_def createSession_def split: option.splits)

lemma requireAuth_view: "requireAuth h t s = (r, s') \<Longrightarrow> ctl_view s' = ctl_view s"
  using ctl_view_requireAuth [of h t s] by simp

lemma ctl_view_post_logout [simp]: "ctl_view (snd (post_logout h t s)) = ctl_view s"
proof (cases "requireAuth h t s")
  case (Pair r s')
  then have "ctl_view s' = ctl_view s" by (rule requireAuth_view)
  then show ?thesis using Pair
    by (cases r; cases "getBearerToken h") (simp_all add: post_logout_def)
qed

lemma ctl_view_post_config [simp]: "ctl_view (snd (post_config b a t s)) = ctl_view s"
  by (simp add: post_config_def Let_def saveConfig_def)

lemma ctl_view_route_post_config [simp]: "ctl_view (snd (route_post_config h b t s)) = ctl_view s"
proof (cases "authorize ConfigWrite h t s")
  case (Pair r s')
  then have v: "ctl_view s' = ctl_view s" by (rule authorize_state)
  show ?thesis
  proof (cases r)
    case (Inl f)
    then show ?thesis using Pair v by (simp add: route_post_config_def)
  next
    case (Inr u)
    have "ctl_view (snd (post_config b u t s')) = ctl_view s" using v by simp
    then show ?thesis using Pair Inr by (cases "post_config b u t s'") (simp add: route_post_config_def)
  qed
qed

lemma ctl_view_revoke [simp]: "ctl_view (revokeSessionsForUser u s) = ctl_view s"
  by (simp add: revokeSessionsForUser_def)

lemma ctl_view_store_user [simp]: "ctl_view (store_user u x s) = ctl_view s"
  by (simp add: store_user_def)

lemma ctl_view_saveConfig [simp]: "ctl_view (saveConfig c s) = ctl_view s"
  by (simp add: saveConfig_def)

lemma ctl_view_create_user [simp]: "ctl_view (snd (create_user b a u x t s)) = ctl_view s"
  by (simp add: create_user_def Let_def)

lemma ctl_view_delete_user [simp]: "ctl_view (snd (delete_user r a t s)) = ctl_view s"
  by (simp add: delete_user_def Let_def split: option.splits)

lemma ctl_view_finish_patch [simp]: "ctl_view (snd (finish_patch a u i r t s)) = ctl_view s"
  by (simp add: finish_patch_def Let_def)

lemma finish_patch_view: "finish_patch a u i r t s = (res, s') \<Longrightarrow> ctl_view s' = ctl_view s"
  using ctl_view_finish_patch [of a u i r t s] by simp

lemma ctl_view_apply_patch:
  "apply_patch r b a hs t tg nr s = Some (res, s') \<Longrightarrow> ctl_view s' = ctl_view s"
  by (auto simp: apply_patch_def Let_def split: option.splits if_splits dest!: finish_patch_view)

lemma ctl_view_patch_user:
  "patch_user r b a hs t s = Some (res, s') \<Longrightarrow> ctl_view s' = ctl_view s"
  by (auto simp: patch_user_def Let_def split: option.splits if_splits dest: ctl_view_apply_patch)

lemma ctl_view_route_patch_user:
  "route_patch_user h r b hs t s = Some (res, s') \<Longrightarrow> ctl_view s' = ctl_view s"
proof (cases "authorize UsersWrite h t s")
  case (Pair x s1)
  assume a: "route_patch_user h r b hs t s = Some (res, s')"
  have v: "ctl_view s1 = ctl_view s" using Pair by (rule authorize_state)
  show ?thesis
  proof (cases x)
    case (Inl f)
    then show ?thesis using a Pair v by (simp add: route_patch_user_def)
  next
    case (Inr u)
    then have "patch_user r b u hs t s1 = Some (res, s')"
      using a Pair by (simp add: route_patch_user_def)
    then have "ctl_view s' = ctl_view s1" by (rule ctl_view_patch_user)
    then show ?thesis using v by simp
  qed
qed

lemma ctl_view_route_create_user [simp]:
  "ctl_view (snd (route_create_user h b u x t s)) = ctl_view s"
proof (cases "authorize UsersWrite h t s")
  case (Pair r s')
  then have v: "ctl_view s' = ctl_view s" by (rule authorize_state)
  then show ?thesis using Pair by (cases r) (simp_all add: route_create_user_def)
qed

lemma ctl_view_route_delete_user [simp]:
  "ctl_view (snd (route_delete_user h r t s)) = ctl_view s"
proof (cases "authorize UsersWrite h t s")
  case (Pair x s')
  then have v: "ctl_view s' = ctl_view s" by (rule authorize_state)
  then show ?thesis using Pair by (cases x) (simp_all add: route_delete_user_def)
qed

lemma ctl_view_prune [simp]: "ctl_view (pruneExpiredSessions t s) = ctl_view s"
  by (simp add: pruneExpiredSessions_def)

lemma ctl_inv_route_control: "ctl_inv s \<Longrightarrow> ctl_inv (snd (route_control h c outcome t s))"
proof (cases "authorize BotControl h t s")
  case (Pair x s')
  assume a: "ctl_inv s"
  have "ctl_view s' = ctl_view s" using Pair by (rule authorize_state)
  then have i: "ctl_inv s'" by (rule ctl_inv_frame [OF a])
  show ?thesis
  proof (cases x)
    case (Inl f)
    then show ?thesis using Pair i by (simp add: route_control_def)
  next
    case (Inr u)
    then show ?thesis using Pair ctl_inv_control_action [OF i, of c "actor_of u" outcome t]
      by (cases "control_action c (actor_of u) outcome t s'") (simp add: route_control_def)
  qed
qed

lemma timers_wf_fired_reconnect:
  "timers_wf ts n r p h \<Longrightarrow> map_of ts i = Some ReconnectT \<Longrightarrow> r = Some i"
  unfolding timers_wf_def by (auto dest: map_of_SomeD)

lemma ctl_inv_timer_fires: "ctl_inv s \<Longrightarrow> ctl_inv (timer_fires i outcome e x t s)"
proof (cases "map_of (pendingTimers s) i")
  case None
  assume "ctl_inv s"
  then show ?thesis using None by (simp add: timer_fires_def)
next
  case (Some k)
  assume a: "ctl_inv s"
  show ?thesis
  proof (cases k)
    case ReconnectT
    have "ctl_inv (s\<lparr>pendingTimers := clearTimer i (pendingTimers s), reconnectTimer := None\<rparr>)"
      using a Some ReconnectT
      by (auto simp: ctl_inv_def timers_ok_def bots_ok_def idle_ok_def intro: timers_wf_fire_reconnect)
    then show ?thesis using Some ReconnectT
      by (simp add: timer_fires_def ctl_inv_reconnectFires)
  next
    case PingT
    then show ?thesis using a Some by (simp add: timer_fires_def ctl_inv_pingTick)
  next
    case HealthT
    then show ?thesis using a Some by (simp add: timer_fires_def ctl_inv_healthTick)
  next
    case (StartT act)
    have "ctl_inv (s\<lparr>pendingTimers := clearTimer i (pendingTimers s)\<rparr>)"
      using a Some StartT
      by (auto simp: ctl_inv_def timers_ok_def bots_ok_def idle_ok_def intro: timers_wf_fire_start)
    then show ?thesis using Some StartT
      by (simp add: timer_fires_def ctl_inv_startBot)
  next
    case SweepT
    have "ctl_inv (pruneExpiredSessions t s)" using a by (rule ctl_inv_frame) simp
    then show ?thesis using Some SweepT by (simp add: timer_fires_def)
  qed
qed

lemma ctl_inv_step: "ctl_inv s \<Longrightarrow> step te s = Some s' \<Longrightarrow> ctl_inv s'"
proof -
  assume a: "ctl_inv s" and st: "step te s = Some s'"
  obtain now e where te: "te = (now, e)" by (cases te)
  note fr = ctl_inv_frame [OF a]
  show ?thesis
  proof (cases e)
    case (Listening p)
    then have "s' = addLog ''INFO'' (''Server started on port '' @ p) now s"
      using st te by (simp add: step_def)
    then show ?thesis using a by simp
  next
    case (Call c act outcome)
    then have "s' = snd (control_action c act outcome now s)" using st te by (simp add: step_def)
    then show ?thesis using a by (simp add: ctl_inv_control_action)
  next
    case (HttpControl h c outcome)
    then have "s' = snd (route_control h c outcome now s)" using st te by (simp add: step_def)
    then show ?thesis using a by (simp add: ctl_inv_route_control)
  next
    case (TimerFires i outcome e x)
    then have "s' = timer_fires i outcome e x now s" using st te by (simp add: step_def)
    then show ?thesis using a by (simp add: ctl_inv_timer_fires)
  next
    case (BotEmits ev)
    then have "s' = bot_emits ev now s" using st te by (simp add: step_def)
    then show ?thesis using a by (simp add: ctl_inv_bot_emits)
  next
    case (HttpLogin b h)
    then have "s' = snd (post_login b h now s)" using st te by (simp add: step_def)
    then show ?thesis by (intro fr) simp
  next
    case (HttpLogout h)
    then have "s' = snd (post_logout h now s)" using st te by (simp add: step_def)
    then show ?thesis by (intro fr) simp
  next
    case (HttpGet p h)
    then have "s' = snd (requireAuth h now s) \<or> (\<exists>q. s' = snd (authorize q h now s))"
      using st te by (cases p) (auto simp: step_def)
    then show ?thesis by (intro fr) auto
  next
    case (HttpPostConfig h b)
    then have "s' = snd (route_post_config h b now s)" using st te by (simp add: step_def)
    then show ?thesis by (intro fr) simp
  next
    case (HttpCreateUser h b u x)
    then have "s' = snd (route_create_user h b u x now s)" using st te by (simp add: step_def)
    then show ?thesis by (intro fr) simp
  next
    case (HttpPatchUser h r b hs)
    then obtain res where "route_patch_user h r b hs now s = Some (res, s')"
      using st te by (auto simp: step_def)
    then have "ctl_view s' = ctl_view s" by (rule ctl_view_route_patch_user)
    then show ?thesis by (rule fr)
  next
    case (HttpDeleteUser h r)
    then have "s' = snd (route_delete_user h r now s)" using st te by (simp add: step_def)
    then show ?thesis by (intro fr) simp
  next
    case (WsConnect tk)
    then have "s' = snd (resolveAuthFromToken tk now now s)" using st te by (simp add: step_def)
    then show ?thesis by (intro fr) simp
  qed
qed

lemma ctl_inv_run: "ctl_inv s \<Longrightarrow> run tes s = Some s' \<Longrightarrow> ctl_inv s'"
proof (induction tes arbitrary: s)
  case Nil
  then show ?case by simp
next
  case (Cons te tes)
  then show ?case by (auto split: option.splits dest: ctl_inv_step)
qed

lemma ctl_inv_boot: "ctl_inv (boot raw env hex uuid t)"
  by (simp add: boot_def Let_def ctl_inv_def timers_ok_def bots_ok_def idle_ok_def timers_wf_def)

lemmas eval_ctl =
  example_boot_def example_started_def example_kicked_def boot_def Let_def
  startBot_def createBot_def queueReconnect_def startHealthTimer_def stopHealthTimer_def
  startPingTimer_def stopPingTimer_def clearReconnectTimer_def quitBot_def markBotActivity_def
  setTimer_def timer_fires_def clearTimer_def bot_emits_def on_kicked_def on_login_def
  reconnect_timers_def

lemma isRunning_stopBot [simp]: "isRunning (snd (stopBot a t s)) = False"
  by (simp add: stopBot_def Let_def)

lemma reconnect_timers_var:
  "ctl_inv s \<Longrightarrow>
   reconnect_timers s = (case reconnectTimer s of None \<Rightarrow> [] | Some i \<Rightarrow> [(i, ReconnectT)])"
  unfolding reconnect_timers_def ctl_inv_def timers_ok_def
  by (auto dest: timers_wf_reconnect_list)

lemma run_example_started:
  "run [(1500, TimerFires 1 Created False None)] example_boot = Some example_started"
  by (simp add: step_def example_started_def)

lemma run_example_kicked:
  "run [(1500, TimerFires 1 Created False None), (2000, BotEmits (Kicked (JString ''idle'')))]
     example_boot = Some example_kicked"
  by (simp add: step_def example_started_def example_kicked_def)

subsection \<open>Start and stop\<close>

text \<open>
  C1. In every state the server reaches, whatever the events (among them every sequence
  of Start and Stop calls, \<open>Call DoStart\<close> and \<open>Call DoStop\<close>), at most one protocol-client
  instance is live; and when \<open>stopBot\<close> returns in such a state, no reconnect timer is
  pending in the event loop and \<open>reconnectTimer\<close> is unset.
\<close>

theorem one_live_client_and_stop_cancels_reconnect:
  assumes "run tes (boot raw env hex uuid t0) = Some s"
  shows "length (liveBots s) \<le> 1 \<and>
         reconnect_timers (snd (stopBot a t s)) = [] \<and>
         reconnectTimer (snd (stopBot a t s)) = None"
proof -
  have i: "ctl_inv s" using ctl_inv_boot assms by (rule ctl_inv_run)
  have l: "length (liveBots s) \<le> 1"
    using i by (simp add: ctl_inv_def bots_ok_def split: option.splits)
  let ?s' = "snd (stopBot a t s)"
  have i': "ctl_inv ?s'" using i by (rule ctl_inv_stopBot)
  then have r: "reconnectTimer ?s' = None" by (simp add: ctl_inv_def idle_ok_def)
  then have "reconnect_timers ?s' = []" using reconnect_timers_var [OF i'] by simp
  with l r show ?thesis by simp
qed

theorem one_live_client_and_stop_cancels_reconnect_witness:
  "run [(1500, TimerFires 1 Created False None), (2000, BotEmits (Kicked (JString ''idle'')))]
     (boot no_config None ''00'' (\<lambda>i. ''id'') 0) = Some example_kicked \<and>
   liveBots example_kicked = [3] \<and>
   reconnect_timers example_kicked = [(4, ReconnectT)] \<and>
   length (liveBots example_kicked) \<le> 1 \<and>
   reconnect_timers (snd (stopBot \<lparr>a_name = ''Owner'', a_role = ''admin''\<rparr> 3000 example_kicked)) = [] \<and>
   reconnectTimer (snd (stopBot \<lparr>a_name = ''Owner'', a_role = ''admin''\<rparr> 3000 example_kicked)) = None"
proof -
  have h: "run [(1500, TimerFires 1 Created False None), (2000, BotEmits (Kicked (JString ''idle'')))]
             (boot no_config None ''00'' (\<lambda>i. ''id'') 0) = Some example_kicked"
    using run_example_kicked by (simp add: example_boot_def)
  have e: "liveBots example_kicked = [3]" "reconnect_timers example_kicked = [(4, ReconnectT)]"
    by (simp_all add: eval_ctl)
  show ?thesis
    using h e one_live_client_and_stop_cancels_reconnect [OF h, of "\<lparr>a_name = ''Owner'', a_role = ''admin''\<rparr>" 3000]
    by simp
qed

text \<open>
  C5. In every state the server reaches at most one reconnect timer is pending, and
  while one is pending \<open>queueReconnect\<close> changes nothing: no second timer, no increment
  of \<open>reconnectAttempts\<close>.
\<close>

theorem at_most_one_reconnect_timer:
  assumes "run tes (boot raw env hex uuid t0) = Some s"
  shows "length (reconnect_timers s) \<le> 1 \<and>
         (reconnect_timers s \<noteq> [] \<longrightarrow> queueReconnect reason t s = s)"
proof -
  have i: "ctl_inv s" using ctl_inv_boot assms by (rule ctl_inv_run)
  note v = reconnect_timers_var [OF i]
  have "length (reconnect_timers s) \<le> 1" by (simp add: v split: option.splits)
  moreover have "reconnect_timers s \<noteq> [] \<Longrightarrow> queueReconnect reason t s = s"
    by (simp add: v queueReconnect_def split: option.splits)
  ultimately show ?thesis by simp
qed

theorem at_most_one_reconnect_timer_witness:
  "run [(1500, TimerFires 1 Created False None), (2000, BotEmits (Kicked (JString ''idle'')))]
     (boot no_config None ''00'' (\<lambda>i. ''id'') 0) = Some example_kicked \<and>
   reconnect_timers example_kicked = [(4, ReconnectT)] \<and>
   reconnect_timers example_kicked \<noteq> [] \<and>
   reconnectAttempts example_kicked = 1 \<and>
   queueReconnect ''kicked'' 2500 example_kicked = example_kicked"
proof -
  have h: "run [(1500, TimerFires 1 Created False None), (2000, BotEmits (Kicked (JString ''idle'')))]
             (boot no_config None ''00'' (\<lambda>i. ''id'') 0) = Some example_kicked"
    using run_example_kicked by (simp add: example_boot_def)
  have e: "reconnect_timers example_kicked = [(4, ReconnectT)]" "reconnectAttempts example_kicked = 1"
    by (simp_all add: eval_ctl)
  show ?thesis
    using h e at_most_one_reconnect_timer [OF h, of "''kicked''" 2500]
    by simp
qed

text \<open>
  C8. \<open>startBot\<close> while \<open>isRunning\<close> returns the failure and the state as it was, and so
  does \<open>stopBot\<close> while \<open>isRunning\<close> is unset: no variable and no timer changes.
\<close>

theorem start_and_stop_refused_without_effect:
  "(isRunning s \<longrightarrow> startBot a outcome t s = (Failed ''Bot already running'', s)) \<and>
   (\<not> isRunning s \<longrightarrow> stopBot a t s = (Failed ''Bot not running'', s))"
  by (simp add: startBot_def stopBot_def)

theorem start_and_stop_refused_without_effect_witness:
  "isRunning example_started \<and>
   startBot \<lparr>a_name = ''Owner'', a_role = ''admin''\<rparr> Created 1600 example_started
     = (Failed ''Bot already running'', example_started) \<and>
   \<not> isRunning example_boot \<and>
   stopBot \<lparr>a_name = ''Owner'', a_role = ''admin''\<rparr> 100 example_boot
     = (Failed ''Bot not running'', example_boot)"
proof -
  have r: "isRunning example_started" by (simp add: eval_ctl)
  have n: "\<not> isRunning example_boot" by (simp add: eval_ctl)
  show ?thesis
    using r n
      start_and_stop_refused_without_effect [of example_started "\<lparr>a_name = ''Owner'', a_role = ''admin''\<rparr>" Created 1600]
      start_and_stop_refused_without_effect [of example_boot "\<lparr>a_name = ''Owner'', a_role = ''admin''\<rparr>" Created 100]
    by simp
qed

lemma stopPingTimer_fields [simp]:
  "pingTimer (stopPingTimer s) = None"
  "healthTimer (stopPingTimer s) = healthTimer s"
  "botInst (stopPingTimer s) = botInst s"
  "liveBots (stopPingTimer s) = liveBots s"
  "botStatus (stopPingTimer s) = botStatus s"
  "serverStatus (stopPingTimer s) = serverStatus s"
  "reconnectAttempts (stopPingTimer s) = reconnectAttempts s"
  "config (stopPingTimer s) = config s"
  "lastBotEventAt (stopPingTimer s) = lastBotEventAt s"
  by (simp_all add: stopPingTimer_def split: option.splits)

lemma markBotActivity_fields [simp]:
  "pingTimer (markBotActivity t s) = pingTimer s"
  "healthTimer (markBotActivity t s) = healthTimer s"
  "botInst (markBotActivity t s) = botInst s"
  "liveBots (markBotActivity t s) = liveBots s"
  "botStatus (markBotActivity t s) = botStatus s"
  "serverStatus (markBotActivity t s) = serverStatus s"
  "reconnectAttempts (markBotActivity t s) = reconnectAttempts s"
  "config (markBotActivity t s) = config s"
  "pendingTimers (markBotActivity t s) = pendingTimers s"
  by (simp_all add: markBotActivity_def)

lemma quitBot_fields [simp]:
  "pingTimer (quitBot r s) = pingTimer s"
  "healthTimer (quitBot r s) = healthTimer s"
  "liveBots (quitBot r s) = (case botInst s of None \<Rightarrow> liveBots s | Some b \<Rightarrow> removeAll b (liveBots s))"
  "botStatus (quitBot r s) = botStatus s"
  "serverStatus (quitBot r s) = serverStatus s"
  "reconnectAttempts (quitBot r s) = reconnectAttempts s"
  "config (quitBot r s) = config s"
  "pendingTimers (quitBot r s) = pendingTimers s"
  by (simp_all add: quitBot_def split: option.splits)

lemma queueReconnect_fields [simp]:
  "isRunning (queueReconnect r t s) = isRunning s"
  "pingTimer (queueReconnect r t s) = pingTimer s"
  "healthTimer (queueReconnect r t s) = healthTimer s"
  "botInst (queueReconnect r t s) = botInst s"
  "liveBots (queueReconnect r t s) = liveBots s"
  "serverStatus (queueReconnect r t s) = serverStatus s"
  "config (queueReconnect r t s) = config s"
  "reconnectTimer (queueReconnect r t s) =
     (if isRunning s \<and> reconnectTimer s = None then Some (nextHandle s) else reconnectTimer s)"
  "botStatus (queueReconnect r t s) =
     (if isRunning s \<and> reconnectTimer s = None then Connecting else botStatus s)"
  "reconnectAttempts (queueReconnect r t s) =
     (if isRunning s \<and> reconnectTimer s = None then reconnectAttempts s + 1 else reconnectAttempts s)"
  by (simp_all add: queueReconnect_def Let_def setTimer_def)

lemma no_ping_entries:
  "ctl_inv s \<Longrightarrow> pingTimer s = None \<Longrightarrow> list_all (\<lambda>(i, k). k \<noteq> PingT) (pendingTimers s)"
  by (auto simp: ctl_inv_def timers_ok_def timers_wf_def list_all_iff)

lemma one_reconnect_timer:
  "ctl_inv s \<Longrightarrow> reconnectTimer s \<noteq> None \<Longrightarrow> length (reconnect_timers s) = 1"
  by (auto simp: reconnect_timers_var)

lemma running_if_bot: "ctl_inv s \<Longrightarrow> botInst s \<noteq> None \<Longrightarrow> isRunning s"
  by (auto simp: ctl_inv_def idle_ok_def)

lemma on_kicked_fields:
  assumes "isRunning s"
  shows "pingTimer (on_kicked r t s) = None"
        "reconnectTimer (on_kicked r t s) \<noteq> None"
        "reconnectAttempts (on_kicked r t s)
           = (if reconnectTimer s = None then reconnectAttempts s + 1 else reconnectAttempts s)"
        "botStatus (on_kicked r t s) = (if reconnectTimer s = None then Connecting else Error)"
        "serverStatus (on_kicked r t s) = Offline"
  using assms by (simp_all add: on_kicked_def Let_def)

lemma on_error_fields:
  assumes "isRunning s"
  shows "pingTimer (on_error c m t s) = None"
        "reconnectTimer (on_error c m t s) \<noteq> None"
        "reconnectAttempts (on_error c m t s)
           = (if reconnectTimer s = None then reconnectAttempts s + 1 else reconnectAttempts s)"
        "botStatus (on_error c m t s) = (if reconnectTimer s = None then Connecting else Error)"
        "serverStatus (on_error c m t s)
           = (if c = JString ''ECONNREFUSED'' then Offline else serverStatus s)"
  using assms by (simp_all add: on_error_def Let_def)

lemma on_end_fields:
  assumes "isRunning s"
  shows "pingTimer (on_end r t s) = None"
        "reconnectTimer (on_end r t s) \<noteq> None"
        "reconnectAttempts (on_end r t s)
           = (if reconnectTimer s = None then reconnectAttempts s + 1 else reconnectAttempts s)"
        "botStatus (on_end r t s) = Connecting"
        "serverStatus (on_end r t s) = Unknown"
  using assms by (simp_all add: on_end_def Let_def)

subsection \<open>Lost connections\<close>

text \<open>
  C6, as the server has it. The handlers of \<open>kicked\<close>, \<open>error\<close> and \<open>end\<close> run only while
  an instance is held, hence only while \<open>isRunning\<close> is set. Each of them halts the
  keep-alive interval and leaves exactly one reconnect timer pending; it queues that
  timer, counting one more attempt, unless one was pending already. Afterwards the
  phase is \<open>Connecting\<close> if the handler queued the timer, as \<open>queueReconnect\<close> assigns it
  after the handler's own assignment; otherwise it is what the handler assigned:
  \<open>Error\<close> for \<open>kicked\<close> and \<open>error\<close>, \<open>Connecting\<close> for \<open>end\<close>. Reachability is \<open>Offline\<close>
  after \<open>kicked\<close> and after an \<open>error\<close> with code \<^verbatim>\<open>ECONNREFUSED\<close>, unchanged after another
  \<open>error\<close>, and \<open>Unknown\<close> after \<open>end\<close>.
\<close>

theorem lost_connection_queues_one_reconnect:
  assumes "run tes (boot raw env hex uuid t0) = Some s" and "botInst s \<noteq> None"
    and "ev = Kicked r \<or> ev = BotError code msg \<or> ev = End r"
  shows "isRunning s \<and>
         pingTimer (bot_emits ev t s) = None \<and>
         list_all (\<lambda>(i, k). k \<noteq> PingT) (pendingTimers (bot_emits ev t s)) \<and>
         length (reconnect_timers (bot_emits ev t s)) = 1 \<and>
         reconnectAttempts (bot_emits ev t s)
           = (if reconnectTimer s = None then reconnectAttempts s + 1 else reconnectAttempts s) \<and>
         botStatus (bot_emits ev t s)
           = (if reconnectTimer s = None \<or> ev = End r then Connecting else Error) \<and>
         (ev = Kicked r \<longrightarrow> serverStatus (bot_emits ev t s) = Offline) \<and>
         (ev = BotError code msg \<longrightarrow>
            serverStatus (bot_emits ev t s)
              = (if code = JString ''ECONNREFUSED'' then Offline else serverStatus s)) \<and>
         (ev = End r \<longrightarrow> serverStatus (bot_emits ev t s) = Unknown)"
proof -
  have i: "ctl_inv s" using ctl_inv_boot assms(1) by (rule ctl_inv_run)
  have run: "isRunning s" using i assms(2) by (rule running_if_bot)
  let ?s' = "bot_emits ev t s"
  have i': "ctl_inv ?s'" using i by (rule ctl_inv_bot_emits)
  have e: "?s' = on_kicked r t s \<and> ev = Kicked r \<or>
           ?s' = on_error code msg t s \<and> ev = BotError code msg \<or>
           ?s' = on_end r t s \<and> ev = End r"
    using assms(2,3) by (auto simp: bot_emits_def)
  have f: "pingTimer ?s' = None \<and> reconnectTimer ?s' \<noteq> None \<and>
           reconnectAttempts ?s'
             = (if reconnectTimer s = None then reconnectAttempts s + 1 else reconnectAttempts s) \<and>
           botStatus ?s' = (if reconnectTimer s = None \<or> ev = End r then Connecting else Error) \<and>
           (ev = Kicked r \<longrightarrow> serverStatus ?s' = Offline) \<and>
           (ev = BotError code msg \<longrightarrow>
              serverStatus ?s' = (if code = JString ''ECONNREFUSED'' then Offline else serverStatus s)) \<and>
           (ev = End r \<longrightarrow> serverStatus ?s' = Unknown)"
    using e
  proof (elim disjE conjE)
    assume "?s' = on_kicked r t s" "ev = Kicked r"
    then show ?thesis using on_kicked_fields [OF run, of r t] by simp
  next
    assume "?s' = on_error code msg t s" "ev = BotError code msg"
    then show ?thesis using on_error_fields [OF run, of code msg t] by simp
  next
    assume "?s' = on_end r t s" "ev = End r"
    then show ?thesis using on_end_fields [OF run, of r t] by simp
  qed
  show ?thesis
    using run f no_ping_entries [OF i'] one_reconnect_timer [OF i'] by simp
qed

lemma example_numbers:
  "pingInterval (config example_boot) = 45000"
  "reconnectDelay (config example_boot) = 15000"
  "port (config example_boot) = 39695"
  by (simp_all add: example_boot_def boot_def Let_def loadConfig_def no_config_def merged_def
      DEFAULT_CONFIG_def toPositiveInt_def parseInt_def is_ws_def is_digit_def digits_val_def
      digit_val_def number_of_def round_double_def show_int_def show_nat.simps digit_char_def)

lemma example_started_fields:
  "isRunning example_started" "botInst example_started = Some 3"
  "botStatus example_started = Connecting" "reconnectTimer example_started = None"
  "reconnectAttempts example_started = 0" "healthTimer example_started = Some 2"
  "config example_started = config example_boot"
  "pendingTimers example_started = [(0, SweepT), (2, HealthT)]"
  by (simp_all add: eval_ctl)

lemma example_online_fields:
  "isRunning example_online" "botInst example_online = Some 3"
  "botStatus example_online = Online" "reconnectTimer example_online = None"
  "lastBotEventAt example_online = 2000" "config example_online = config example_boot"
  "pendingTimers example_online = [(0, SweepT), (2, HealthT), (4, PingT)]"
  "reconnectAttempts example_online = 0"
  by (simp_all add: example_online_def eval_ctl)

lemma run_example_online:
  "run [(1500, TimerFires 1 Created False None), (2000, BotEmits (Login ''AternosGuard''))]
     example_boot = Some example_online"
  by (simp add: step_def example_started_def example_online_def)

text \<open>
  The claim fails after \<open>kicked\<close>: the bot was started and holds an instance, the server
  kicks it, and the phase the handler leaves is \<open>Connecting\<close>.
\<close>

theorem kicked_leaves_phase_connecting:
  "run [(1500, TimerFires 1 Created False None)] example_boot = Some example_started \<and>
   isRunning example_started \<and> botInst example_started = Some 3 \<and>
   botStatus (bot_emits (Kicked (JString ''idle'')) 2000 example_started) = Connecting \<and>
   botStatus (bot_emits (Kicked (JString ''idle'')) 2000 example_started) \<noteq> Error"
proof -
  have "botStatus (bot_emits (Kicked (JString ''idle'')) 2000 example_started) = Connecting"
    by (simp add: bot_emits_def on_kicked_def Let_def example_started_fields)
  then show ?thesis using run_example_started example_started_fields by simp
qed

theorem lost_connection_queues_one_reconnect_witness:
  "run [(1500, TimerFires 1 Created False None)] example_boot = Some example_started \<and>
   botInst example_started \<noteq> None \<and>
   reconnectTimer example_started = None \<and>
   isRunning example_started \<and>
   pingTimer example_kicked = None \<and>
   length (reconnect_timers example_kicked) = 1 \<and>
   reconnectAttempts example_kicked = 1 \<and>
   botStatus example_kicked = Connecting \<and>
   serverStatus example_kicked = Offline"
proof -
  have h: "run [(1500, TimerFires 1 Created False None)] (boot no_config None ''00'' (\<lambda>i. ''id'') 0)
             = Some example_started"
    using run_example_started by (simp add: example_boot_def)
  have b: "botInst example_started \<noteq> None" by (simp add: example_started_fields)
  have e: "Kicked (JString ''idle'') = Kicked (JString ''idle'') \<or>
           Kicked (JString ''idle'') = BotError JNull JNull \<or>
           Kicked (JString ''idle'') = End (JString ''idle'')"
    by simp
  show ?thesis
    using lost_connection_queues_one_reconnect [OF h b e, of 2000] run_example_started
    by (simp add: example_started_fields example_kicked_def)
qed

subsection \<open>The health sweep\<close>

lemma healthTick_stale:
  assumes "isRunning s" "botStatus s = Online" "t - lastBotEventAt s > staleThreshold s"
  shows "botInst (healthTick t s) = None"
        "pingTimer (healthTick t s) = None"
        "serverStatus (healthTick t s) = Unknown"
        "reconnectTimer (healthTick t s) \<noteq> None"
        "botStatus (healthTick t s) = (if reconnectTimer s = None then Connecting else Error)"
        "reconnectAttempts (healthTick t s)
           = (if reconnectTimer s = None then reconnectAttempts s + 1 else reconnectAttempts s)"
  using assms by (simp_all add: healthTick_def Let_def)

lemma healthTick_lost:
  assumes "isRunning s" "botStatus s = Error \<or> botStatus s = Connecting" "reconnectTimer s = None"
  shows "reconnectTimer (healthTick t s) \<noteq> None"
        "botStatus (healthTick t s) = Connecting"
        "reconnectAttempts (healthTick t s) = reconnectAttempts s + 1"
  using assms by (auto simp: healthTick_def Let_def)

text \<open>
  C7, as the server has it. A health tick does nothing unless \<open>isRunning\<close> is set. Then:
  (a) if the phase is \<open>Online\<close> and the last activity is older than
  \<open>max (2 * pingInterval) 90000\<close> milliseconds, the tick halts the keep-alive interval, quits the
  instance and sets reachability to \<open>Unknown\<close>; it assigns the phase \<open>Error\<close> and calls
  \<open>queueReconnect\<close>, so that afterwards exactly one reconnect timer is pending and the
  phase is \<open>Connecting\<close> if the tick queued that timer, \<open>Error\<close> if one was pending before;
  (b) if the phase is \<open>Error\<close> or \<open>Connecting\<close> and no reconnect timer is pending, the tick
  queues one: one more attempt is counted and the phase is \<open>Connecting\<close>;
  (c) in every other case the tick changes nothing.
\<close>

theorem health_tick_recycles_and_requeues:
  assumes "run tes (boot raw env hex uuid t0) = Some s" and "isRunning s"
  shows "(botStatus s = Online \<and> t - lastBotEventAt s > max (2 * pingInterval (config s)) 90000 \<longrightarrow>
            botInst (healthTick t s) = None \<and> liveBots (healthTick t s) = [] \<and>
            pingTimer (healthTick t s) = None \<and>
            list_all (\<lambda>(i, k). k \<noteq> PingT) (pendingTimers (healthTick t s)) \<and>
            serverStatus (healthTick t s) = Unknown \<and>
            length (reconnect_timers (healthTick t s)) = 1 \<and>
            botStatus (healthTick t s) = (if reconnectTimer s = None then Connecting else Error) \<and>
            reconnectAttempts (healthTick t s)
              = (if reconnectTimer s = None then reconnectAttempts s + 1 else reconnectAttempts s)) \<and>
         ((botStatus s = Error \<or> botStatus s = Connecting) \<and> reconnectTimer s = None \<longrightarrow>
            length (reconnect_timers (healthTick t s)) = 1 \<and>
            botStatus (healthTick t s) = Connecting \<and>
            reconnectAttempts (healthTick t s) = reconnectAttempts s + 1) \<and>
         (\<not> (botStatus s = Online \<and> t - lastBotEventAt s > max (2 * pingInterval (config s)) 90000) \<and>
          \<not> ((botStatus s = Error \<or> botStatus s = Connecting) \<and> reconnectTimer s = None) \<longrightarrow>
            healthTick t s = s)"
proof -
  have i: "ctl_inv s" using ctl_inv_boot assms(1) by (rule ctl_inv_run)
  let ?s' = "healthTick t s"
  have i': "ctl_inv ?s'" using i by (rule ctl_inv_healthTick)
  have th: "staleThreshold s = max (2 * pingInterval (config s)) 90000"
    by (simp add: staleThreshold_def mult.commute)
  have a: "botStatus s = Online \<and> t - lastBotEventAt s > max (2 * pingInterval (config s)) 90000 \<longrightarrow>
            botInst ?s' = None \<and> liveBots ?s' = [] \<and> pingTimer ?s' = None \<and>
            list_all (\<lambda>(i, k). k \<noteq> PingT) (pendingTimers ?s') \<and>
            serverStatus ?s' = Unknown \<and> length (reconnect_timers ?s') = 1 \<and>
            botStatus ?s' = (if reconnectTimer s = None then Connecting else Error) \<and>
            reconnectAttempts ?s'
              = (if reconnectTimer s = None then reconnectAttempts s + 1 else reconnectAttempts s)"
  proof (intro impI)
    assume c: "botStatus s = Online \<and> t - lastBotEventAt s > max (2 * pingInterval (config s)) 90000"
    then have st: "botStatus s = Online" "t - lastBotEventAt s > staleThreshold s"
      by (simp_all add: th)
    note f = healthTick_stale [OF assms(2) st]
    have "liveBots ?s' = []" using i' f(1) by (simp add: ctl_inv_def bots_ok_def)
    then show "botInst ?s' = None \<and> liveBots ?s' = [] \<and> pingTimer ?s' = None \<and>
            list_all (\<lambda>(i, k). k \<noteq> PingT) (pendingTimers ?s') \<and>
            serverStatus ?s' = Unknown \<and> length (reconnect_timers ?s') = 1 \<and>
            botStatus ?s' = (if reconnectTimer s = None then Connecting else Error) \<and>
            reconnectAttempts ?s'
              = (if reconnectTimer s = None then reconnectAttempts s + 1 else reconnectAttempts s)"
      using f no_ping_entries [OF i' f(2)] one_reconnect_timer [OF i' f(4)] by simp
  qed
  have b: "(botStatus s = Error \<or> botStatus s = Connecting) \<and> reconnectTimer s = None \<longrightarrow>
            length (reconnect_timers ?s') = 1 \<and> botStatus ?s' = Connecting \<and>
            reconnectAttempts ?s' = reconnectAttempts s + 1"
  proof (intro impI)
    assume c: "(botStatus s = Error \<or> botStatus s = Connecting) \<and> reconnectTimer s = None"
    then have c': "botStatus s = Error \<or> botStatus s = Connecting" "reconnectTimer s = None"
      by simp_all
    note f = healthTick_lost [OF assms(2) c']
    show "length (reconnect_timers ?s') = 1 \<and> botStatus ?s' = Connecting \<and>
            reconnectAttempts ?s' = reconnectAttempts s + 1"
      using f one_reconnect_timer [OF i' f(1)] by simp
  qed
  have c: "\<not> (botStatus s = Online \<and> t - lastBotEventAt s > max (2 * pingInterval (config s)) 90000) \<and>
          \<not> ((botStatus s = Error \<or> botStatus s = Connecting) \<and> reconnectTimer s = None) \<longrightarrow>
            ?s' = s"
    using assms(2) by (auto simp: healthTick_def Let_def th)
  from a b c show ?thesis by blast
qed

text \<open>
  The claim fails at a stale connection: the bot logged in at instant 2000 and nothing
  was heard since; the health tick at instant 92001 leaves the phase \<open>Connecting\<close>.
\<close>

theorem stale_tick_leaves_phase_connecting:
  "run [(1500, TimerFires 1 Created False None), (2000, BotEmits (Login ''AternosGuard''))]
     example_boot = Some example_online \<and>
   isRunning example_online \<and> botStatus example_online = Online \<and>
   92001 - lastBotEventAt example_online > max (2 * pingInterval (config example_online)) 90000 \<and>
   timer_fires 2 Created False None 92001 example_online = healthTick 92001 example_online \<and>
   botStatus (healthTick 92001 example_online) = Connecting \<and>
   botStatus (healthTick 92001 example_online) \<noteq> Error"
proof -
  have st: "92001 - lastBotEventAt example_online > staleThreshold example_online"
    by (simp add: staleThreshold_def example_online_fields example_numbers)
  have "botStatus (healthTick 92001 example_online) = Connecting"
    using healthTick_stale(5) [OF example_online_fields(1) example_online_fields(3) st]
    by (simp add: example_online_fields)
  moreover have "timer_fires 2 Created False None 92001 example_online = healthTick 92001 example_online"
    by (simp add: timer_fires_def example_online_fields)
  ultimately show ?thesis
    using run_example_online by (simp add: example_online_fields example_numbers)
qed

theorem health_tick_recycles_and_requeues_witness:
  "run [(1500, TimerFires 1 Created False None), (2000, BotEmits (Login ''AternosGuard''))]
     example_boot = Some example_online \<and>
   isRunning example_online \<and> botStatus example_online = Online \<and>
   92001 - lastBotEventAt example_online > max (2 * pingInterval (config example_online)) 90000 \<and>
   botInst (healthTick 92001 example_online) = None \<and>
   liveBots (healthTick 92001 example_online) = [] \<and>
   serverStatus (healthTick 92001 example_online) = Unknown \<and>
   length (reconnect_timers (healthTick 92001 example_online)) = 1 \<and>
   botStatus (healthTick 92001 example_online) = Connecting \<and>
   \<not> 3000 - lastBotEventAt example_online > max (2 * pingInterval (config example_online)) 90000 \<and>
   healthTick 3000 example_online = example_online \<and>
   run [(1500, TimerFires 1 Created False None)] example_boot = Some example_started \<and>
   isRunning example_started \<and> botStatus example_started = Connecting \<and>
   reconnectTimer example_started = None \<and>
   length (reconnect_timers (healthTick 16500 example_started)) = 1 \<and>
   botStatus (healthTick 16500 example_started) = Connecting \<and>
   reconnectAttempts (healthTick 16500 example_started) = 1"
proof -
  have h1: "run [(1500, TimerFires 1 Created False None), (2000, BotEmits (Login ''AternosGuard''))]
              (boot no_config None ''00'' (\<lambda>i. ''id'') 0) = Some example_online"
    using run_example_online by (simp add: example_boot_def)
  have h2: "run [(1500, TimerFires 1 Created False None)] (boot no_config None ''00'' (\<lambda>i. ''id'') 0)
              = Some example_started"
    using run_example_started by (simp add: example_boot_def)
  show ?thesis
    using health_tick_recycles_and_requeues [OF h1 example_online_fields(1), of 92001]
      health_tick_recycles_and_requeues [OF h1 example_online_fields(1), of 3000]
      health_tick_recycles_and_requeues [OF h2 example_started_fields(1), of 16500]
      run_example_online run_example_started
    by (simp add: example_online_fields example_started_fields example_numbers)
qed

subsection \<open>Sessions\<close>

lemmas eval_strings = string_or_empty_def trim_def is_ws_def makeUserToken_def

lemma example_users:
  "users (config example_boot)
     = [\<lparr> u_id = ''id'', u_name = ''Owner'', u_role = Admin, u_token = ''admin_00'',
          u_createdAt = Stamp 0, u_lastLoginAt = None \<rparr>]"
  by (simp add: example_boot_def boot_def Let_def loadConfig_def no_config_def makeUserToken_def)

lemma example_signed_in_fields:
  "sessions example_signed_in ''h1'' = Some \<lparr> userId = ''id'', expiresAt = 1000 + SESSION_TTL_MS \<rparr>"
  "users (config example_signed_in)
     = [\<lparr> u_id = ''id'', u_name = ''Owner'', u_role = Admin, u_token = ''admin_00'',
          u_createdAt = Stamp 0, u_lastLoginAt = Some (Stamp 1000) \<rparr>]"
  by (simp_all add: example_signed_in_def post_login_def Let_def findUserByToken_def example_users
      eval_strings saveConfig_def createSession_def)

text \<open>
  C4. A session handle is 48 hexadecimal digits, so it is not empty. If
  \<open>resolveAuthFromToken\<close> returns a user and a session, the stored session was not expired
  at the first reading \<open>t1\<close> of the clock, and the session returned, which is the one now
  in the store, expires exactly \<open>SESSION_TTL_MS\<close> (14 days) after the second reading \<open>t2\<close>.
  If the stored session has an expiry of \<open>t1\<close> or earlier, the result is absent and the
  session is deleted from the store. At one instant \<open>t\<close>, \<open>t1 = t2 = t\<close>.
\<close>

theorem resolve_slides_expiry_and_purges_expired:
  "SESSION_TTL_MS = 14 * 24 * 60 * 60 * 1000 \<and>
   (resolveAuthFromToken (Some tok) t1 t2 s = (Some (u, sess), s') \<longrightarrow>
      expiresAt sess = t2 + SESSION_TTL_MS \<and> sessions s' tok = Some sess \<and>
      (\<exists>old. sessions s tok = Some old \<and> t1 < expiresAt old \<and> userId sess = userId old)) \<and>
   (tok \<noteq> [] \<and> sessions s tok = Some old \<and> expiresAt old \<le> t1 \<longrightarrow>
      resolveAuthFromToken (Some tok) t1 t2 s = (None, s\<lparr>sessions := (sessions s)(tok := None)\<rparr>) \<and>
      sessions (snd (resolveAuthFromToken (Some tok) t1 t2 s)) tok = None)"
  by (auto simp: resolveAuthFromToken_def SESSION_TTL_MS_def Let_def split: option.splits if_splits)

theorem resolve_slides_expiry_and_purges_expired_witness:
  "resolveAuthFromToken (Some ''h1'') 2000 2000 example_signed_in
     = (Some (\<lparr> u_id = ''id'', u_name = ''Owner'', u_role = Admin, u_token = ''admin_00'',
                 u_createdAt = Stamp 0, u_lastLoginAt = Some (Stamp 1000) \<rparr>,
              \<lparr> userId = ''id'', expiresAt = 2000 + SESSION_TTL_MS \<rparr>),
        example_signed_in\<lparr>sessions := (sessions example_signed_in)
           (''h1'' \<mapsto> \<lparr> userId = ''id'', expiresAt = 2000 + SESSION_TTL_MS \<rparr>)\<rparr>) \<and>
   expiresAt \<lparr> userId = ''id'', expiresAt = 2000 + SESSION_TTL_MS \<rparr> = 2000 + SESSION_TTL_MS \<and>
   ''h1'' \<noteq> [] \<and>
   sessions example_signed_in ''h1'' = Some \<lparr> userId = ''id'', expiresAt = 1000 + SESSION_TTL_MS \<rparr> \<and>
   expiresAt \<lparr> userId = ''id'', expiresAt = 1000 + SESSION_TTL_MS \<rparr> \<le> 1000 + SESSION_TTL_MS \<and>
   resolveAuthFromToken (Some ''h1'') (1000 + SESSION_TTL_MS) (1000 + SESSION_TTL_MS) example_signed_in
     = (None, example_signed_in\<lparr>sessions := (sessions example_signed_in)(''h1'' := None)\<rparr>)"
proof -
  let ?u = "\<lparr> u_id = ''id'', u_name = ''Owner'', u_role = Admin, u_token = ''admin_00'',
              u_createdAt = Stamp 0, u_lastLoginAt = Some (Stamp 1000) \<rparr>"
  let ?new = "\<lparr> userId = ''id'', expiresAt = 2000 + SESSION_TTL_MS \<rparr>"
  let ?old = "\<lparr> userId = ''id'', expiresAt = 1000 + SESSION_TTL_MS \<rparr>"
  let ?s' = "example_signed_in\<lparr>sessions := (sessions example_signed_in)(''h1'' \<mapsto> ?new)\<rparr>"
  have r: "resolveAuthFromToken (Some ''h1'') 2000 2000 example_signed_in = (Some (?u, ?new), ?s')"
    by (simp add: resolveAuthFromToken_def example_signed_in_fields SESSION_TTL_MS_def Let_def)
  have o: "''h1'' \<noteq> [] \<and> sessions example_signed_in ''h1'' = Some ?old \<and>
           expiresAt ?old \<le> 1000 + SESSION_TTL_MS"
    by (simp add: example_signed_in_fields)
  have a: "expiresAt ?new = 2000 + SESSION_TTL_MS"
    using r resolve_slides_expiry_and_purges_expired
            [where tok = "''h1''" and ?t1.0 = 2000 and ?t2.0 = 2000 and s = example_signed_in
               and u = ?u and sess = ?new and s' = ?s' and old = ?old]
    by blast
  have b: "resolveAuthFromToken (Some ''h1'') (1000 + SESSION_TTL_MS) (1000 + SESSION_TTL_MS)
             example_signed_in
           = (None, example_signed_in\<lparr>sessions := (sessions example_signed_in)(''h1'' := None)\<rparr>)"
    using o resolve_slides_expiry_and_purges_expired
            [where tok = "''h1''" and ?t1.0 = "1000 + SESSION_TTL_MS" and ?t2.0 = "1000 + SESSION_TTL_MS"
               and s = example_signed_in and u = ?u and sess = ?new and s' = ?s' and old = ?old]
    by blast
  from r o a b show ?thesis by blast
qed

subsection \<open>What the controller leaves alone\<close>

lemma config_prims [simp]:
  "config (clearReconnectTimer s) = config s"
  "config (stopHealthTimer s) = config s"
  "config (startPingTimer s) = config s"
  "config (startHealthTimer s) = config s"
  "config (snd (setTimer k s)) = config s"
  by (simp_all add: clearReconnectTimer_def stopHealthTimer_def startPingTimer_def
      startHealthTimer_def setTimer_def Let_def split: option.splits)

lemma config_createBot [simp]: "config (createBot outcome t s) = config s"
  by (cases outcome) (simp_all add: createBot_def Let_def)

lemma config_startBot [simp]: "config (snd (startBot a outcome t s)) = config s"
  by (simp add: startBot_def Let_def)

lemma config_stopBot [simp]: "config (snd (stopBot a t s)) = config s"
  by (simp add: stopBot_def Let_def)

lemma config_restartBot [simp]: "config (snd (restartBot a t s)) = config s"
  by (simp add: restartBot_def Let_def split_def)

lemma config_control_action [simp]: "config (snd (control_action c a outcome t s)) = config s"
  by (cases c) (simp_all add: control_action_def)

lemma config_healthTick [simp]: "config (healthTick t s) = config s"
  by (simp add: healthTick_def Let_def)

lemma config_pingTick [simp]: "config (pingTick e x t s) = config s"
  by (simp add: pingTick_def Let_def split: option.splits)

lemma config_bot_emits [simp]: "config (bot_emits ev t s) = config s"
  by (cases ev)
     (simp_all add: bot_emits_def on_login_def on_spawn_def on_kicked_def on_error_def on_end_def
        on_activity_def Let_def)

lemma config_timer_fires [simp]: "config (timer_fires i outcome e x t s) = config s"
  by (simp add: timer_fires_def reconnectFires_def Let_def pruneExpiredSessions_def
      split: option.splits timer_kind.splits)

lemma config_resolve [simp]: "config (snd (resolveAuthFromToken tk t1 t2 s)) = config s"
  by (simp add: resolveAuthFromToken_def Let_def split: option.splits)

lemma config_requireAuth [simp]: "config (snd (requireAuth h t s)) = config s"
proof -
  have "snd (requireAuth h t s) = snd (resolveAuthFromToken (getBearerToken h) t t s)"
    by (simp add: requireAuth_def split: prod.splits option.splits)
  then show ?thesis by simp
qed

lemma config_authorize [simp]: "config (snd (authorize p h t s)) = config s"
proof -
  have "snd (authorize p h t s) = snd (requireAuth h t s)"
    by (simp add: authorize_def split: prod.splits sum.splits)
  then show ?thesis by simp
qed

lemma authorize_config: "authorize p h t s = (r, s') \<Longrightarrow> config s' = config s"
  using config_authorize [of p h t s] by simp

lemma config_route_control [simp]: "config (snd (route_control h c outcome t s)) = config s"
proof (cases "authorize BotControl h t s")
  case (Pair x s')
  then have "config s' = config s" by (rule authorize_config)
  then show ?thesis using Pair
    by (cases x; cases "control_action c (actor_of (projr x)) outcome t s'")
       (auto simp: route_control_def dest: arg_cong [where f = "\<lambda>p. config (snd p)"])
qed

lemma config_post_logout [simp]: "config (snd (post_logout h t s)) = config s"
proof (cases "requireAuth h t s")
  case (Pair r s')
  then have "config s' = config s" using config_requireAuth [of h t s] by simp
  then show ?thesis using Pair
    by (cases r; cases "getBearerToken h") (simp_all add: post_logout_def)
qed

subsection \<open>What the user routes leave alone\<close>

lemma only_users_refl [simp]: "only_users c c"
  by (simp add: only_users_def)

lemma only_users_update [simp]: "only_users c (c\<lparr>users := us\<rparr>)"
  by (simp add: only_users_def)

lemma store_user_config [simp]:
  "host (config (store_user r u s)) = host (config s)"
  "port (config (store_user r u s)) = port (config s)"
  "username (config (store_user r u s)) = username (config s)"
  "reconnectDelay (config (store_user r u s)) = reconnectDelay (config s)"
  "pingInterval (config (store_user r u s)) = pingInterval (config s)"
  "version (config (store_user r u s)) = version (config s)"
  by (simp_all add: store_user_def)

lemma config_revoke [simp]: "config (revokeSessionsForUser u s) = config s"
  by (simp add: revokeSessionsForUser_def)

lemma config_saveConfig [simp]: "config (saveConfig c s) = config s"
  by (simp add: saveConfig_def)

lemma config_finish_patch [simp]: "config (snd (finish_patch a u i r t s)) = config s"
  by (simp add: finish_patch_def Let_def)

lemma only_users_post_login: "only_users (config s) (config (snd (post_login b h t s)))"
  by (simp add: post_login_def Let_def createSession_def split: option.splits)

lemma only_users_create_user: "only_users (config s) (config (snd (create_user b a u x t s)))"
  by (simp add: create_user_def Let_def)

lemma only_users_delete_user: "only_users (config s) (config (snd (delete_user r a t s)))"
  by (simp add: delete_user_def Let_def split: option.splits)

lemma finish_patch_config: "finish_patch a u i r t s = (res, s') \<Longrightarrow> config s' = config s"
  using config_finish_patch [of a u i r t s] by simp

lemma only_users_apply_patch:
  "apply_patch r b a hs t tg nr s = Some (res, s') \<Longrightarrow> only_users (config s) (config s')"
  by (auto simp: apply_patch_def Let_def only_users_def split: option.splits if_splits
      dest!: finish_patch_config)

lemma only_users_patch_user:
  "patch_user r b a hs t s = Some (res, s') \<Longrightarrow> only_users (config s) (config s')"
  by (auto simp: patch_user_def Let_def split: option.splits if_splits dest: only_users_apply_patch)

lemma only_users_route_create_user:
  "only_users (config s) (config (snd (route_create_user h b u x t s)))"
proof (cases "authorize UsersWrite h t s")
  case (Pair r s')
  then have c: "config s' = config s" by (rule authorize_config)
  show ?thesis
    using Pair c only_users_create_user [of s' b "projr r" u x t]
    by (cases r) (simp_all add: route_create_user_def)
qed

lemma only_users_route_delete_user:
  "only_users (config s) (config (snd (route_delete_user h r t s)))"
proof (cases "authorize UsersWrite h t s")
  case (Pair x s')
  then have c: "config s' = config s" by (rule authorize_config)
  show ?thesis
    using Pair c only_users_delete_user [of s' r "projr x" t]
    by (cases x) (simp_all add: route_delete_user_def)
qed

lemma only_users_route_patch_user:
  assumes "route_patch_user h r b hs t s = Some (res, s')"
  shows "only_users (config s) (config s')"
proof (cases "authorize UsersWrite h t s")
  case (Pair x s1)
  then have c: "config s1 = config s" by (rule authorize_config)
  show ?thesis
  proof (cases x)
    case (Inl f)
    then show ?thesis using assms Pair c by (auto simp: route_patch_user_def)
  next
    case (Inr u)
    then have "patch_user r b u hs t s1 = Some (res, s')"
      using assms Pair by (simp add: route_patch_user_def)
    then have "only_users (config s1) (config s')" by (rule only_users_patch_user)
    then show ?thesis using c by simp
  qed
qed

lemma config_post_config: "config (snd (post_config b a t s)) = write_config b (config s)"
  by (simp add: post_config_def Let_def saveConfig_def)

lemma config_route_post_config:
  "config (snd (route_post_config h b t s)) = config s \<or>
   config (snd (route_post_config h b t s)) = write_config b (config s)"
proof (cases "authorize ConfigWrite h t s")
  case (Pair x s')
  then have c: "config s' = config s" by (rule authorize_config)
  show ?thesis
  proof (cases x)
    case (Inl f)
    then show ?thesis using Pair c by (simp add: route_post_config_def)
  next
    case (Inr u)
    then show ?thesis using Pair c config_post_config [of b u t s']
      by (cases "post_config b u t s'") (simp add: route_post_config_def)
  qed
qed

lemma step_config:
  assumes "step te s = Some s'"
  shows "only_users (config s) (config s') \<or> (\<exists>b. config s' = write_config b (config s))"
proof -
  obtain now e where te: "te = (now, e)" by (cases te)
  show ?thesis
  proof (cases e)
    case (Listening p)
    then show ?thesis using assms te by (auto simp: step_def)
  next
    case (Call c act outcome)
    then show ?thesis using assms te by (auto simp: step_def)
  next
    case (HttpControl h c outcome)
    then show ?thesis using assms te by (auto simp: step_def)
  next
    case (TimerFires i outcome e x)
    then show ?thesis using assms te by (auto simp: step_def)
  next
    case (BotEmits ev)
    then show ?thesis using assms te by (auto simp: step_def)
  next
    case (HttpLogin b h)
    then show ?thesis using assms te by (auto simp: step_def only_users_post_login)
  next
    case (HttpLogout h)
    then show ?thesis using assms te by (auto simp: step_def)
  next
    case (HttpGet p h)
    then show ?thesis using assms te by (cases p) (auto simp: step_def)
  next
    case (HttpPostConfig h b)
    then have "s' = snd (route_post_config h b now s)" using assms te by (simp add: step_def)
    then show ?thesis using config_route_post_config [of h b now s] by auto
  next
    case (HttpCreateUser h b u x)
    then show ?thesis using assms te by (auto simp: step_def only_users_route_create_user)
  next
    case (HttpPatchUser h r b hs)
    then obtain res where "route_patch_user h r b hs now s = Some (res, s')"
      using assms te by (auto simp: step_def)
    then show ?thesis by (auto dest: only_users_route_patch_user)
  next
    case (HttpDeleteUser h r)
    then show ?thesis using assms te by (auto simp: step_def only_users_route_delete_user)
  next
    case (WsConnect tk)
    then show ?thesis using assms te by (auto simp: step_def)
  qed
qed

subsection \<open>The numbers of the configuration\<close>

lemma toPositiveInt_cases:
  "toPositiveInt v fb = (if parses_positive v then toPositiveInt v fb else fb)"
  "parses_positive v \<Longrightarrow> parseInt (ToString v) = Fin (toPositiveInt v fb)"
  by (auto simp: toPositiveInt_def parses_positive_def split: jsnum.splits)

lemma toPositiveInt_positive: "0 < fb \<Longrightarrow> 0 < toPositiveInt v fb"
  by (simp add: toPositiveInt_def split: jsnum.splits)

lemma toPositiveInt_keeps: "\<not> parses_positive v \<Longrightarrow> toPositiveInt v fb = fb"
  by (auto simp: toPositiveInt_def parses_positive_def split: jsnum.splits)

lemma parses_positive_undefined [simp]: "\<not> parses_positive JUndefined"
  by (simp add: parses_positive_def parseInt_def is_ws_def is_digit_def)

lemma write_config_numbers:
  "port (write_config b c) = (if b_port b = JUndefined then port c else toPositiveInt (b_port b) (port c))"
  "reconnectDelay (write_config b c)
     = (if b_reconnectDelay b = JUndefined then reconnectDelay c
        else toPositiveInt (b_reconnectDelay b) (reconnectDelay c))"
  "pingInterval (write_config b c)
     = (if b_pingInterval b = JUndefined then pingInterval c
        else toPositiveInt (b_pingInterval b) (pingInterval c))"
  by (simp_all add: write_config_def Let_def split: option.splits)

lemma positive_write_config: "positive_numbers c \<Longrightarrow> positive_numbers (write_config b c)"
  by (simp add: positive_numbers_def write_config_numbers toPositiveInt_positive)

lemma loadConfig_numbers:
  "port (loadConfig raw env hex uuid t)
     = toPositiveInt (merged (JNum (show_int 39695)) (r_port raw)) 39695"
  "reconnectDelay (loadConfig raw env hex uuid t)
     = toPositiveInt (merged (JNum (show_int 15000)) (r_reconnectDelay raw)) 15000"
  "pingInterval (loadConfig raw env hex uuid t)
     = toPositiveInt (merged (JNum (show_int 45000)) (r_pingInterval raw)) 45000"
  by (simp_all add: loadConfig_def Let_def DEFAULT_CONFIG_def)

lemma positive_loadConfig: "positive_numbers (loadConfig raw env hex uuid t)"
  by (simp add: positive_numbers_def loadConfig_numbers toPositiveInt_positive)

lemma default_parses:
  "toPositiveInt (JNum (show_int 39695)) 39695 = 39695"
  "toPositiveInt (JNum (show_int 15000)) 15000 = 15000"
  "toPositiveInt (JNum (show_int 45000)) 45000 = 45000"
  by (simp_all add: toPositiveInt_def parseInt_def is_ws_def is_digit_def digits_val_def
      digit_val_def number_of_def round_double_def show_int_def show_nat.simps digit_char_def)

lemma merged_keeps_default:
  "\<not> parses_positive v \<Longrightarrow> toPositiveInt (JNum img) d = d \<Longrightarrow> toPositiveInt (merged (JNum img) v) d = d"
  by (simp add: merged_def toPositiveInt_keeps)

lemma positive_step: "positive_numbers (config s) \<Longrightarrow> step te s = Some s' \<Longrightarrow> positive_numbers (config s')"
  using step_config [of te s s']
  by (auto simp: only_users_def positive_numbers_def write_config_numbers toPositiveInt_positive)

lemma positive_run: "positive_numbers (config s) \<Longrightarrow> run tes s = Some s' \<Longrightarrow> positive_numbers (config s')"
proof (induction tes arbitrary: s)
  case Nil
  then show ?case by simp
next
  case (Cons te tes)
  then show ?case by (auto split: option.splits dest: positive_step)
qed

text \<open>
  C10. A number of the model is an integer, as every finite result of \<^verbatim>\<open>parseInt\<close> is.
  \<open>loadConfig\<close> gives positive \<open>port\<close>, \<open>reconnectDelay\<close> and \<open>pingInterval\<close>, and the default
  where the value of the file does not parse to a positive integer; they stay positive
  in every state the server reaches; and a write keeps them positive, leaving a field
  as it was where the value supplied does not parse to a positive integer.
\<close>

theorem config_numbers_stay_positive:
  "positive_numbers (loadConfig raw env hex uuid t0) \<and>
   (\<not> parses_positive (r_port raw) \<longrightarrow>
      port (loadConfig raw env hex uuid t0) = port DEFAULT_CONFIG) \<and>
   (\<not> parses_positive (r_reconnectDelay raw) \<longrightarrow>
      reconnectDelay (loadConfig raw env hex uuid t0) = reconnectDelay DEFAULT_CONFIG) \<and>
   (\<not> parses_positive (r_pingInterval raw) \<longrightarrow>
      pingInterval (loadConfig raw env hex uuid t0) = pingInterval DEFAULT_CONFIG) \<and>
   (run tes (boot raw env hex uuid t0) = Some s \<longrightarrow>
      positive_numbers (config s) \<and> positive_numbers (write_config b (config s))) \<and>
   (\<not> parses_positive (b_port b) \<longrightarrow> port (write_config b c) = port c) \<and>
   (\<not> parses_positive (b_reconnectDelay b) \<longrightarrow>
      reconnectDelay (write_config b c) = reconnectDelay c) \<and>
   (\<not> parses_positive (b_pingInterval b) \<longrightarrow> pingInterval (write_config b c) = pingInterval c)"
proof -
  have b0: "positive_numbers (config (boot raw env hex uuid t0))"
    by (simp add: boot_def Let_def positive_loadConfig)
  have r: "run tes (boot raw env hex uuid t0) = Some s \<Longrightarrow>
           positive_numbers (config s) \<and> positive_numbers (write_config b (config s))"
    using positive_run [OF b0] positive_write_config by blast
  have l: "\<not> parses_positive (r_port raw) \<Longrightarrow> port (loadConfig raw env hex uuid t0) = port DEFAULT_CONFIG"
    "\<not> parses_positive (r_reconnectDelay raw) \<Longrightarrow>
       reconnectDelay (loadConfig raw env hex uuid t0) = reconnectDelay DEFAULT_CONFIG"
    "\<not> parses_positive (r_pingInterval raw) \<Longrightarrow>
       pingInterval (loadConfig raw env hex uuid t0) = pingInterval DEFAULT_CONFIG"
    by (simp_all add: loadConfig_numbers merged_keeps_default default_parses DEFAULT_CONFIG_def)
  have w: "\<not> parses_positive (b_port b) \<Longrightarrow> port (write_config b c) = port c"
    "\<not> parses_positive (b_reconnectDelay b) \<Longrightarrow> reconnectDelay (write_config b c) = reconnectDelay c"
    "\<not> parses_positive (b_pingInterval b) \<Longrightarrow> pingInterval (write_config b c) = pingInterval c"
    by (simp_all add: write_config_numbers toPositiveInt_keeps)
  from positive_loadConfig r l w show ?thesis by blast
qed

lemmas eval_parse = parses_positive_def parseInt_def is_ws_def is_digit_def digits_val_def
  digit_val_def number_of_def round_double_def

theorem config_numbers_stay_positive_witness:
  "\<not> parses_positive (r_port example_bad_raw) \<and>
   \<not> parses_positive (r_reconnectDelay example_bad_raw) \<and>
   \<not> parses_positive (r_pingInterval example_bad_raw) \<and>
   port example_bad_loaded = 39695 \<and> reconnectDelay example_bad_loaded = 15000 \<and>
   pingInterval example_bad_loaded = 45000 \<and>
   run [(1500, TimerFires 1 Created False None)] example_boot = Some example_started \<and>
   positive_numbers (config example_started) \<and>
   \<not> parses_positive (b_port example_bad_body) \<and>
   \<not> parses_positive (b_reconnectDelay example_bad_body) \<and>
   \<not> parses_positive (b_pingInterval example_bad_body) \<and>
   port (write_config example_bad_body (config example_started)) = 39695 \<and>
   reconnectDelay (write_config example_bad_body (config example_started)) = 15000 \<and>
   pingInterval (write_config example_bad_body (config example_started)) = 45000 \<and>
   host (write_config example_bad_body (config example_started)) = ''mc.example.org''"
proof -
  have n: "\<not> parses_positive (r_port example_bad_raw)"
    "\<not> parses_positive (r_reconnectDelay example_bad_raw)"
    "\<not> parses_positive (r_pingInterval example_bad_raw)"
    "\<not> parses_positive (b_port example_bad_body)"
    "\<not> parses_positive (b_reconnectDelay example_bad_body)"
    "\<not> parses_positive (b_pingInterval example_bad_body)"
    by (simp_all add: example_bad_raw_def example_bad_body_def eval_parse)
  have h: "run [(1500, TimerFires 1 Created False None)] (boot no_config None ''00'' (\<lambda>i. ''id'') 0)
             = Some example_started"
    using run_example_started by (simp add: example_boot_def)
  have hst: "host (write_config example_bad_body (config example_started)) = ''mc.example.org''"
    by (simp add: write_config_def Let_def example_bad_body_def nonblank_string_def trim_def is_ws_def)
  note t1 = config_numbers_stay_positive
              [where raw = example_bad_raw and env = None and hex = "''00''" and uuid = "\<lambda>i. ''id''"
                 and ?t0.0 = 0 and tes = "[]" and s = "boot example_bad_raw None ''00'' (\<lambda>i. ''id'') 0"
                 and b = example_bad_body and c = "config example_started"]
  note t2 = config_numbers_stay_positive
              [where raw = no_config and env = None and hex = "''00''" and uuid = "\<lambda>i. ''id''"
                 and ?t0.0 = 0 and tes = "[(1500, TimerFires 1 Created False None)]"
                 and s = example_started and b = example_bad_body and c = "config example_started"]
  show ?thesis
    using n h hst t1 t2 run_example_started
    by (simp add: example_bad_loaded_def DEFAULT_CONFIG_def example_started_fields example_numbers)
qed

subsection \<open>The admins\<close>

lemma has_admin_count: "has_admin s \<longleftrightarrow> 0 < adminCount (users (config s))"
  by (simp add: has_admin_def adminCount_def list_ex_iff filter_empty_conv)

lemma adminCount_update_first:
  "find P us = Some x \<Longrightarrow>
   adminCount (update_first P (\<lambda>_. y) us) + (if u_role x = Admin then 1 else 0)
     = adminCount us + (if u_role y = Admin then 1 else 0)"
  by (induction us) (auto simp: adminCount_def split: if_splits)

lemma adminCount_same_role:
  "find P us = Some x \<Longrightarrow> u_role y = u_role x \<Longrightarrow> adminCount (update_first P (\<lambda>_. y) us) = adminCount us"
  using adminCount_update_first [of P us x y] by simp

lemma update_first_none: "find P us = None \<Longrightarrow> update_first P f us = us"
  by (induction us) (auto split: if_splits)

lemma find_update_first:
  "find P us = Some x \<Longrightarrow> P y \<Longrightarrow> find P (update_first P (\<lambda>_. y) us) = Some y"
  by (induction us) (auto split: if_splits)

lemma find_satisfies: "find P us = Some x \<Longrightarrow> P x \<and> x \<in> set us"
  by (induction us) (auto split: if_splits)

lemma users_store_user [simp]:
  "users (config (store_user r u s)) = update_first (\<lambda>x. u_id x = r) (\<lambda>x. u) (users (config s))"
  by (simp add: store_user_def)

lemma assign_fields [simp]:
  "u_id (assign_name_role b nr x) = u_id x"
  "u_role (assign_name_role b nr x) = nr"
  "u_id (assign_token p x) = u_id x"
  "u_role (assign_token p x) = u_role x"
  by (simp_all add: assign_name_role_def assign_token_def Let_def)

lemma finish_patch_users:
  "finish_patch a u i r t s = (res, s') \<Longrightarrow> users (config s') = users (config s)"
  by (auto simp: finish_patch_def Let_def revokeSessionsForUser_def saveConfig_def)

lemma patch_user_rejected:
  assumes "find (\<lambda>u. u_id u = rid) (users (config s)) = Some target"
    and "(u_id target = u_id actor \<and> next_role b target \<noteq> Admin) \<or>
         (u_role target = Admin \<and> next_role b target \<noteq> Admin \<and> adminCount (users (config s)) \<le> 1)"
  shows "\<exists>m. patch_user rid b actor hexes t s = Some (Inl (Failure 400 m), s)"
  using assms by (auto simp: patch_user_def Let_def)

lemma patch_user_accepted:
  assumes "find (\<lambda>u. u_id u = rid) (users (config s)) = Some target"
    and "\<not> (u_id target = u_id actor \<and> next_role b target \<noteq> Admin)"
    and "\<not> (u_role target = Admin \<and> next_role b target \<noteq> Admin \<and> adminCount (users (config s)) \<le> 1)"
  shows "patch_user rid b actor hexes t s = apply_patch rid b actor hexes t target (next_role b target) s"
  using assms by (auto simp: patch_user_def Let_def)

lemma has_admin_apply_patch:
  assumes "has_admin s" and "apply_patch rid b actor hexes t target nr s = Some (res, s')"
    and "find (\<lambda>u. u_id u = rid) (users (config s)) = Some target"
    and "\<not> (u_role target = Admin \<and> nr \<noteq> Admin \<and> adminCount (users (config s)) \<le> 1)"
  shows "has_admin s'"
proof -
  let ?P = "\<lambda>u. u_id u = rid"
  let ?t2 = "assign_name_role b nr target"
  let ?s2 = "store_user rid ?t2 s"
  let ?t3 = "assign_token (string_or_empty (ub_token b)) ?t2"
  let ?s3 = "store_user rid ?t3 ?s2"
  have id: "u_id target = rid" using find_satisfies [OF assms(3)] by simp
  have c2: "0 < adminCount (users (config ?s2))"
    using adminCount_update_first [OF assms(3), of ?t2] assms(1,4)
    by (auto simp: has_admin_count split: if_splits)
  have f2: "find ?P (users (config ?s2)) = Some ?t2"
    using find_update_first [OF assms(3), of ?t2] id by simp
  have c3: "adminCount (users (config ?s3)) = adminCount (users (config ?s2))"
    using adminCount_same_role [OF f2, of ?t3] by simp
  have f3: "find ?P (users (config ?s3)) = Some ?t3"
    using find_update_first [OF f2, of ?t3] id by simp
  have c4: "0 < adminCount (users (config (store_user rid y ?s3)))" if "u_role y = nr" for y
    using adminCount_same_role [OF f3, of y] that c2 c3 by simp
  have "s' = ?s2 \<or>
        (\<exists>y i r. u_role y = nr \<and> finish_patch actor y i r t (store_user rid y ?s3) = (res, s'))"
  proof (cases "string_or_empty (ub_token b) \<noteq> [] \<and>
                token_taken (string_or_empty (ub_token b)) (u_id ?t2) (users (config ?s2))")
    case True
    then show ?thesis using assms(2) by (simp add: apply_patch_def Let_def del: users_store_user)
  next
    case False
    then obtain tk where
      "finish_patch actor (?t3\<lparr>u_token := tk\<rparr>)
         (string_or_empty (ub_token b) \<noteq> [] \<or> ub_rotateToken b = JBool True)
         (nr \<noteq> u_role target \<or> string_or_empty (ub_token b) \<noteq> [] \<or> ub_rotateToken b = JBool True)
         t (store_user rid (?t3\<lparr>u_token := tk\<rparr>) ?s3) = (res, s')"
      using assms(2) unfolding apply_patch_def Let_def
      by (simp only: if_False split: option.splits) auto
    moreover have "u_role (?t3\<lparr>u_token := tk\<rparr>) = nr" by simp
    ultimately show ?thesis by blast
  qed
  then have "0 < adminCount (users (config s'))"
  proof (elim disjE exE conjE)
    assume "s' = ?s2"
    then show ?thesis using c2 by simp
  next
    fix y i r
    assume y: "u_role y = nr"
      and fp: "finish_patch actor y i r t (store_user rid y ?s3) = (res, s')"
    have "users (config s') = users (config (store_user rid y ?s3))"
      using fp by (rule finish_patch_users)
    then show ?thesis using c4 [OF y] by simp
  qed
  then show ?thesis by (simp add: has_admin_count)
qed

lemma has_admin_patch_user:
  assumes "has_admin s" and "patch_user rid b actor hexes t s = Some (res, s')"
  shows "has_admin s'"
proof (cases "find (\<lambda>u. u_id u = rid) (users (config s))")
  case None
  then show ?thesis using assms by (simp add: patch_user_def)
next
  case (Some target)
  show ?thesis
  proof (cases "(u_id target = u_id actor \<and> next_role b target \<noteq> Admin) \<or>
                (u_role target = Admin \<and> next_role b target \<noteq> Admin \<and>
                 adminCount (users (config s)) \<le> 1)")
    case True
    then have "s' = s" using patch_user_rejected [OF Some True, of hexes t] assms(2) by auto
    then show ?thesis using assms(1) by simp
  next
    case False
    then have n1: "\<not> (u_id target = u_id actor \<and> next_role b target \<noteq> Admin)"
      and n2: "\<not> (u_role target = Admin \<and> next_role b target \<noteq> Admin \<and>
                  adminCount (users (config s)) \<le> 1)"
      by simp_all
    have "apply_patch rid b actor hexes t target (next_role b target) s = Some (res, s')"
      using assms(2) patch_user_accepted [OF Some n1 n2, of hexes t] by simp
    then show ?thesis by (rule has_admin_apply_patch [OF assms(1) _ Some n2])
  qed
qed

lemma resolve_user:
  "resolveAuthFromToken tk t1 t2 s = (Some (u, sess), s') \<Longrightarrow>
   u \<in> set (users (config s)) \<and> config s' = config s"
  by (auto simp: resolveAuthFromToken_def Let_def split: option.splits if_splits
      dest: find_satisfies)

lemma requireAuth_user:
  "requireAuth h t s = (Inr u, s') \<Longrightarrow> u \<in> set (users (config s)) \<and> config s' = config s"
  by (auto simp: requireAuth_def split: prod.splits option.splits dest: resolve_user)

lemma authorize_admin:
  assumes "authorize UsersWrite h t s = (Inr actor, s')"
  shows "actor \<in> set (users (config s')) \<and> u_role actor = Admin \<and> config s' = config s"
proof (cases "requireAuth h t s")
  case (Pair x s1)
  show ?thesis
  proof (cases x)
    case (Inl f)
    then show ?thesis using assms Pair by (simp add: authorize_def)
  next
    case (Inr u)
    then have m: "u \<in> set (users (config s)) \<and> config s1 = config s"
      using Pair by (auto dest: requireAuth_user)
    have "requirePermission UsersWrite u = Inr actor \<and> s' = s1"
      using assms Pair Inr by (simp add: authorize_def)
    then have "actor = u \<and> u_role u = Admin \<and> s' = s1"
      by (cases "u_role u") (auto simp: requirePermission_def split: if_splits)
    then show ?thesis using m by simp
  qed
qed

lemma has_admin_member: "u \<in> set (users (config s)) \<Longrightarrow> u_role u = Admin \<Longrightarrow> has_admin s"
  by (auto simp: has_admin_def list_ex_iff)

lemma delete_user_rejected:
  assumes "find (\<lambda>u. u_id u = rid) (users (config s)) = Some target"
    and "u_id target = u_id actor \<or> (u_role target = Admin \<and> adminCount (users (config s)) \<le> 1)"
  shows "\<exists>m. delete_user rid actor t s = (Inl (Failure 400 m), s)"
  using assms by (auto simp: delete_user_def)

lemma has_admin_delete_user:
  assumes "actor \<in> set (users (config s))" and "u_role actor = Admin"
  shows "has_admin (snd (delete_user rid actor t s))"
proof (cases "find (\<lambda>u. u_id u = rid) (users (config s))")
  case None
  then show ?thesis using assms by (simp add: delete_user_def has_admin_member)
next
  case (Some target)
  show ?thesis
  proof (cases "u_id target = u_id actor \<or>
                (u_role target = Admin \<and> adminCount (users (config s)) \<le> 1)")
    case True
    then show ?thesis
      using delete_user_rejected [OF Some True, of t] assms by (auto simp: has_admin_member)
  next
    case False
    then have "users (config (snd (delete_user rid actor t s)))
                 = filter (\<lambda>u. u_id u \<noteq> u_id target) (users (config s))"
      using Some by (auto simp: delete_user_def Let_def)
    moreover have "actor \<in> set (filter (\<lambda>u. u_id u \<noteq> u_id target) (users (config s)))"
      using assms(1) False by auto
    ultimately show ?thesis using assms(2) by (auto simp: has_admin_member)
  qed
qed

lemma has_admin_route_delete_user:
  "has_admin s \<Longrightarrow> has_admin (snd (route_delete_user h rid t s))"
proof (cases "authorize UsersWrite h t s")
  case (Pair x s1)
  assume a: "has_admin s"
  have c: "config s1 = config s" using Pair by (rule authorize_config)
  show ?thesis
  proof (cases x)
    case (Inl f)
    then show ?thesis using Pair a c by (simp add: route_delete_user_def has_admin_def)
  next
    case (Inr actor)
    then have "actor \<in> set (users (config s1)) \<and> u_role actor = Admin"
      using Pair authorize_admin by blast
    then have "has_admin (snd (delete_user rid actor t s1))" by (simp add: has_admin_delete_user)
    then show ?thesis using Pair Inr by (simp add: route_delete_user_def)
  qed
qed

lemma has_admin_cong: "users (config s') = users (config s) \<Longrightarrow> has_admin s' = has_admin s"
  by (simp add: has_admin_def)

lemma has_admin_create_user: "has_admin s \<Longrightarrow> has_admin (snd (create_user b a u x t s))"
  by (auto simp: create_user_def Let_def has_admin_def)

lemma has_admin_route_create_user:
  "has_admin s \<Longrightarrow> has_admin (snd (route_create_user h b u x t s))"
proof (cases "authorize UsersWrite h t s")
  case (Pair r s1)
  assume a: "has_admin s"
  have c: "config s1 = config s" using Pair by (rule authorize_config)
  then have a1: "has_admin s1" using a by (simp add: has_admin_def)
  show ?thesis
    using Pair a1 has_admin_create_user [OF a1, of b "projr r" u x t]
    by (cases r) (simp_all add: route_create_user_def)
qed

lemma has_admin_route_patch_user:
  assumes "has_admin s" and "route_patch_user h rid b hs t s = Some (res, s')"
  shows "has_admin s'"
proof (cases "authorize UsersWrite h t s")
  case (Pair x s1)
  have c: "config s1 = config s" using Pair by (rule authorize_config)
  then have a1: "has_admin s1" using assms(1) by (simp add: has_admin_def)
  show ?thesis
  proof (cases x)
    case (Inl f)
    then show ?thesis using assms(2) Pair a1 by (auto simp: route_patch_user_def)
  next
    case (Inr actor)
    then have "patch_user rid b actor hs t s1 = Some (res, s')"
      using assms(2) Pair by (simp add: route_patch_user_def)
    then show ?thesis by (rule has_admin_patch_user [OF a1])
  qed
qed

lemma has_admin_post_login: "has_admin s \<Longrightarrow> has_admin (snd (post_login bt h t s))"
proof (cases "find (\<lambda>u. u_token u = string_or_empty bt) (users (config s))")
  case None
  assume "has_admin s"
  then show ?thesis using None by (simp add: post_login_def Let_def findUserByToken_def)
next
  case (Some found)
  assume a: "has_admin s"
  let ?u = "found\<lparr>u_lastLoginAt := Some (Stamp t)\<rparr>"
  have "adminCount (update_first (\<lambda>x. u_token x = string_or_empty bt) (\<lambda>x. ?u) (users (config s)))
          = adminCount (users (config s))"
    using adminCount_same_role [OF Some, of ?u] by simp
  then show ?thesis using a Some
    by (simp add: post_login_def Let_def findUserByToken_def createSession_def has_admin_count)
qed

lemma users_write_config [simp]: "users (write_config b c) = users c"
  by (simp add: write_config_def Let_def split: option.splits)

lemma has_admin_route_post_config:
  "has_admin s \<Longrightarrow> has_admin (snd (route_post_config h b t s))"
  using config_route_post_config [of h b t s] by (auto simp: has_admin_def)

lemma has_admin_step: "has_admin s \<Longrightarrow> step te s = Some s' \<Longrightarrow> has_admin s'"
proof -
  assume a: "has_admin s" and st: "step te s = Some s'"
  obtain now e where te: "te = (now, e)" by (cases te)
  show ?thesis
  proof (cases e)
    case (Listening p)
    then show ?thesis using a st te by (auto simp: step_def has_admin_def)
  next
    case (Call c act outcome)
    then show ?thesis using a st te by (auto simp: step_def has_admin_def)
  next
    case (HttpControl h c outcome)
    then show ?thesis using a st te by (auto simp: step_def has_admin_def)
  next
    case (TimerFires i outcome e x)
    then show ?thesis using a st te by (auto simp: step_def has_admin_def)
  next
    case (BotEmits ev)
    then show ?thesis using a st te by (auto simp: step_def has_admin_def)
  next
    case (HttpLogin b h)
    then show ?thesis using a st te by (auto simp: step_def has_admin_post_login)
  next
    case (HttpLogout h)
    then show ?thesis using a st te by (auto simp: step_def has_admin_def)
  next
    case (HttpGet p h)
    then show ?thesis using a st te by (cases p) (auto simp: step_def has_admin_def)
  next
    case (HttpPostConfig h b)
    then show ?thesis using a st te by (auto simp: step_def has_admin_route_post_config)
  next
    case (HttpCreateUser h b u x)
    then show ?thesis using a st te by (auto simp: step_def has_admin_route_create_user)
  next
    case (HttpPatchUser h r b hs)
    then obtain res where "route_patch_user h r b hs now s = Some (res, s')"
      using st te by (auto simp: step_def)
    then show ?thesis by (rule has_admin_route_patch_user [OF a])
  next
    case (HttpDeleteUser h r)
    then show ?thesis using a st te by (auto simp: step_def has_admin_route_delete_user)
  next
    case (WsConnect tk)
    then show ?thesis using a st te by (auto simp: step_def has_admin_def)
  qed
qed

lemma has_admin_run: "has_admin s \<Longrightarrow> run tes s = Some s' \<Longrightarrow> has_admin s'"
proof (induction tes arbitrary: s)
  case Nil
  then show ?case by simp
next
  case (Cons te tes)
  then show ?case by (auto split: option.splits dest: has_admin_step)
qed

lemma users_boot:
  "users (config (boot raw env hex uuid t))
     = (if loaded_users raw uuid t = []
        then [\<lparr> u_id = uuid (case r_users raw of Some rs \<Rightarrow> length rs | None \<Rightarrow> 0),
                u_name = ''Owner'', u_role = Admin,
                u_token = (case env of
                             Some tk \<Rightarrow> (if tk \<noteq> [] then tk else makeUserToken ''admin'' hex)
                           | None \<Rightarrow> makeUserToken ''admin'' hex),
                u_createdAt = Stamp t, u_lastLoginAt = None \<rparr>]
        else loaded_users raw uuid t)"
  by (simp add: boot_def loadConfig_def loaded_users_def Let_def)

lemma has_admin_boot:
  "loaded_users raw uuid t = [] \<or> list_ex (\<lambda>u. u_role u = Admin) (loaded_users raw uuid t) \<Longrightarrow>
   has_admin (boot raw env hex uuid t)"
  by (auto simp: has_admin_def users_boot)

text \<open>
  C2, as the server has it. \<open>loadConfig\<close> seeds an admin only when the list it read is
  empty, so the server starts with an admin if that list is empty or holds one; from a
  state with an admin every event leads to a state with an admin. The handler of
  \<^verbatim>\<open>PATCH\<close> refuses, with status 400 and the state unchanged, a change of one's own role
  away from admin and a change of the last admin's role; the handler of \<^verbatim>\<open>DELETE\<close>
  refuses, in the same way, to delete oneself and to delete the last admin.
\<close>

theorem an_admin_remains:
  "(loaded_users raw uuid t0 = [] \<or> list_ex (\<lambda>u. u_role u = Admin) (loaded_users raw uuid t0)
      \<longrightarrow> has_admin (boot raw env hex uuid t0)) \<and>
   (has_admin s \<and> run tes s = Some s' \<longrightarrow> has_admin s') \<and>
   (find (\<lambda>u. u_id u = rid) (users (config s)) = Some target \<and>
    ((u_id target = u_id actor \<and> next_role b target \<noteq> Admin) \<or>
     (u_role target = Admin \<and> next_role b target \<noteq> Admin \<and> adminCount (users (config s)) \<le> 1))
      \<longrightarrow> (\<exists>m. patch_user rid b actor hexes t s = Some (Inl (Failure 400 m), s))) \<and>
   (find (\<lambda>u. u_id u = rid) (users (config s)) = Some target \<and>
    (u_id target = u_id actor \<or> (u_role target = Admin \<and> adminCount (users (config s)) \<le> 1))
      \<longrightarrow> (\<exists>m. delete_user rid actor t s = (Inl (Failure 400 m), s)))"
  using has_admin_boot [of raw uuid t0 env hex] has_admin_run [of s tes s']
    patch_user_rejected [of rid s target actor b hexes t]
    delete_user_rejected [of rid s target actor t]
  by blast

lemma example_viewer_users:
  "users (config example_viewer_boot)
     = [\<lparr> u_id = ''u1'', u_name = ''Vic'', u_role = Viewer, u_token = ''tv'',
          u_createdAt = Stamp 0, u_lastLoginAt = None \<rparr>]"
  by (simp add: example_viewer_boot_def example_viewer_raw_def users_boot loaded_users_def
      no_config_def normalize_all_def normalizeUser_def List.map_filter_def enumerate_eq_zip
      valid_role_def Let_def eval_strings)

text \<open>
  The claim fails at start-up: with a \<^verbatim>\<open>config.json\<close> that lists one viewer, the list is
  not empty, no admin is seeded, and the server runs without an admin.
\<close>

theorem viewer_only_file_boots_without_admin:
  "run [] example_viewer_boot = Some example_viewer_boot \<and>
   users (config example_viewer_boot)
     = [\<lparr> u_id = ''u1'', u_name = ''Vic'', u_role = Viewer, u_token = ''tv'',
          u_createdAt = Stamp 0, u_lastLoginAt = None \<rparr>] \<and>
   \<not> has_admin example_viewer_boot"
  by (simp add: example_viewer_users has_admin_def)

theorem an_admin_remains_witness:
  "has_admin example_boot \<and>
   run [(1500, TimerFires 1 Created False None)] example_boot = Some example_started \<and>
   has_admin example_started \<and>
   find (\<lambda>u. u_id u = ''id'') (users (config example_boot)) = Some example_owner \<and>
   u_id example_owner = u_id example_owner \<and>
   next_role example_demote_body example_owner \<noteq> Admin \<and>
   u_role example_owner = Admin \<and> adminCount (users (config example_boot)) \<le> 1 \<and>
   (\<exists>m. patch_user ''id'' example_demote_body example_owner [] 100 example_boot
          = Some (Inl (Failure 400 m), example_boot)) \<and>
   (\<exists>m. delete_user ''id'' example_owner 100 example_boot = (Inl (Failure 400 m), example_boot))"
proof -
  have l: "loaded_users no_config (\<lambda>i. ''id'') 0 = []"
    by (simp add: loaded_users_def no_config_def)
  have f: "find (\<lambda>u. u_id u = ''id'') (users (config example_boot)) = Some example_owner"
    by (simp add: example_users example_owner_def)
  have n: "next_role example_demote_body example_owner \<noteq> Admin"
    by (simp add: next_role_def example_demote_body_def valid_role_def)
  have o: "u_role example_owner = Admin" "adminCount (users (config example_boot)) \<le> 1"
    by (simp_all add: example_owner_def example_users adminCount_def)
  note t = an_admin_remains
             [where raw = no_config and uuid = "\<lambda>i. ''id''" and ?t0.0 = 0 and env = None
                and hex = "''00''" and s = example_boot
                and tes = "[(1500, TimerFires 1 Created False None)]" and s' = example_started
                and rid = "''id''" and target = example_owner and actor = example_owner
                and b = example_demote_body and hexes = "[]" and t = 100]
  have b: "has_admin example_boot" using t l by (simp add: example_boot_def)
  show ?thesis using t l f n o b run_example_started by (simp add: example_boot_def)
qed

subsection \<open>Revocation of sessions\<close>

lemma example_team_boot_users:
  "users (config example_team_boot)
     = [example_ann\<lparr>u_lastLoginAt := None\<rparr>, example_bob\<lparr>u_lastLoginAt := None\<rparr>, example_cy]"
  by (simp add: example_team_boot_def example_team_raw_def users_boot loaded_users_def
      no_config_def normalize_all_def normalizeUser_def List.map_filter_def enumerate_eq_zip
      valid_role_def Let_def eval_strings example_ann_def example_bob_def example_cy_def)

lemma example_team_fields:
  "users (config example_team) = [example_ann, example_bob, example_cy]"
  "sessions example_team ''ha'' = Some \<lparr> userId = ''a'', expiresAt = 1100 + SESSION_TTL_MS \<rparr>"
  "sessions example_team ''hb'' = Some \<lparr> userId = ''b'', expiresAt = 1000 + SESSION_TTL_MS \<rparr>"
  by (simp_all add: example_team_def post_login_def Let_def findUserByToken_def
      example_team_boot_users eval_strings saveConfig_def createSession_def
      example_ann_def example_bob_def example_cy_def)

lemma example_authorize:
  "authorize UsersWrite ''Bearer ha'' 1200 example_team
     = (Inr example_ann,
        example_team\<lparr>sessions := (sessions example_team)
           (''ha'' \<mapsto> \<lparr> userId = ''a'', expiresAt = 1200 + SESSION_TTL_MS \<rparr>)\<rparr>)"
  by (simp add: authorize_def requireAuth_def resolveAuthFromToken_def getBearerToken_def
      requirePermission_def Let_def example_team_fields trim_def is_ws_def SESSION_TTL_MS_def
      example_ann_def example_bob_def example_cy_def)

lemma sessions_store_user [simp]: "sessions (store_user r u s) = sessions s"
  by (simp add: store_user_def)

lemma sessions_finish_patch:
  "finish_patch a y i rv t s = (res, s') \<Longrightarrow>
   sessions s' = (if rv then sessions (revokeSessionsForUser (u_id y) s) else sessions s)"
  by (auto simp: finish_patch_def Let_def saveConfig_def)

lemma revoked_absent:
  "sessions s k = Some sess \<Longrightarrow> userId sess = uid \<Longrightarrow> sessions (revokeSessionsForUser uid s) k = None"
  by (simp add: revokeSessionsForUser_def)

lemma resolve_absent: "sessions s k = None \<Longrightarrow> fst (resolveAuthFromToken (Some k) t1 t2 s) = None"
  by (simp add: resolveAuthFromToken_def)

text \<open>
  On the path of success the sessions are revoked: when the handler of \<^verbatim>\<open>PATCH\<close>
  answers with success and the request
  changed the role, supplied a token or asked for a rotation, every session of the
  target is gone from the store, and resolving its handle gives nothing.
\<close>

lemma successful_patch_revokes_sessions:
  assumes "apply_patch rid b actor hexes t target nr s = Some (Inr su, s')"
    and "u_id target = rid"
    and "nr \<noteq> u_role target \<or> string_or_empty (ub_token b) \<noteq> [] \<or> ub_rotateToken b = JBool True"
    and "sessions s k = Some sess" and "userId sess = rid"
  shows "sessions s' k = None \<and> fst (resolveAuthFromToken (Some k) t1 t2 s') = None"
proof -
  let ?t3 = "assign_token (string_or_empty (ub_token b)) (assign_name_role b nr target)"
  obtain y s3 where fp: "finish_patch actor y (string_or_empty (ub_token b) \<noteq> [] \<or>
                            ub_rotateToken b = JBool True) True t s3 = (Inr su, s')"
    and y: "u_id y = rid" and s3: "sessions s3 = sessions s"
  proof -
    let ?taken = "string_or_empty (ub_token b) \<noteq> [] \<and>
                  token_taken (string_or_empty (ub_token b)) (u_id (assign_name_role b nr target))
                    (users (config (store_user rid (assign_name_role b nr target) s)))"
    have nt: "\<not> ?taken"
    proof
      assume ?taken
      then have "apply_patch rid b actor hexes t target nr s
                   = Some (Inl (Failure 409 ''Token already in use''),
                           store_user rid (assign_name_role b nr target) s)"
        by (simp add: apply_patch_def Let_def del: users_store_user)
      then show False using assms(1) by simp
    qed
    then obtain tk where
      "finish_patch actor (?t3\<lparr>u_token := tk\<rparr>)
         (string_or_empty (ub_token b) \<noteq> [] \<or> ub_rotateToken b = JBool True)
         (nr \<noteq> u_role target \<or> string_or_empty (ub_token b) \<noteq> [] \<or> ub_rotateToken b = JBool True)
         t (store_user rid (?t3\<lparr>u_token := tk\<rparr>)
              (store_user rid ?t3 (store_user rid (assign_name_role b nr target) s)))
       = (Inr su, s')"
      using assms(1) unfolding apply_patch_def Let_def
      by (simp only: if_False split: option.splits) auto
    then show ?thesis using assms(2,3) that [of "?t3\<lparr>u_token := tk\<rparr>"] by simp
  qed
  have "sessions s' = sessions (revokeSessionsForUser rid s3)"
    using sessions_finish_patch [OF fp] y by simp
  moreover have "sessions (revokeSessionsForUser rid s3) k = None"
    using assms(4,5) s3 by (simp add: revoked_absent)
  ultimately have "sessions s' k = None" by simp
  then show ?thesis by (simp add: resolve_absent)
qed

text \<open>
  C3 at the failing input. Ann, authorised, asks to make Bob an admin and to give him
  Cy's token. The handler assigns the role, then finds the token in use and answers 409:
  Bob is an admin in the list, his session \<open>hb\<close> is still in the store, and resolving it
  returns Bob with the role of an admin.
\<close>

theorem refused_patch_changes_role_and_keeps_sessions:
  "users (config example_team) = [example_ann, example_bob, example_cy] \<and>
   u_role example_bob = Operator \<and>
   sessions example_team ''hb'' = Some \<lparr> userId = ''b'', expiresAt = 1000 + SESSION_TTL_MS \<rparr> \<and>
   route_patch_user ''Bearer ha'' ''b'' example_promote_body [] 1200 example_team
     = Some (Inl (Failure 409 ''Token already in use''), example_team_after) \<and>
   users (config example_team_after) = [example_ann, example_bob\<lparr>u_role := Admin\<rparr>, example_cy] \<and>
   sessions example_team_after ''hb'' = Some \<lparr> userId = ''b'', expiresAt = 1000 + SESSION_TTL_MS \<rparr> \<and>
   fst (resolveAuthFromToken (Some ''hb'') 1300 1300 example_team_after)
     = Some (example_bob\<lparr>u_role := Admin\<rparr>, \<lparr> userId = ''b'', expiresAt = 1300 + SESSION_TTL_MS \<rparr>)"
proof -
  let ?s1 = "example_team\<lparr>sessions := (sessions example_team)
               (''ha'' \<mapsto> \<lparr> userId = ''a'', expiresAt = 1200 + SESSION_TTL_MS \<rparr>)\<rparr>"
  have p: "patch_user ''b'' example_promote_body example_ann [] 1200 ?s1
             = Some (Inl (Failure 409 ''Token already in use''), example_team_after)"
    by (simp add: patch_user_def apply_patch_def Let_def example_team_fields next_role_def
        valid_role_def adminCount_def assign_name_role_def token_taken_def store_user_def
        example_promote_body_def eval_strings example_team_after_def
        example_ann_def example_bob_def example_cy_def)
  have r: "route_patch_user ''Bearer ha'' ''b'' example_promote_body [] 1200 example_team
             = Some (Inl (Failure 409 ''Token already in use''), example_team_after)"
    using p by (simp add: route_patch_user_def example_authorize)
  have a: "users (config example_team_after) = [example_ann, example_bob\<lparr>u_role := Admin\<rparr>, example_cy]"
    "sessions example_team_after ''hb'' = Some \<lparr> userId = ''b'', expiresAt = 1000 + SESSION_TTL_MS \<rparr>"
    by (simp_all add: example_team_after_def example_team_fields)
  have v: "fst (resolveAuthFromToken (Some ''hb'') 1300 1300 example_team_after)
     = Some (example_bob\<lparr>u_role := Admin\<rparr>, \<lparr> userId = ''b'', expiresAt = 1300 + SESSION_TTL_MS \<rparr>)"
    by (simp add: resolveAuthFromToken_def Let_def a SESSION_TTL_MS_def
        example_ann_def example_bob_def example_cy_def)
  show ?thesis using r a v by (simp add: example_team_fields example_bob_def)
qed

subsection \<open>The bound of the log in every state\<close>

lemma log_ok_addLog [simp]: "log_ok s \<Longrightarrow> log_ok (addLog l m t s)"
  by (simp add: log_ok_def logs_addLog push_log_last)

lemma log_ok_updates [simp]:
  "log_ok (broadcastStatus t s) = log_ok s"
  "log_ok (markBotActivity t s) = log_ok s"
  "log_ok (clearReconnectTimer s) = log_ok s"
  "log_ok (stopPingTimer s) = log_ok s"
  "log_ok (stopHealthTimer s) = log_ok s"
  "log_ok (quitBot r s) = log_ok s"
  "log_ok (snd (setTimer k s)) = log_ok s"
  "log_ok (saveConfig c s) = log_ok s"
  "log_ok (revokeSessionsForUser u s) = log_ok s"
  "log_ok (pruneExpiredSessions t s) = log_ok s"
  "log_ok (store_user u x s) = log_ok s"
  by (simp_all add: log_ok_def markBotActivity_def clearReconnectTimer_def stopPingTimer_def
      stopHealthTimer_def quitBot_def setTimer_def saveConfig_def revokeSessionsForUser_def
      pruneExpiredSessions_def store_user_def split: option.splits)

lemma log_ok_fields [simp]:
  "log_ok (s\<lparr>botStatus := a\<rparr>) = log_ok s"
  "log_ok (s\<lparr>serverStatus := b\<rparr>) = log_ok s"
  "log_ok (s\<lparr>reconnectAttempts := c\<rparr>) = log_ok s"
  "log_ok (s\<lparr>lastPing := d\<rparr>) = log_ok s"
  "log_ok (s\<lparr>botStartTime := f\<rparr>) = log_ok s"
  "log_ok (s\<lparr>keepAlivePulseCount := g\<rparr>) = log_ok s"
  "log_ok (s\<lparr>loginListener := h\<rparr>) = log_ok s"
  "log_ok (s\<lparr>config := i\<rparr>) = log_ok s"
  "log_ok (s\<lparr>sessions := k\<rparr>) = log_ok s"
  "log_ok (s\<lparr>isRunning := n\<rparr>) = log_ok s"
  "log_ok (s\<lparr>reconnectTimer := p\<rparr>) = log_ok s"
  "log_ok (s\<lparr>pingTimer := q\<rparr>) = log_ok s"
  "log_ok (s\<lparr>healthTimer := r\<rparr>) = log_ok s"
  "log_ok (s\<lparr>pendingTimers := u\<rparr>) = log_ok s"
  "log_ok (s\<lparr>botInst := v\<rparr>) = log_ok s"
  "log_ok (s\<lparr>liveBots := w\<rparr>) = log_ok s"
  "log_ok (s\<lparr>nextHandle := x\<rparr>) = log_ok s"
  by (simp_all add: log_ok_def)

lemma log_ok_queueReconnect [simp]: "log_ok s \<Longrightarrow> log_ok (queueReconnect r t s)"
  by (simp add: queueReconnect_def Let_def split_def)

lemma log_ok_startTimers [simp]:
  "log_ok (startPingTimer s) = log_ok s" "log_ok (startHealthTimer s) = log_ok s"
  by (simp_all add: startPingTimer_def startHealthTimer_def Let_def split_def)

lemma log_ok_createBot [simp]: "log_ok s \<Longrightarrow> log_ok (createBot outcome t s)"
  by (cases outcome) (simp_all add: createBot_def Let_def)

lemma log_ok_startBot [simp]: "log_ok s \<Longrightarrow> log_ok (snd (startBot a outcome t s))"
  by (simp add: startBot_def Let_def)

lemma log_ok_stopBot [simp]: "log_ok s \<Longrightarrow> log_ok (snd (stopBot a t s))"
  by (simp add: stopBot_def Let_def)

lemma log_ok_restartBot [simp]: "log_ok s \<Longrightarrow> log_ok (snd (restartBot a t s))"
  by (simp add: restartBot_def Let_def split_def)

lemma log_ok_control_action [simp]: "log_ok s \<Longrightarrow> log_ok (snd (control_action c a outcome t s))"
  by (cases c) (simp_all add: control_action_def)

lemma log_ok_healthTick [simp]: "log_ok s \<Longrightarrow> log_ok (healthTick t s)"
  by (simp add: healthTick_def Let_def)

lemma log_ok_pingTick [simp]: "log_ok s \<Longrightarrow> log_ok (pingTick e x t s)"
  by (simp add: pingTick_def Let_def split: option.splits)

lemma log_ok_bot_emits [simp]: "log_ok s \<Longrightarrow> log_ok (bot_emits ev t s)"
  by (cases ev)
     (simp_all add: bot_emits_def on_login_def on_spawn_def on_kicked_def on_error_def on_end_def
        on_activity_def Let_def)

lemma log_ok_timer_fires [simp]: "log_ok s \<Longrightarrow> log_ok (timer_fires i outcome e x t s)"
  by (simp add: timer_fires_def reconnectFires_def Let_def split: option.splits timer_kind.splits)

lemma log_ok_resolve [simp]: "log_ok (snd (resolveAuthFromToken tk t1 t2 s)) = log_ok s"
  by (simp add: resolveAuthFromToken_def Let_def split: option.splits)

lemma log_ok_requireAuth [simp]: "log_ok (snd (requireAuth h t s)) = log_ok s"
proof -
  have "snd (requireAuth h t s) = snd (resolveAuthFromToken (getBearerToken h) t t s)"
    by (simp add: requireAuth_def split: prod.splits option.splits)
  then show ?thesis by simp
qed

lemma log_ok_authorize [simp]: "log_ok (snd (authorize p h t s)) = log_ok s"
proof -
  have "snd (authorize p h t s) = snd (requireAuth h t s)"
    by (simp add: authorize_def split: prod.splits sum.splits)
  then show ?thesis by simp
qed

lemma authorize_log_ok: "authorize p h t s = (r, s') \<Longrightarrow> log_ok s' = log_ok s"
  using log_ok_authorize [of p h t s] by simp

lemma log_ok_post_login [simp]: "log_ok s \<Longrightarrow> log_ok (snd (post_login b h t s))"
  by (simp add: post_login_def Let_def createSession_def split: option.splits)

lemma log_ok_post_logout [simp]: "log_ok (snd (post_logout h t s)) = log_ok s"
proof (cases "requireAuth h t s")
  case (Pair r s')
  then have "log_ok s' = log_ok s" using log_ok_requireAuth [of h t s] by simp
  then show ?thesis using Pair
    by (cases r; cases "getBearerToken h") (simp_all add: post_logout_def)
qed

lemma log_ok_post_config [simp]: "log_ok s \<Longrightarrow> log_ok (snd (post_config b a t s))"
  by (simp add: post_config_def Let_def)

lemma log_ok_create_user [simp]: "log_ok s \<Longrightarrow> log_ok (snd (create_user b a u x t s))"
  by (simp add: create_user_def Let_def)

lemma log_ok_delete_user [simp]: "log_ok s \<Longrightarrow> log_ok (snd (delete_user r a t s))"
  by (simp add: delete_user_def Let_def split: option.splits)

lemma log_ok_finish_patch [simp]: "log_ok s \<Longrightarrow> log_ok (snd (finish_patch a u i r t s))"
  by (simp add: finish_patch_def Let_def)

lemma finish_patch_log_ok: "finish_patch a u i r t s = (res, s') \<Longrightarrow> log_ok s \<Longrightarrow> log_ok s'"
  using log_ok_finish_patch [of s a u i r t] by simp

lemma log_ok_apply_patch:
  "apply_patch r b a hs t tg nr s = Some (res, s') \<Longrightarrow> log_ok s \<Longrightarrow> log_ok s'"
  by (auto simp: apply_patch_def Let_def split: option.splits if_splits dest!: finish_patch_log_ok)

lemma log_ok_patch_user:
  "patch_user r b a hs t s = Some (res, s') \<Longrightarrow> log_ok s \<Longrightarrow> log_ok s'"
  by (auto simp: patch_user_def Let_def split: option.splits if_splits dest: log_ok_apply_patch)

lemma log_ok_route:
  assumes "authorize p h t s = (x, s1)" and "log_ok s"
  shows "log_ok s1"
  using authorize_log_ok [OF assms(1)] assms(2) by simp

lemma log_ok_step: "log_ok s \<Longrightarrow> step te s = Some s' \<Longrightarrow> log_ok s'"
proof -
  assume a: "log_ok s" and st: "step te s = Some s'"
  obtain now e where te: "te = (now, e)" by (cases te)
  show ?thesis
  proof (cases e)
    case (Listening p)
    then show ?thesis using a st te by (auto simp: step_def)
  next
    case (Call c act outcome)
    then show ?thesis using a st te by (auto simp: step_def)
  next
    case (HttpControl h c outcome)
    obtain x s1 where au: "authorize BotControl h now s = (x, s1)" by (cases "authorize BotControl h now s")
    have l1: "log_ok s1" using au a by (rule log_ok_route)
    have e: "s' = snd (route_control h c outcome now s)" using HttpControl st te by (simp add: step_def)
    show ?thesis
    proof (cases x)
      case (Inl f)
      then show ?thesis using e au l1 by (simp add: route_control_def)
    next
      case (Inr u)
      obtain res s2 where ca: "control_action c (actor_of u) outcome now s1 = (res, s2)"
        by (cases "control_action c (actor_of u) outcome now s1")
      have "log_ok s2" using log_ok_control_action [OF l1, of c "actor_of u" outcome now] ca by simp
      then show ?thesis using e au Inr ca by (simp add: route_control_def)
    qed
  next
    case (TimerFires i outcome e x)
    then show ?thesis using a st te by (auto simp: step_def)
  next
    case (BotEmits ev)
    then show ?thesis using a st te by (auto simp: step_def)
  next
    case (HttpLogin b h)
    then show ?thesis using a st te by (auto simp: step_def)
  next
    case (HttpLogout h)
    then show ?thesis using a st te by (auto simp: step_def)
  next
    case (HttpGet p h)
    then show ?thesis using a st te by (cases p) (auto simp: step_def)
  next
    case (HttpPostConfig h b)
    obtain x s1 where au: "authorize ConfigWrite h now s = (x, s1)" by (cases "authorize ConfigWrite h now s")
    have l1: "log_ok s1" using au a by (rule log_ok_route)
    have e: "s' = snd (route_post_config h b now s)" using HttpPostConfig st te by (simp add: step_def)
    show ?thesis
    proof (cases x)
      case (Inl f)
      then show ?thesis using e au l1 by (simp add: route_post_config_def)
    next
      case (Inr u)
      obtain res s2 where pc: "post_config b u now s1 = (res, s2)"
        by (cases "post_config b u now s1")
      have "log_ok s2" using log_ok_post_config [OF l1, of b u now] pc by simp
      then show ?thesis using e au Inr pc by (simp add: route_post_config_def)
    qed
  next
    case (HttpCreateUser h b u y)
    obtain x s1 where au: "authorize UsersWrite h now s = (x, s1)" by (cases "authorize UsersWrite h now s")
    have l1: "log_ok s1" using au a by (rule log_ok_route)
    have "s' = snd (route_create_user h b u y now s)" using HttpCreateUser st te by (simp add: step_def)
    then show ?thesis using au l1 log_ok_create_user [OF l1, of b "projr x" u y now]
      by (cases x) (simp_all add: route_create_user_def)
  next
    case (HttpPatchUser h r b hs)
    obtain x s1 where au: "authorize UsersWrite h now s = (x, s1)" by (cases "authorize UsersWrite h now s")
    have l1: "log_ok s1" using au a by (rule log_ok_route)
    obtain res where rp: "route_patch_user h r b hs now s = Some (res, s')"
      using HttpPatchUser st te by (auto simp: step_def)
    show ?thesis
    proof (cases x)
      case (Inl f)
      then show ?thesis using rp au l1 by (simp add: route_patch_user_def)
    next
      case (Inr u)
      then have "patch_user r b u hs now s1 = Some (res, s')" using rp au by (simp add: route_patch_user_def)
      then show ?thesis using l1 by (rule log_ok_patch_user)
    qed
  next
    case (HttpDeleteUser h r)
    obtain x s1 where au: "authorize UsersWrite h now s = (x, s1)" by (cases "authorize UsersWrite h now s")
    have l1: "log_ok s1" using au a by (rule log_ok_route)
    have "s' = snd (route_delete_user h r now s)" using HttpDeleteUser st te by (simp add: step_def)
    then show ?thesis using au l1 log_ok_delete_user [OF l1, of r "projr x" now]
      by (cases x) (simp_all add: route_delete_user_def)
  next
    case (WsConnect tk)
    then show ?thesis using a st te by (auto simp: step_def)
  qed
qed

lemma log_ok_run: "log_ok s \<Longrightarrow> run tes s = Some s' \<Longrightarrow> log_ok s'"
proof (induction tes arbitrary: s)
  case Nil
  then show ?case by simp
next
  case (Cons te tes)
  then show ?case by (auto split: option.splits dest: log_ok_step)
qed

lemma log_ok_boot: "log_ok (boot raw env hex uuid t)"
  by (simp add: log_ok_def boot_def Let_def)

text \<open>
  C9. In every state the server reaches the log holds at most \<open>MAX_LOGS = 500\<close> entries,
  and it still does after any further entries are appended; once at least 500 entries
  have been appended, \<^verbatim>\<open>GET /api/logs?limit=500\<close> returns exactly the last 500 of them,
  oldest first.
\<close>

theorem log_buffer_bounded_and_recent:
  assumes "run tes (boot raw env hex uuid t0) = Some s"
  shows "MAX_LOGS = 500 \<and>
         length (logs s) \<le> MAX_LOGS \<and>
         length (logs (append_all es s)) \<le> MAX_LOGS \<and>
         (MAX_LOGS \<le> length es \<longrightarrow>
            get_logs (JString ''500'') (append_all es s)
              = drop (length es - MAX_LOGS) (map entry_of es))"
proof -
  have "log_ok s" using log_ok_boot assms by (rule log_ok_run)
  then have l: "length (logs s) \<le> MAX_LOGS" by (simp add: log_ok_def)
  show ?thesis using l recent_after_appending [OF l, of es] by (simp add: MAX_LOGS_def)
qed

theorem log_buffer_bounded_and_recent_witness:
  "run [(1500, TimerFires 1 Created False None)] example_boot = Some example_started \<and>
   MAX_LOGS \<le> length (replicate 501 (''INFO'', ''m'', 7::int)) \<and>
   length (logs example_started) \<le> MAX_LOGS \<and>
   length (logs (append_all (replicate 501 (''INFO'', ''m'', 7)) example_started)) \<le> MAX_LOGS \<and>
   get_logs (JString ''500'') (append_all (replicate 501 (''INFO'', ''m'', 7)) example_started)
     = replicate 500 \<lparr> l_id = 7, l_time = 7, l_level = ''INFO'', l_message = ''m'' \<rparr>"
proof -
  have h: "run [(1500, TimerFires 1 Created False None)] (boot no_config None ''00'' (\<lambda>i. ''id'') 0)
             = Some example_started"
    using run_example_started by (simp add: example_boot_def)
  have n: "MAX_LOGS \<le> length (replicate 501 (''INFO'', ''m'', 7::int))"
    by (simp add: MAX_LOGS_def)
  note t = log_buffer_bounded_and_recent [OF h, of "replicate 501 (''INFO'', ''m'', 7)"]
  have g: "get_logs (JString ''500'') (append_all (replicate 501 (''INFO'', ''m'', 7)) example_started)
             = drop (length (replicate 501 (''INFO'', ''m'', 7::int)) - MAX_LOGS)
                 (map entry_of (replicate 501 (''INFO'', ''m'', 7)))"
    using t n by blast
  have d: "drop (length (replicate 501 (''INFO'', ''m'', 7::int)) - MAX_LOGS)
             (map entry_of (replicate 501 (''INFO'', ''m'', 7)))
           = replicate 500 \<lparr> l_id = 7, l_time = 7, l_level = ''INFO'', l_message = ''m'' \<rparr>"
    by (simp add: MAX_LOGS_def entry_of_def)
  from t n g d run_example_started show ?thesis by (simp only: simp_thms)
qed

end
